theory Spec2Isabelle
  imports Complex_Main "HOL-Library.Multiset"
begin

text \<open>
  A shallow embedding of the two handlers of the EDI bootstrap repository: the outbound
  handler, which resolves the routing of an event, issues the control numbers and fans
  the event out to its destinations, and the SFTP poller with its handler, which selects
  the remote files, transfers them and keeps the time of the last poll. The first part
  holds the definitions, translated function by function; the second part the properties.
\<close>

section \<open>JavaScript values and errors\<close>

text \<open>
  A JavaScript number is \<open>NaN\<close>, an infinity or a finite value; every finite double is a
  rational, and \<open>+0\<close> and \<open>-0\<close> are the one value \<open>Finite 0\<close> (they are equal under
  \<open>===\<close>).
\<close>

datatype jsnum = NaN | PosInfinity | NegInfinity | Finite rat

text \<open>
  Run-time values as \<open>JSON.parse\<close> and the event source produce them. An array has no
  holes; an object is its list of own properties.
\<close>

datatype jsval =
    JUndefined
  | JNull
  | JBool bool
  | JNumber jsnum
  | JString string
  | JArray "jsval list"
  | JObject "(string \<times> jsval) list"

text \<open>
  What a collaborator throws: \<open>ErrorWith m\<close> is an instance of \<open>Error\<close> with message
  \<open>m\<close>; \<open>Nullish\<close> is a thrown \<open>undefined\<close> or \<open>null\<close>; \<open>NonError m\<close> is any other thrown
  value that is no \<open>Error\<close> instance, with the \<open>message\<close> that \<open>serializeError\<close> leaves on
  it, if any.
\<close>

datatype thrown = ErrorWith string | Nullish | NonError "string option"

text \<open>
  What a \<open>throw\<close> carries. Beside \<open>Thrown\<close>, the constructors are the errors the source
  itself raises, one for each message template, with the values the template
  interpolates:
  \<^item> \<open>TypeError\<close>: reading a property of \<open>undefined\<close> or \<open>null\<close>;
  \<^item> \<open>InvalidControlNumber e v\<close>: "invalid control number for transaction set:
    [expected: e, found: v]";
  \<^item> \<open>UndeterminedTransactionSetType\<close>: "unable to determine transaction set type from
    input";
  \<^item> \<open>NoPartnershipFound s r\<close>: "No partnership found for 's' and 'r' in
    'partners-configuration' keyspace";
  \<^item> \<open>SomeDeliveriesFailed r f\<close>: "some deliveries were not successful: r failed, f
    succeeded";
  \<^item> \<open>UnknownError v\<close>: "unknown error: ..." built by a \<open>catch\<close> from the thrown value
    \<open>v\<close>, which is no \<open>Error\<close> instance;
  \<^item> \<open>ConfigNotFound k\<close>: "config not found for key: k";
  \<^item> \<open>UnsupportedProtocol p\<close>: "unsupported connection protocol: p";
  \<^item> \<open>ProcessingErrorsEncountered\<close>: "at least one processing error encountered during
    polling".
\<close>

datatype error =
    Thrown thrown
  | TypeError
  | InvalidControlNumber nat jsnum
  | UndeterminedTransactionSetType
  | NoPartnershipFound string string
  | SomeDeliveriesFailed nat nat
  | UnknownError thrown
  | ConfigNotFound string
  | UnsupportedProtocol string
  | ProcessingErrorsEncountered

type_synonym 'a result = "error + 'a"

definition bindR :: "'a result \<Rightarrow> ('a \<Rightarrow> 'b result) \<Rightarrow> 'b result" where
  "bindR r f = (case r of Inl e \<Rightarrow> Inl e | Inr v \<Rightarrow> f v)"

text \<open>\<open>e instanceof Error ? e : new Error(`unknown error: ${serializeError(e)}`)\<close>\<close>

fun normalizeCaught :: "error \<Rightarrow> error" where
  "normalizeCaught (Thrown (NonError m)) = UnknownError (NonError m)"
| "normalizeCaught (Thrown Nullish) = UnknownError Nullish"
| "normalizeCaught e = e"

definition nullish :: "jsval \<Rightarrow> bool" where
  "nullish v = (v = JUndefined \<or> v = JNull)"

text \<open>
  \<open>v.name\<close> for a value that is neither \<open>undefined\<close> nor \<open>null\<close> and a name that is no
  array index, not \<open>length\<close> and no prototype member (the three field names read below):
  an object gives its own property or \<open>undefined\<close>, anything else \<open>undefined\<close>.
\<close>

fun propOf :: "jsval \<Rightarrow> string \<Rightarrow> jsval" where
  "propOf (JObject kvs) name = (case map_of kvs name of Some v \<Rightarrow> v | None \<Rightarrow> JUndefined)"
| "propOf v name = JUndefined"

text \<open>\<open>v.name\<close>: a \<open>TypeError\<close> on \<open>undefined\<close> and \<open>null\<close>.\<close>

definition member :: "jsval \<Rightarrow> string \<Rightarrow> jsval result" where
  "member v name = (if nullish v then Inl TypeError else Inr (propOf v name))"

text \<open>\<open>v?.name\<close>\<close>

definition optMember :: "jsval \<Rightarrow> string \<Rightarrow> jsval" where
  "optMember v name = (if nullish v then JUndefined else propOf v name)"

text \<open>
  \<open>Number(v)\<close>. On \<open>undefined\<close>, \<open>null\<close>, booleans and numbers the conversion is written
  out. On strings (the language's string-to-number grammar) and on arrays and objects
  (conversion to a primitive first, which can throw) it is the parameter \<open>toNum\<close>.
\<close>

fun Number_js :: "(jsval \<Rightarrow> jsnum result) \<Rightarrow> jsval \<Rightarrow> jsnum result" where
  "Number_js toNum JUndefined = Inr NaN"
| "Number_js toNum JNull = Inr (Finite 0)"
| "Number_js toNum (JBool b) = Inr (Finite (if b then 1 else 0))"
| "Number_js toNum (JNumber n) = Inr n"
| "Number_js toNum v = toNum v"

section \<open>Outbound handler: transaction sets of the guide JSON\<close>

text \<open>\<open>Array.isArray(guideJson) ? guideJson : [guideJson]\<close>\<close>

fun normalizeGuideJson :: "jsval \<Rightarrow> jsval list" where
  "normalizeGuideJson (JArray ts) = ts"
| "normalizeGuideJson g = [g]"

text \<open>\<open>t.heading?.transaction_set_header_ST?.field\<close>\<close>

definition headerField :: "string \<Rightarrow> jsval \<Rightarrow> jsval result" where
  "headerField field t =
     bindR (member t ''heading'')
       (\<lambda>h. Inr (optMember (optMember h ''transaction_set_header_ST'') field))"

text \<open>
  \<open>Number(t.heading?.transaction_set_header_ST?.transaction_set_control_number_02)\<close>
\<close>

definition controlNumberValue :: "(jsval \<Rightarrow> jsnum result) \<Rightarrow> jsval \<Rightarrow> jsnum result" where
  "controlNumberValue toNum t =
     bindR (headerField ''transaction_set_control_number_02'' t) (Number_js toNum)"

text \<open>
  The body of \<open>forEach\<close> in \<open>validateTransactionSetControlNumbers\<close>, with
  \<open>expectedControlNumber\<close> as an argument: a throw ends the loop. The counter stays below
  the largest array length, where a double counts exactly.
\<close>

fun validateFrom :: "(jsval \<Rightarrow> jsnum result) \<Rightarrow> nat \<Rightarrow> jsval list \<Rightarrow> unit result" where
  "validateFrom toNum expected [] = Inr ()"
| "validateFrom toNum expected (t # ts) =
     (case controlNumberValue toNum t of
        Inl e \<Rightarrow> Inl e
      | Inr v \<Rightarrow>
          if v \<noteq> Finite (of_nat expected) then Inl (InvalidControlNumber expected v)
          else validateFrom toNum (expected + 1) ts)"

definition validateTransactionSetControlNumbers ::
  "(jsval \<Rightarrow> jsnum result) \<Rightarrow> jsval \<Rightarrow> unit result" where
  "validateTransactionSetControlNumbers toNum guideJson =
     validateFrom toNum 1 (normalizeGuideJson guideJson)"

text \<open>
  \<open>Set.prototype.add\<close> compares with SameValueZero: primitives by value (\<open>NaN\<close> equal to
  itself), arrays and objects by identity, and two nodes of one parsed tree are never the
  same object.
\<close>

fun sameValueZero :: "jsval \<Rightarrow> jsval \<Rightarrow> bool" where
  "sameValueZero (JArray xs) w = False"
| "sameValueZero (JObject kvs) w = False"
| "sameValueZero v w = (v = w)"

definition setAdd :: "jsval list \<Rightarrow> jsval \<Rightarrow> jsval list" where
  "setAdd s v = (if \<exists>w \<in> set s. sameValueZero v w then s else s @ [v])"

text \<open>
  The reducer of \<open>extractTransactionSetTypeFromGuideJson\<close>; the set is the list of its
  members in insertion order.
\<close>

fun uniqueTransactionSets :: "jsval list \<Rightarrow> jsval list \<Rightarrow> (jsval list) result" where
  "uniqueTransactionSets ids [] = Inr ids"
| "uniqueTransactionSets ids (t # ts) =
     (case headerField ''transaction_set_identifier_code_01'' t of
        Inl e \<Rightarrow> Inl e
      | Inr currentId \<Rightarrow>
          uniqueTransactionSets (if currentId \<noteq> JUndefined then setAdd ids currentId else ids) ts)"

definition extractTransactionSetTypeFromGuideJson :: "jsval \<Rightarrow> jsval result" where
  "extractTransactionSetTypeFromGuideJson guideJson =
     bindR (uniqueTransactionSets [] (normalizeGuideJson guideJson))
       (\<lambda>ids. case ids of
                 [i] \<Rightarrow> Inr i
               | _ \<Rightarrow> Inl UndeterminedTransactionSetType)"

section \<open>Partnership lookup\<close>

text \<open>The routing types, as \<open>createSampleStashRecords\<close> builds them and the handler reads them.\<close>

datatype Destination =
    Bucket (bucketName: string) (bucketPath: string)
  | Webhook (url: string)

record DestinationConfig =
  destination :: Destination
  mappingId :: "string option"

record TransactionSetConfig =
  description :: string
  guideId :: string
  destinations :: "DestinationConfig list"
  receivingPartnerId :: string
  sendingPartnerId :: string
  usageIndicatorCode :: string

record Partnership =
  transactionSets :: "TransactionSetConfig list"

text \<open>
  What \<open>loadPartnership\<close> uses of the configuration store and of the schema:
  \<open>getValue key\<close> is the \<open>value\<close> of the response to \<open>GetValueCommand\<close> in the keyspace
  \<open>partners-configuration\<close>, or the error the request throws; \<open>PartnershipSchema_parse\<close>
  returns the record or throws.
\<close>

record StashReader =
  getValue :: "string \<Rightarrow> jsval result"
  PartnershipSchema_parse :: "jsval \<Rightarrow> Partnership result"

definition partnershipKey :: "string \<Rightarrow> string \<Rightarrow> string" where
  "partnershipKey a b = ''partnership|'' @ a @ ''|'' @ b"

text \<open>\<open>value !== null && typeof value === "object"\<close>\<close>

fun isObjectValue :: "jsval \<Rightarrow> bool" where
  "isObjectValue (JArray xs) = True"
| "isObjectValue (JObject kvs) = True"
| "isObjectValue v = False"

text \<open>
  One turn of the loop over \<open>keysToCheck\<close>: \<open>Some p\<close> when the key assigns \<open>partnership\<close>
  and breaks, \<open>None\<close> when the loop goes on (no object under the key, or the request or
  the parse threw and the \<open>catch\<close> logged it).
\<close>

definition tryKey :: "StashReader \<Rightarrow> string \<Rightarrow> Partnership option" where
  "tryKey st key =
     (case getValue st key of
        Inl e \<Rightarrow> None
      | Inr v \<Rightarrow>
          if isObjectValue v
          then (case PartnershipSchema_parse st v of Inl e \<Rightarrow> None | Inr p \<Rightarrow> Some p)
          else None)"

fun firstPartnership :: "StashReader \<Rightarrow> string list \<Rightarrow> Partnership option" where
  "firstPartnership st [] = None"
| "firstPartnership st (key # keys) =
     (case tryKey st key of Some p \<Rightarrow> Some p | None \<Rightarrow> firstPartnership st keys)"

definition loadPartnership :: "StashReader \<Rightarrow> string \<Rightarrow> string \<Rightarrow> Partnership result" where
  "loadPartnership st sender receiver =
     (case firstPartnership st
             [partnershipKey sender receiver, partnershipKey receiver sender] of
        None \<Rightarrow> Inl (NoPartnershipFound sender receiver)
      | Some p \<Rightarrow> Inr p)"

section \<open>Outbound handler\<close>

record Metadata =
  md_sendingPartnerId :: string
  md_receivingPartnerId :: string
  transactionSet :: "string option"

record OutboundEvent =
  metadata :: Metadata
  payload :: jsval

record PartnerProfile =
  partnerInterchangeQualifier :: string
  partnerInterchangeId :: string
  partnerApplicationId :: string

record GuideSummary =
  gs_guideId :: string

record ControlNumberRequest =
  segment :: string
  cn_usageIndicatorCode :: string
  cn_sendingPartnerId :: string
  cn_receivingPartnerId :: string

record InterchangeHeader =
  senderQualifier :: string
  senderId :: string
  receiverQualifier :: string
  receiverId :: string
  ih_date :: string
  ih_time :: string
  ih_controlNumber :: nat
  ih_usageIndicatorCode :: string

record GroupHeader =
  functionalIdentifierCode :: string
  applicationSenderCode :: string
  applicationReceiverCode :: string
  gh_date :: string
  gh_time :: string
  gh_controlNumber :: nat

record Envelope =
  interchangeHeader :: InterchangeHeader
  groupHeader :: GroupHeader

text \<open>
  The collaborators of the handler, none of them in the source tree: each is the value
  the call returns, or the error it throws. \<open>'d\<close> is the type of a \<open>DeliveryResult\<close>.
  \<open>format\<close> is \<open>date-fns\<close>' on the document date, \<open>toNumber\<close> the parameter of
  \<open>Number_js\<close>, \<open>templateString\<close> the text a template literal gives for a value.
\<close>

record 'd Collaborators =
  generateExecutionId :: "OutboundEvent \<Rightarrow> string"
  recordNewExecution :: "string \<Rightarrow> OutboundEvent \<Rightarrow> unit result"
  OutboundEventSchema_parse :: "OutboundEvent \<Rightarrow> OutboundEvent result"
  loadPartnerProfile :: "string \<Rightarrow> PartnerProfile result"
  stash :: StashReader
  getTransactionSetConfigsForPartnership ::
    "Partnership \<Rightarrow> string \<Rightarrow> string \<Rightarrow> (TransactionSetConfig list) result"
  resolveGuide :: "string list \<Rightarrow> jsval \<Rightarrow> GuideSummary result"
  resolveTransactionSetConfig ::
    "TransactionSetConfig list \<Rightarrow> string \<Rightarrow> TransactionSetConfig result"
  lookupFunctionalIdentifierCode :: "jsval \<Rightarrow> string result"
  generateControlNumber :: "ControlNumberRequest \<Rightarrow> nat result"
  format :: "string \<Rightarrow> string"
  toNumber :: "jsval \<Rightarrow> jsnum result"
  templateString :: "jsval \<Rightarrow> string"
  controlNumberString :: "nat \<Rightarrow> string"
  invokeMapping :: "string \<Rightarrow> jsval \<Rightarrow> jsval result"
  translateJsonToEdi :: "jsval \<Rightarrow> string \<Rightarrow> Envelope \<Rightarrow> string result"
  deliverToDestination :: "Destination \<Rightarrow> string \<Rightarrow> 'd result"
  markExecutionAsSuccessful :: "string \<Rightarrow> unit result"

text \<open>\<open>event.metadata.transactionSet ?? extractTransactionSetTypeFromGuideJson(event.payload)\<close>\<close>

definition determineTransactionSetType :: "OutboundEvent \<Rightarrow> jsval result" where
  "determineTransactionSetType event =
     (case transactionSet (metadata event) of
        Some ts \<Rightarrow> Inr (JString ts)
      | None \<Rightarrow> extractTransactionSetTypeFromGuideJson (payload event))"

text \<open>What the handler has resolved when it reaches \<open>documentDate\<close>.\<close>

record Routing =
  outboundEvent :: OutboundEvent
  senderProfile :: PartnerProfile
  receiverProfile :: PartnerProfile
  transactionSetType :: jsval
  guideSummary :: GuideSummary
  transactionSetConfig :: TransactionSetConfig
  rt_functionalIdentifierCode :: string

text \<open>
  The handler from \<open>recordNewExecution\<close> to \<open>lookupFunctionalIdentifierCode\<close>: the first
  throw ends it. \<open>determineTransactionSetType\<close> reads the event as received, the other
  steps the parsed one.
\<close>

definition resolveRouting :: "'d Collaborators \<Rightarrow> OutboundEvent \<Rightarrow> Routing result" where
  "resolveRouting c event =
     bindR (recordNewExecution c (generateExecutionId c event) event) (\<lambda>_.
     bindR (OutboundEventSchema_parse c event) (\<lambda>outEvent.
     bindR (loadPartnerProfile c (md_sendingPartnerId (metadata outEvent))) (\<lambda>sender.
     bindR (loadPartnerProfile c (md_receivingPartnerId (metadata outEvent))) (\<lambda>receiver.
     bindR (loadPartnership (stash c) (md_sendingPartnerId (metadata outEvent))
              (md_receivingPartnerId (metadata outEvent))) (\<lambda>partnership.
     bindR (determineTransactionSetType event) (\<lambda>tsType.
     bindR (getTransactionSetConfigsForPartnership c partnership
              (md_sendingPartnerId (metadata outEvent))
              (md_receivingPartnerId (metadata outEvent))) (\<lambda>configs.
     bindR (resolveGuide c (map guideId configs) tsType) (\<lambda>guide.
     bindR (resolveTransactionSetConfig c configs (gs_guideId guide)) (\<lambda>config.
     bindR (lookupFunctionalIdentifierCode c tsType) (\<lambda>fic.
       Inr \<lparr> outboundEvent = outEvent, senderProfile = sender, receiverProfile = receiver,
             transactionSetType = tsType, guideSummary = guide,
             transactionSetConfig = config, rt_functionalIdentifierCode = fic \<rparr>))))))))))"

definition controlNumberRequest :: "string \<Rightarrow> Routing \<Rightarrow> ControlNumberRequest" where
  "controlNumberRequest seg r =
     \<lparr> segment = seg,
       cn_usageIndicatorCode = usageIndicatorCode (transactionSetConfig r),
       cn_sendingPartnerId = md_sendingPartnerId (metadata (outboundEvent r)),
       cn_receivingPartnerId = md_receivingPartnerId (metadata (outboundEvent r)) \<rparr>"

definition buildEnvelope :: "'d Collaborators \<Rightarrow> Routing \<Rightarrow> nat \<Rightarrow> nat \<Rightarrow> Envelope" where
  "buildEnvelope c r isaControlNumber gsControlNumber =
     \<lparr> interchangeHeader =
         \<lparr> senderQualifier = partnerInterchangeQualifier (senderProfile r),
           senderId = partnerInterchangeId (senderProfile r),
           receiverQualifier = partnerInterchangeQualifier (receiverProfile r),
           receiverId = partnerInterchangeId (receiverProfile r),
           ih_date = format c ''yyyy-MM-dd'',
           ih_time = format c ''HH:mm'',
           ih_controlNumber = isaControlNumber,
           ih_usageIndicatorCode = usageIndicatorCode (transactionSetConfig r) \<rparr>,
       groupHeader =
         \<lparr> functionalIdentifierCode = rt_functionalIdentifierCode r,
           applicationSenderCode = partnerApplicationId (senderProfile r),
           applicationReceiverCode = partnerApplicationId (receiverProfile r),
           gh_date = format c ''yyyy-MM-dd'',
           gh_time = format c ''HH:mm:ss'',
           gh_controlNumber = gsControlNumber \<rparr> \<rparr>"

text \<open>
  \<open>if (destination.type === "bucket") destination.path =
  `${destination.path}/${isaControlNumber}-${transactionSetType}.edi`\<close>
\<close>

fun withObjectPath :: "'d Collaborators \<Rightarrow> nat \<Rightarrow> jsval \<Rightarrow> Destination \<Rightarrow> Destination" where
  "withObjectPath c isa tsType (Bucket b p) =
     Bucket b (p @ ''/'' @ controlNumberString c isa @ ''-'' @ templateString c tsType @ ''.edi'')"
| "withObjectPath c isa tsType d = d"

text \<open>
  \<open>mappingId !== undefined ? await invokeMapping(mappingId, outboundEvent.payload)
  : outboundEvent.payload\<close>
\<close>

definition guideJsonFor :: "'d Collaborators \<Rightarrow> Routing \<Rightarrow> DestinationConfig \<Rightarrow> jsval result" where
  "guideJsonFor c r dc =
     (case mappingId dc of
        Some m \<Rightarrow> invokeMapping c m (payload (outboundEvent r))
      | None \<Rightarrow> Inr (payload (outboundEvent r)))"

text \<open>
  The function mapped over the destinations: the promise of one destination, fulfilled
  with a delivery result (\<open>Inr\<close>) or rejected with what was thrown (\<open>Inl\<close>).
\<close>

definition deliverOne ::
  "'d Collaborators \<Rightarrow> Routing \<Rightarrow> nat \<Rightarrow> Envelope \<Rightarrow> DestinationConfig \<Rightarrow> 'd result" where
  "deliverOne c r isa envelope dc =
     bindR (guideJsonFor c r dc) (\<lambda>guideJson.
     bindR (validateTransactionSetControlNumbers (toNumber c) guideJson) (\<lambda>_.
     bindR (translateJsonToEdi c guideJson (gs_guideId (guideSummary r)) envelope) (\<lambda>translation.
       deliverToDestination c
         (withObjectPath c isa (transactionSetType r) (destination dc)) translation)))"

text \<open>\<open>Promise.allSettled\<close>: one settlement for each promise, in their order.\<close>

datatype 'd settled = Fulfilled 'd | Rejected error

fun settle :: "'d result \<Rightarrow> 'd settled" where
  "settle (Inr v) = Fulfilled v"
| "settle (Inl e) = Rejected e"

definition allSettled :: "('d result) list \<Rightarrow> ('d settled) list" where
  "allSettled ps = map settle ps"

record 'd Grouped =
  fulfilled :: "'d list"
  rejected :: "error list"

text \<open>The reducer: \<open>groupedResults[status].push(rest)\<close>.\<close>

fun pushSettled :: "'d Grouped \<Rightarrow> 'd settled \<Rightarrow> 'd Grouped" where
  "pushSettled g (Fulfilled v) = g\<lparr> fulfilled := fulfilled g @ [v] \<rparr>"
| "pushSettled g (Rejected e) = g\<lparr> rejected := rejected g @ [e] \<rparr>"

definition groupByStatus :: "('d settled) list \<Rightarrow> 'd Grouped" where
  "groupByStatus rs = foldl pushSettled \<lparr> fulfilled = [], rejected = [] \<rparr> rs"

text \<open>
  What the handler returns: \<open>{statusCode: 200, deliveryResults}\<close>, or the structured
  failure object \<open>{executionId, error, details?}\<close>.
\<close>

datatype 'd response =
    Ok200 "'d list"
  | Failure string error "('d Grouped) option"

text \<open>
  Modelled from the spec: \<open>failedExecution\<close> is a function of \<open>lib/execution\<close>, which is not
  in the source tree; it records the failure in the execution ledger and returns the
  structured failure object made of its arguments.
\<close>

definition failedExecution :: "string \<Rightarrow> error \<Rightarrow> ('d Grouped) option \<Rightarrow> 'd response" where
  "failedExecution executionId e details = Failure executionId e details"

definition deliveryResults ::
  "'d Collaborators \<Rightarrow> Routing \<Rightarrow> nat \<Rightarrow> nat \<Rightarrow> ('d settled) list" where
  "deliveryResults c r isa gs =
     allSettled (map (deliverOne c r isa (buildEnvelope c r isa gs))
                     (destinations (transactionSetConfig r)))"

text \<open>
  The handler from the reducer to its \<open>return\<close>; the fulfilled list holds the values, so
  it is \<open>deliveryResultsByStatus.fulfilled.map((r) => r.value)\<close> as it stands.
\<close>

definition aggregate :: "'d Collaborators \<Rightarrow> string \<Rightarrow> ('d settled) list \<Rightarrow> 'd response" where
  "aggregate c executionId results =
     (let byStatus = groupByStatus results;
          rejectedCount = length (rejected byStatus)
      in if rejectedCount > 0
         then failedExecution executionId
                (SomeDeliveriesFailed rejectedCount (length (fulfilled byStatus)))
                (Some byStatus)
         else (case markExecutionAsSuccessful c executionId of
                 Inl e \<Rightarrow> failedExecution executionId (normalizeCaught e) None
               | Inr _ \<Rightarrow> Ok200 (fulfilled byStatus)))"

text \<open>
  The handler. Beside the response it gives the control numbers the issuer has handed
  out, each with its request, in the order of the calls.
\<close>

definition handler ::
  "'d Collaborators \<Rightarrow> OutboundEvent \<Rightarrow> 'd response \<times> (ControlNumberRequest \<times> nat) list" where
  "handler c event =
     (let executionId = generateExecutionId c event
      in case resolveRouting c event of
           Inl e \<Rightarrow> (failedExecution executionId (normalizeCaught e) None, [])
         | Inr r \<Rightarrow>
             (case generateControlNumber c (controlNumberRequest ''ISA'' r) of
                Inl e \<Rightarrow> (failedExecution executionId (normalizeCaught e) None, [])
              | Inr isa \<Rightarrow>
                  (case generateControlNumber c (controlNumberRequest ''GS'' r) of
                     Inl e \<Rightarrow>
                       (failedExecution executionId (normalizeCaught e) None,
                        [(controlNumberRequest ''ISA'' r, isa)])
                   | Inr gs \<Rightarrow>
                       (aggregate c executionId (deliveryResults c r isa gs),
                        [(controlNumberRequest ''ISA'' r, isa),
                         (controlNumberRequest ''GS'' r, gs)]))))"

section \<open>SFTP poller\<close>

text \<open>
  Times are milliseconds since the epoch: \<open>lastPollTime\<close> is what \<open>getTime()\<close> gives for
  the stored date, \<open>None\<close> when the field is not set or the date is not valid;
  \<open>modifyTime\<close> of a listed entry is \<open>None\<close> when the listing reports none.
\<close>

record FileInfo =
  fi_type :: string
  fi_name :: string
  modifyTime :: "int option"

record ConnectionDetails =
  protocol :: string
  config :: string

record FtpPollerConfig =
  connectionDetails :: ConnectionDetails
  remotePath :: string
  remoteFiles :: "(string list) option"
  destinationPath :: string
  deleteAfterProcessing :: bool
  lastPollTime :: "int option"

text \<open>
  The two reasons of a skipped item: "not a file", and \<open>NotNewer t l\<close> for "remote
  timestamp (t) is not newer than last poll timestamp (l)".
\<close>

datatype reason = NotAFile | NotNewer int int

record SkippedItem =
  si_path :: string
  si_reason :: reason

record ProcessingError =
  pe_path :: string
  errorMessage :: string

record FtpPollingResults =
  processedFiles :: "string list"
  skippedItems :: "SkippedItem list"
  processingErrors :: "ProcessingError list"

record RemoteSftpFileDetails =
  filesToProcess :: "FileInfo list"
  rd_skippedItems :: "(SkippedItem list) option"
  rd_processingErrors :: "(ProcessingError list) option"

text \<open>
  The remote endpoint, the bucket and the clock as one poll sees them: what each request
  returns, or what it throws. The answer to a request is taken to depend on its arguments
  only, and the clock to have one reading, for the time of the poll; \<open>path_normalize\<close> is
  \<open>path.normalize\<close>, and \<open>typeErrorMessage\<close> the message of the engine's \<open>TypeError\<close> for
  reading \<open>message\<close> of \<open>undefined\<close> or \<open>null\<close> (a poll sees at most one such error, since
  it ends the poll).
\<close>

record SftpEnv =
  sftp_connect :: "string \<Rightarrow> thrown + unit"
  sftp_list :: "string \<Rightarrow> thrown + FileInfo list"
  sftp_get :: "string \<Rightarrow> thrown + string"
  bucket_put :: "string \<Rightarrow> string \<Rightarrow> string \<Rightarrow> thrown + unit"
  sftp_delete :: "string \<Rightarrow> thrown + unit"
  sftp_end :: "thrown + unit"
  Date_now :: int
  path_normalize :: "string \<Rightarrow> string"
  destinationBucketName :: string
  typeErrorMessage :: string

text \<open>The requests a poll makes, in their order.\<close>

datatype call =
    Connect
  | ListCall string
  | GetCall string
  | PutCall string string
  | DeleteCall string
  | EndCall

definition remoteFilePath :: "SftpEnv \<Rightarrow> string \<Rightarrow> string \<Rightarrow> string" where
  "remoteFilePath env dir name = path_normalize env (dir @ ''/'' @ name)"

text \<open>\<open>ftpConfig.lastPollTime?.getTime() || 0\<close>\<close>

definition lastPollTimestamp :: "FtpPollerConfig \<Rightarrow> int" where
  "lastPollTimestamp cfg = (case lastPollTime cfg of None \<Rightarrow> 0 | Some t \<Rightarrow> t)"

text \<open>\<open>file.modifyTime || Date.now()\<close>: a modification time of \<open>0\<close> is falsy too.\<close>

definition remoteFileTimestamp :: "SftpEnv \<Rightarrow> FileInfo \<Rightarrow> int" where
  "remoteFileTimestamp env file =
     (case modifyTime file of
        None \<Rightarrow> Date_now env
      | Some t \<Rightarrow> if t = 0 then Date_now env else t)"

text \<open>
  \<open>e instanceof Error ? e.message : serializeError(e).message ?? "_unknown_"\<close>, the first
  statement of the \<open>catch\<close> block. \<open>serializeError\<close> returns \<open>undefined\<close> and \<open>null\<close> as they
  are, so for them reading \<open>message\<close> throws a \<open>TypeError\<close> out of the \<open>catch\<close> block.
\<close>

fun caughtMessage :: "SftpEnv \<Rightarrow> thrown \<Rightarrow> thrown + string" where
  "caughtMessage env (ErrorWith m) = Inr m"
| "caughtMessage env (NonError (Some m)) = Inr m"
| "caughtMessage env (NonError None) = Inr ''_unknown_''"
| "caughtMessage env Nullish = Inl (ErrorWith (typeErrorMessage env))"

text \<open>
  The \<open>try\<close> block for one candidate: download, write to the bucket, delete the remote
  file when the configuration asks for it. It gives what the block threw, if anything,
  and the requests made.
\<close>

definition transferFile ::
  "SftpEnv \<Rightarrow> FtpPollerConfig \<Rightarrow> FileInfo \<Rightarrow> (thrown + unit) \<times> call list" where
  "transferFile env cfg file =
     (let path = remoteFilePath env (remotePath cfg) (fi_name file);
          destinationKey = destinationPath cfg @ ''/'' @ fi_name file
      in case sftp_get env path of
           Inl e \<Rightarrow> (Inl e, [GetCall path])
         | Inr fileContents \<Rightarrow>
             (case bucket_put env (destinationBucketName env) destinationKey fileContents of
                Inl e \<Rightarrow> (Inl e, [GetCall path, PutCall (destinationBucketName env) destinationKey])
              | Inr _ \<Rightarrow>
                  if deleteAfterProcessing cfg
                  then (case sftp_delete env path of
                          Inl e \<Rightarrow>
                            (Inl e, [GetCall path,
                                     PutCall (destinationBucketName env) destinationKey,
                                     DeleteCall path])
                        | Inr _ \<Rightarrow>
                            (Inr (), [GetCall path,
                                      PutCall (destinationBucketName env) destinationKey,
                                      DeleteCall path]))
                  else (Inr (), [GetCall path,
                                 PutCall (destinationBucketName env) destinationKey])))"

text \<open>\<open>remoteFileTimestamp < lastPollTimestamp\<close>\<close>

definition isStale :: "SftpEnv \<Rightarrow> FtpPollerConfig \<Rightarrow> FileInfo \<Rightarrow> bool" where
  "isStale env cfg file = (remoteFileTimestamp env file < lastPollTimestamp cfg)"

definition staleItem :: "SftpEnv \<Rightarrow> FtpPollerConfig \<Rightarrow> FileInfo \<Rightarrow> SkippedItem" where
  "staleItem env cfg file =
     \<lparr> si_path = remoteFilePath env (remotePath cfg) (fi_name file),
       si_reason = NotNewer (remoteFileTimestamp env file) (lastPollTimestamp cfg) \<rparr>"

text \<open>
  What the loop body records for a candidate that was not skipped: the path in
  \<open>processedFiles\<close> when the \<open>try\<close> block finished, a processing error from the \<open>catch\<close>
  block when it threw; \<open>Inl\<close> is what the \<open>catch\<close> block itself throws.
\<close>

definition recordOutcome ::
  "SftpEnv \<Rightarrow> FtpPollerConfig \<Rightarrow> FileInfo \<Rightarrow> thrown + unit \<Rightarrow> FtpPollingResults
     \<Rightarrow> thrown + FtpPollingResults" where
  "recordOutcome env cfg file outcome res =
     (case outcome of
        Inr _ \<Rightarrow>
          Inr (res\<lparr> processedFiles := processedFiles res
                      @ [remoteFilePath env (remotePath cfg) (fi_name file)] \<rparr>)
      | Inl e \<Rightarrow>
          (case caughtMessage env e of
             Inl t \<Rightarrow> Inl t
           | Inr message \<Rightarrow>
               Inr (res\<lparr> processingErrors := processingErrors res
                           @ [\<lparr> pe_path = remoteFilePath env (remotePath cfg) (fi_name file),
                                errorMessage = message \<rparr>] \<rparr>)))"

text \<open>
  The loop over \<open>fileDetails.filesToProcess\<close>, with \<open>sftpPollingResults\<close> as an argument:
  the \<open>break\<close> of the stale branch returns without looking at the rest, and what the
  \<open>catch\<close> block throws leaves the loop and the function.
\<close>

fun processFiles ::
  "SftpEnv \<Rightarrow> FtpPollerConfig \<Rightarrow> FileInfo list \<Rightarrow> FtpPollingResults
     \<Rightarrow> (thrown + FtpPollingResults) \<times> call list" where
  "processFiles env cfg [] res = (Inr res, [])"
| "processFiles env cfg (file # files) res =
     (if isStale env cfg file
      then (Inr (res\<lparr> skippedItems := skippedItems res @ [staleItem env cfg file] \<rparr>), [])
      else (let (outcome, calls) = transferFile env cfg file
            in case recordOutcome env cfg file outcome res of
                 Inl t \<Rightarrow> (Inl t, calls)
               | Inr res1 \<Rightarrow>
                   (let (r, calls') = processFiles env cfg files res1
                    in (r, calls @ calls'))))"

text \<open>The two processing errors of \<open>getSpecifiedFileDetails\<close>.\<close>

definition expectedOneMatchError :: "SftpEnv \<Rightarrow> string \<Rightarrow> string \<Rightarrow> ProcessingError" where
  "expectedOneMatchError env dir file =
     \<lparr> pe_path = remoteFilePath env dir file,
       errorMessage = ''expected exactly one match for list of single file ''
         @ remoteFilePath env dir file \<rparr>"

definition notAFileError :: "SftpEnv \<Rightarrow> string \<Rightarrow> string \<Rightarrow> ProcessingError" where
  "notAFileError env dir file =
     \<lparr> pe_path = remoteFilePath env dir file,
       errorMessage = ''requested remote file '' @ file @ '', but it is not a file'' \<rparr>"

text \<open>
  The loop of \<open>getSpecifiedFileDetails\<close>, with \<open>filesToProcess\<close> and \<open>processingErrors\<close> as
  arguments: only the branch for a listing that has not exactly one entry ends with
  \<open>break\<close>. A listing that throws is not caught here.
\<close>

fun specifiedLoop ::
  "SftpEnv \<Rightarrow> string \<Rightarrow> string list \<Rightarrow> FileInfo list \<Rightarrow> ProcessingError list
     \<Rightarrow> (thrown + RemoteSftpFileDetails) \<times> call list" where
  "specifiedLoop env dir [] fs es =
     (Inr \<lparr> filesToProcess = fs, rd_skippedItems = None, rd_processingErrors = Some es \<rparr>, [])"
| "specifiedLoop env dir (file # files) fs es =
     (case sftp_list env (remoteFilePath env dir file) of
        Inl e \<Rightarrow> (Inl e, [ListCall (remoteFilePath env dir file)])
      | Inr listResult \<Rightarrow>
          (case listResult of
             [found] \<Rightarrow>
               (let (r, calls) =
                      (if fi_type found = ''-''
                       then specifiedLoop env dir files (fs @ [found]) es
                       else specifiedLoop env dir files fs (es @ [notAFileError env dir file]))
                in (r, ListCall (remoteFilePath env dir file) # calls))
           | _ \<Rightarrow>
               (Inr \<lparr> filesToProcess = fs, rd_skippedItems = None,
                      rd_processingErrors = Some (es @ [expectedOneMatchError env dir file]) \<rparr>,
                [ListCall (remoteFilePath env dir file)])))"

definition getSpecifiedFileDetails ::
  "SftpEnv \<Rightarrow> string \<Rightarrow> string list \<Rightarrow> (thrown + RemoteSftpFileDetails) \<times> call list" where
  "getSpecifiedFileDetails env dir files = specifiedLoop env dir files [] []"

text \<open>The skipped item and the reducer of \<open>getAllFileDetailsForPath\<close>.\<close>

definition notAFileItem :: "SftpEnv \<Rightarrow> string \<Rightarrow> FileInfo \<Rightarrow> SkippedItem" where
  "notAFileItem env dir currentFile =
     \<lparr> si_path = remoteFilePath env dir (fi_name currentFile), si_reason = NotAFile \<rparr>"

definition classifyEntry ::
  "SftpEnv \<Rightarrow> string \<Rightarrow> RemoteSftpFileDetails \<Rightarrow> FileInfo \<Rightarrow> RemoteSftpFileDetails" where
  "classifyEntry env dir d currentFile =
     (if fi_type currentFile = ''-''
      then d\<lparr> filesToProcess := filesToProcess d @ [currentFile] \<rparr>
      else d\<lparr> rd_skippedItems :=
                map_option (\<lambda>items. items @ [notAFileItem env dir currentFile])
                  (rd_skippedItems d) \<rparr>)"

definition getAllFileDetailsForPath ::
  "SftpEnv \<Rightarrow> string \<Rightarrow> (thrown + RemoteSftpFileDetails) \<times> call list" where
  "getAllFileDetailsForPath env dir =
     (case sftp_list env dir of
        Inl e \<Rightarrow> (Inl e, [ListCall dir])
      | Inr directoryContents \<Rightarrow>
          (Inr (foldl (classifyEntry env dir)
                  \<lparr> filesToProcess = [], rd_skippedItems = Some [], rd_processingErrors = None \<rparr>
                  directoryContents),
           [ListCall dir]))"

text \<open>\<open>ftpConfig.remoteFiles && ftpConfig.remoteFiles.length > 0\<close>\<close>

definition selectFileDetails ::
  "SftpEnv \<Rightarrow> FtpPollerConfig \<Rightarrow> (thrown + RemoteSftpFileDetails) \<times> call list" where
  "selectFileDetails env cfg =
     (case remoteFiles cfg of
        None \<Rightarrow> getAllFileDetailsForPath env (remotePath cfg)
      | Some files \<Rightarrow>
          if length files > 0 then getSpecifiedFileDetails env (remotePath cfg) files
          else getAllFileDetailsForPath env (remotePath cfg))"

definition initialResults :: "RemoteSftpFileDetails \<Rightarrow> FtpPollingResults" where
  "initialResults fileDetails =
     \<lparr> processedFiles = [],
       skippedItems = (case rd_skippedItems fileDetails of Some items \<Rightarrow> items | None \<Rightarrow> []),
       processingErrors =
         (case rd_processingErrors fileDetails of Some errs \<Rightarrow> errs | None \<Rightarrow> []) \<rparr>"

text \<open>
  \<open>pollSftp\<close>: the results, or what the poll throws to its caller, and the requests made.
  Nothing in the function catches what \<open>connect\<close>, the listing, a \<open>catch\<close> block of the
  loop or \<open>end\<close> throw.
\<close>

definition pollSftp ::
  "SftpEnv \<Rightarrow> FtpPollerConfig \<Rightarrow> (thrown + FtpPollingResults) \<times> call list" where
  "pollSftp env cfg =
     (case sftp_connect env (config (connectionDetails cfg)) of
        Inl e \<Rightarrow> (Inl e, [Connect])
      | Inr _ \<Rightarrow>
          (case selectFileDetails env cfg of
             (Inl e, calls) \<Rightarrow> (Inl e, Connect # calls)
           | (Inr fileDetails, calls) \<Rightarrow>
               (case processFiles env cfg (filesToProcess fileDetails)
                       (initialResults fileDetails) of
                  (Inl e, calls') \<Rightarrow> (Inl e, Connect # calls @ calls')
                | (Inr res, calls') \<Rightarrow>
                    (case sftp_end env of
                       Inl e \<Rightarrow> (Inl e, Connect # calls @ calls' @ [EndCall])
                     | Inr _ \<Rightarrow> (Inr res, Connect # calls @ calls' @ [EndCall])))))"

section \<open>Poller handler\<close>

text \<open>
  The value under a key of the configuration store: a map of poller configurations, as
  the handler writes it, or anything else.
\<close>

datatype stashval =
    ConfigMapValue "string \<Rightarrow> FtpPollerConfig option"
  | OtherValue jsval

type_synonym store = "string \<Rightarrow> stashval option"

definition ftpConfigStashKey :: string where
  "ftpConfigStashKey = ''bootstrap|ftp-poller-config''"

text \<open>
  The collaborators of the poller handler. \<open>getValueThrows\<close> is what the request
  \<open>GetValueCommand\<close> throws, if it does; \<open>setValueThrows\<close> is what \<open>SetValueCommand\<close> throws,
  if it does, and whether the store has taken the value all the same;
  \<open>FtpPollerConfigMap_parse\<close> is given the value read from the store (\<open>None\<close> for
  \<open>undefined\<close>); \<open>pollFtp\<close> is the second protocol, not in the source tree; \<open>newDate\<close> is
  the time of \<open>new Date()\<close> at the update.
\<close>

record PollerEnv =
  ph_recordNewExecution :: "string \<Rightarrow> unit result"
  ph_generateExecutionId :: string
  getValueThrows :: "error option"
  FtpPollerConfigMap_parse :: "stashval option \<Rightarrow> (string \<Rightarrow> FtpPollerConfig option) result"
  pollFtp :: "FtpPollerConfig \<Rightarrow> thrown + FtpPollingResults"
  sftp :: SftpEnv
  newDate :: int
  setValueThrows :: "(error \<times> bool) option"
  ph_markExecutionAsSuccessful :: "string \<Rightarrow> unit result"

definition pollerHandlerMap ::
  "PollerEnv \<Rightarrow> string \<Rightarrow> (FtpPollerConfig \<Rightarrow> thrown + FtpPollingResults) option" where
  "pollerHandlerMap env =
     [''ftp'' \<mapsto> pollFtp env, ''sftp'' \<mapsto> (\<lambda>cfg. fst (pollSftp (sftp env) cfg))]"

text \<open>
  The names every object inherits from \<open>Object.prototype\<close>: for such a name that is no
  key of the parsed map, \<open>ftpConfigMap[ftpConfigId]\<close> is the inherited member, not
  \<open>undefined\<close>.
\<close>

definition objectPrototypeNames :: "string list" where
  "objectPrototypeNames =
     [''constructor'', ''__proto__'', ''hasOwnProperty'', ''isPrototypeOf'',
      ''propertyIsEnumerable'', ''toLocaleString'', ''toString'', ''valueOf'',
      ''__defineGetter__'', ''__defineSetter__'', ''__lookupGetter__'', ''__lookupSetter__'']"

text \<open>
  What the poller handler returns: the results of the poll, or what \<open>failedExecution\<close>
  returns, the structured failure object \<open>{executionId, error, details?}\<close> (modelled
  from the spec, as for the outbound handler).
\<close>

datatype pollerResponse =
    PollResults FtpPollingResults
  | PollFailure string error "(ProcessingError list) option"

text \<open>
  The poller handler on the store: \<open>GetValueCommand\<close> reads the key, \<open>SetValueCommand\<close>
  writes it. \<open>recordNewExecution\<close> is awaited before the \<open>try\<close>, so what it throws rejects
  the handler's promise (\<open>Inl\<close>). An inherited member passes \<open>!ftpConfig\<close> and has no
  \<open>connectionDetails\<close>, so reading its \<open>protocol\<close> is a \<open>TypeError\<close>.
\<close>

definition pollerHandler ::
  "PollerEnv \<Rightarrow> store \<Rightarrow> string \<Rightarrow> (error + pollerResponse) \<times> store" where
  "pollerHandler env st ftpConfigId =
     (let executionId = ph_generateExecutionId env
      in case ph_recordNewExecution env executionId of
           Inl e \<Rightarrow> (Inl e, st)
         | Inr _ \<Rightarrow>
        (case getValueThrows env of
           Some e \<Rightarrow> (Inr (PollFailure executionId (normalizeCaught e) None), st)
         | None \<Rightarrow>
        (case FtpPollerConfigMap_parse env (st ftpConfigStashKey) of
           Inl e \<Rightarrow> (Inr (PollFailure executionId (normalizeCaught e) None), st)
         | Inr ftpConfigMap \<Rightarrow>
        (case ftpConfigMap ftpConfigId of
           None \<Rightarrow>
             if ftpConfigId \<in> set objectPrototypeNames
             then (Inr (PollFailure executionId TypeError None), st)
             else (Inr (PollFailure executionId (ConfigNotFound ftpConfigId) None), st)
         | Some ftpConfig \<Rightarrow>
        (case pollerHandlerMap env (protocol (connectionDetails ftpConfig)) of
           None \<Rightarrow>
             (Inr (PollFailure executionId
                     (UnsupportedProtocol (protocol (connectionDetails ftpConfig))) None), st)
         | Some poll \<Rightarrow>
        (case poll ftpConfig of
           Inl e \<Rightarrow> (Inr (PollFailure executionId (normalizeCaught (Thrown e)) None), st)
         | Inr results \<Rightarrow>
             if length (processingErrors results) > 0
             then (Inr (PollFailure executionId ProcessingErrorsEncountered
                          (Some (processingErrors results))), st)
             else
               (let value = ftpConfigMap(ftpConfigId \<mapsto>
                              ftpConfig\<lparr> lastPollTime := Some (newDate env) \<rparr>);
                    st' = st(ftpConfigStashKey \<mapsto> ConfigMapValue value)
                in case setValueThrows env of
                     Some (e, stored) \<Rightarrow>
                       (Inr (PollFailure executionId (normalizeCaught e) None),
                        if stored then st' else st)
                   | None \<Rightarrow>
                       (case ph_markExecutionAsSuccessful env executionId of
                          Inl e \<Rightarrow>
                            (Inr (PollFailure executionId (normalizeCaught e) None), st')
                        | Inr _ \<Rightarrow> (Inr (PollResults results), st')))))))))"

section \<open>Concrete runs\<close>

text \<open>
  A transaction set \<open>{heading: {transaction_set_header_ST: {...}}}\<close> of type 850 with
  control number \<open>n\<close>.
\<close>

definition transactionSetNumbered :: "rat \<Rightarrow> jsval" where
  "transactionSetNumbered n =
     JObject [(''heading'',
       JObject [(''transaction_set_header_ST'',
         JObject [(''transaction_set_identifier_code_01'', JString ''850''),
                  (''transaction_set_control_number_02'', JNumber (Finite n))])])]"

text \<open>
  A partnership of \<open>s\<close> and \<open>r\<close> with one transaction set and three destinations: a
  bucket, a webhook behind the mapping \<open>renumber\<close>, and a second bucket.
\<close>

definition demoConfig :: TransactionSetConfig where
  "demoConfig =
     \<lparr> description = ''Purchase Orders'',
       guideId = ''g850'',
       destinations =
         [\<lparr> destination = Bucket ''b'' ''out'', mappingId = None \<rparr>,
          \<lparr> destination = Webhook ''https://hook'', mappingId = Some ''renumber'' \<rparr>,
          \<lparr> destination = Bucket ''b2'' ''copy'', mappingId = None \<rparr>],
       receivingPartnerId = ''r'',
       sendingPartnerId = ''s'',
       usageIndicatorCode = ''T'' \<rparr>"

definition demoPartnership :: Partnership where
  "demoPartnership = \<lparr> transactionSets = [demoConfig] \<rparr>"

definition demoStash :: StashReader where
  "demoStash =
     \<lparr> getValue = (\<lambda>key. if key = ''partnership|s|r'' then Inr (JObject []) else Inr JUndefined),
       PartnershipSchema_parse = (\<lambda>v. Inr demoPartnership) \<rparr>"

text \<open>
  A store that holds a record under both keys of the pair \<open>a\<close>, \<open>b\<close>: the sample
  partnership under \<open>partnership|a|b\<close>, one without transaction sets under
  \<open>partnership|b|a\<close>.
\<close>

definition twoKeyStash :: StashReader where
  "twoKeyStash =
     \<lparr> getValue =
         (\<lambda>key. if key = ''partnership|a|b'' then Inr (JObject [(''n'', JString ''1'')])
                else if key = ''partnership|b|a'' then Inr (JObject [(''n'', JString ''2'')])
                else Inr JUndefined),
       PartnershipSchema_parse =
         (\<lambda>v. if v = JObject [(''n'', JString ''1'')] then Inr demoPartnership
               else Inr \<lparr> transactionSets = [] \<rparr>) \<rparr>"

text \<open>
  A remote endpoint: the directory \<open>/in\<close> lists a file modified at 5, a file modified at
  50 and a subdirectory; listing \<open>/gone\<close> throws; the first file cannot be downloaded.
  The clock reads 100.
\<close>

definition oldFile :: FileInfo where
  "oldFile = \<lparr> fi_type = ''-'', fi_name = ''old.edi'', modifyTime = Some 5 \<rparr>"

definition newFile :: FileInfo where
  "newFile = \<lparr> fi_type = ''-'', fi_name = ''new.edi'', modifyTime = Some 50 \<rparr>"

definition subDir :: FileInfo where
  "subDir = \<lparr> fi_type = ''d'', fi_name = ''sub'', modifyTime = Some 60 \<rparr>"

definition demoSftp :: SftpEnv where
  "demoSftp =
     \<lparr> sftp_connect = (\<lambda>cfg. Inr ()),
       sftp_list =
         (\<lambda>p. if p = ''/in'' then Inr [oldFile, newFile, subDir]
               else if p = ''/in/old.edi'' then Inr [oldFile]
               else if p = ''/in/new.edi'' then Inr [newFile]
               else if p = ''/in/sub'' then Inr [subDir]
               else if p = ''/gone'' then Inl (ErrorWith ''No such file'')
               else Inr []),
       sftp_get =
         (\<lambda>p. if p = ''/in/new.edi'' then Inr ''ISA~''
               else Inl (ErrorWith ''get failed'')),
       bucket_put = (\<lambda>b k body. Inr ()),
       sftp_delete = (\<lambda>p. Inr ()),
       sftp_end = Inr (),
       Date_now = 100,
       path_normalize = (\<lambda>p. p),
       destinationBucketName = ''inbox'',
       typeErrorMessage = ''Cannot read properties of undefined'' \<rparr>"

definition demoPoll :: FtpPollerConfig where
  "demoPoll =
     \<lparr> connectionDetails = \<lparr> protocol = ''sftp'', config = ''host'' \<rparr>,
       remotePath = ''/in'',
       remoteFiles = None,
       destinationPath = ''inbound'',
       deleteAfterProcessing = False,
       lastPollTime = Some 10 \<rparr>"

text \<open>
  A store with three poller configurations: \<open>a\<close> polls \<open>/in\<close>, \<open>b\<close> polls \<open>/gone\<close>, \<open>c\<close>
  asks for the file of \<open>/in\<close> that cannot be downloaded. The parser accepts a stored map
  of configurations and nothing else.
\<close>

definition demoConfigs :: "string \<Rightarrow> FtpPollerConfig option" where
  "demoConfigs =
     [''a'' \<mapsto> demoPoll,
      ''b'' \<mapsto> demoPoll\<lparr> remotePath := ''/gone'' \<rparr>,
      ''c'' \<mapsto> demoPoll\<lparr> remoteFiles := Some [''old.edi''], lastPollTime := None \<rparr>]"

definition demoStore :: store where
  "demoStore = [ftpConfigStashKey \<mapsto> ConfigMapValue demoConfigs]"

definition demoPollerEnv :: PollerEnv where
  "demoPollerEnv =
     \<lparr> ph_recordNewExecution = (\<lambda>executionId. Inr ()),
       ph_generateExecutionId = ''poll-1'',
       getValueThrows = None,
       FtpPollerConfigMap_parse =
         (\<lambda>v. case v of
                 Some (ConfigMapValue m) \<Rightarrow> Inr m
               | _ \<Rightarrow> Inl (Thrown (ErrorWith ''invalid configuration''))),
       pollFtp = (\<lambda>cfg. Inl (ErrorWith ''no ftp server'')),
       sftp = demoSftp,
       newDate = 200,
       setValueThrows = None,
       ph_markExecutionAsSuccessful = (\<lambda>executionId. Inr ()) \<rparr>"

definition demoProfile :: "string \<Rightarrow> PartnerProfile" where
  "demoProfile p =
     \<lparr> partnerInterchangeQualifier = ''ZZ'', partnerInterchangeId = p,
       partnerApplicationId = p \<rparr>"

text \<open>
  Collaborators that all answer. The mapping \<open>renumber\<close> returns one transaction set
  numbered 2; the issuer hands out 7 for ISA and 3 for GS.
\<close>

definition demoCollaborators :: "string Collaborators" where
  "demoCollaborators =
     \<lparr> generateExecutionId = (\<lambda>event. ''exec-1''),
       recordNewExecution = (\<lambda>executionId event. Inr ()),
       OutboundEventSchema_parse = Inr,
       loadPartnerProfile =
         (\<lambda>p. if p = ''s'' \<or> p = ''r'' then Inr (demoProfile p)
              else Inl (Thrown (ErrorWith ''no such profile''))),
       stash = demoStash,
       getTransactionSetConfigsForPartnership =
         (\<lambda>p s r. Inr (filter (\<lambda>t. sendingPartnerId t = s \<and> receivingPartnerId t = r)
                          (transactionSets p))),
       resolveGuide =
         (\<lambda>ids tsType. case ids of
                          [g] \<Rightarrow> Inr \<lparr> gs_guideId = g \<rparr>
                        | _ \<Rightarrow> Inl (Thrown (ErrorWith ''no guide''))),
       resolveTransactionSetConfig =
         (\<lambda>configs g. case filter (\<lambda>t. guideId t = g) configs of
                         [t] \<Rightarrow> Inr t
                       | _ \<Rightarrow> Inl (Thrown (ErrorWith ''no config''))),
       lookupFunctionalIdentifierCode =
         (\<lambda>tsType. if tsType = JString ''850'' then Inr ''PO''
                    else Inl (Thrown (ErrorWith ''unknown transaction set''))),
       generateControlNumber = (\<lambda>req. if segment req = ''ISA'' then Inr 7 else Inr 3),
       format = (\<lambda>pattern. pattern),
       toNumber = (\<lambda>v. Inr NaN),
       templateString = (\<lambda>v. case v of JString s \<Rightarrow> s | _ \<Rightarrow> ''?''),
       controlNumberString = (\<lambda>n. if n = 7 then ''7'' else ''?''),
       invokeMapping =
         (\<lambda>m p. if m = ''renumber'' then Inr (JArray [transactionSetNumbered 2])
                else Inl (Thrown (ErrorWith ''no such mapping''))),
       translateJsonToEdi = (\<lambda>guideJson g envelope. Inr ''ISA~GS~ST~''),
       deliverToDestination =
         (\<lambda>d translation. case d of Bucket b p \<Rightarrow> Inr p | Webhook u \<Rightarrow> Inr u),
       markExecutionAsSuccessful = (\<lambda>executionId. Inr ()) \<rparr>"

definition demoEvent :: OutboundEvent where
  "demoEvent =
     \<lparr> metadata = \<lparr> md_sendingPartnerId = ''s'', md_receivingPartnerId = ''r'',
                    transactionSet = None \<rparr>,
       payload = transactionSetNumbered 1 \<rparr>"

definition demoRouting :: Routing where
  "demoRouting =
     \<lparr> outboundEvent = demoEvent,
       senderProfile = demoProfile ''s'',
       receiverProfile = demoProfile ''r'',
       transactionSetType = JString ''850'',
       guideSummary = \<lparr> gs_guideId = ''g850'' \<rparr>,
       transactionSetConfig = demoConfig,
       rt_functionalIdentifierCode = ''PO'' \<rparr>"

section \<open>Control-number validation\<close>

lemma validateFrom_iff:
  "validateFrom toNum e ts = Inr () \<longleftrightarrow>
     (\<forall>i<length ts. controlNumberValue toNum (ts ! i) = Inr (Finite (of_nat (e + i))))"
proof (induction ts arbitrary: e)
  case Nil
  then show ?case by simp
next
  case (Cons t ts)
  show ?case
  proof (cases "controlNumberValue toNum t = Inr (Finite (of_nat e))")
    case True
    have "(\<forall>i<length (t # ts). controlNumberValue toNum ((t # ts) ! i) = Inr (Finite (of_nat (e + i))))
          \<longleftrightarrow> (\<forall>i<length ts. controlNumberValue toNum (ts ! i) = Inr (Finite (of_nat (Suc e + i))))"
      using True by (auto simp: nth_Cons split: nat.splits)
    with True Cons.IH [of "e + 1"] show ?thesis by simp
  next
    case False
    then have "validateFrom toNum e (t # ts) \<noteq> Inr ()"
      by (auto split: sum.splits)
    moreover have "\<not> (\<forall>i<length (t # ts). controlNumberValue toNum ((t # ts) ! i) = Inr (Finite (of_nat (e + i))))"
      using False by (auto intro: exI [of _ 0])
    ultimately show ?thesis by blast
  qed
qed

lemma seq_eq_iff:
  "(\<forall>i<length ns. ns ! i = Suc i) \<longleftrightarrow> ns = [1..<Suc (length ns)]"
proof
  assume h: "\<forall>i<length ns. ns ! i = Suc i"
  show "ns = [1..<Suc (length ns)]"
  proof (rule nth_equalityI)
    show "length ns = length [1..<Suc (length ns)]" by (simp del: upt_Suc)
  next
    fix i assume "i < length ns"
    with h show "ns ! i = [1..<Suc (length ns)] ! i" by (simp del: upt_Suc)
  qed
next
  assume h: "ns = [1..<Suc (length ns)]"
  show "\<forall>i<length ns. ns ! i = Suc i"
  proof (intro allI impI)
    fix i assume "i < length ns"
    then have "[1..<Suc (length ns)] ! i = Suc i" by (simp del: upt_Suc)
    with h show "ns ! i = Suc i" by simp
  qed
qed

lemma demo_resolveRouting: "resolveRouting demoCollaborators demoEvent = Inr demoRouting"
  by (simp add: resolveRouting_def demoCollaborators_def demoEvent_def demoRouting_def bindR_def
      loadPartnership_def tryKey_def demoStash_def partnershipKey_def demoPartnership_def
      demoConfig_def determineTransactionSetType_def extractTransactionSetTypeFromGuideJson_def
      transactionSetNumbered_def headerField_def member_def optMember_def nullish_def setAdd_def)

lemma demo_validate_1: "validateTransactionSetControlNumbers tn (transactionSetNumbered 1) = Inr ()"
  by (simp add: validateTransactionSetControlNumbers_def transactionSetNumbered_def
      controlNumberValue_def headerField_def member_def optMember_def nullish_def bindR_def)

lemma demo_validate_2:
  "validateTransactionSetControlNumbers tn (JArray [transactionSetNumbered 2])
     = Inl (InvalidControlNumber 1 (Finite 2))"
  by (simp add: validateTransactionSetControlNumbers_def transactionSetNumbered_def
      controlNumberValue_def headerField_def member_def optMember_def nullish_def bindR_def)

lemma demo_deliveryResults:
  "deliveryResults demoCollaborators demoRouting 7 3
     = [Fulfilled ''out/7-850.edi'', Rejected (InvalidControlNumber 1 (Finite 2)),
        Fulfilled ''copy/7-850.edi'']"
  by (simp add: deliveryResults_def allSettled_def deliverOne_def guideJsonFor_def bindR_def
      demoRouting_def demoConfig_def demoEvent_def demo_validate_1 demo_validate_2
      demoCollaborators_def)

lemma deliverOne_destinations_irrelevant:
  "deliverOne c (r\<lparr> transactionSetConfig := (transactionSetConfig r)\<lparr> destinations := ds \<rparr> \<rparr>) isa env dc
     = deliverOne c r isa env dc"
  by (simp add: deliverOne_def guideJsonFor_def split: option.split)

lemma buildEnvelope_destinations_irrelevant:
  "buildEnvelope c (r\<lparr> transactionSetConfig := (transactionSetConfig r)\<lparr> destinations := ds \<rparr> \<rparr>) isa gs
     = buildEnvelope c r isa gs"
  by (simp add: buildEnvelope_def)

lemma deliveryResults_nth:
  "j < length (destinations (transactionSetConfig r)) \<Longrightarrow>
   deliveryResults c r isa gs ! j
     = settle (deliverOne c r isa (buildEnvelope c r isa gs)
                 (destinations (transactionSetConfig r) ! j))"
  by (simp add: deliveryResults_def allSettled_def)

lemma length_deliveryResults:
  "length (deliveryResults c r isa gs) = length (destinations (transactionSetConfig r))"
  by (simp add: deliveryResults_def allSettled_def)

lemma deliverOne_validation_fails:
  "guideJsonFor c r dc = Inr gj \<Longrightarrow>
   validateTransactionSetControlNumbers (toNumber c) gj = Inl e \<Longrightarrow>
   deliverOne c r isa env dc = Inl e"
  by (simp add: deliverOne_def bindR_def)

lemma sibling_settlement_unchanged:
  assumes "j < length (destinations (transactionSetConfig r))" and "i \<noteq> j"
  shows "deliveryResults c
           (r\<lparr> transactionSetConfig := (transactionSetConfig r)
                 \<lparr> destinations := (destinations (transactionSetConfig r))[i := dc] \<rparr> \<rparr>)
           isa gs ! j
         = deliveryResults c r isa gs ! j"
proof -
  let ?ds = "destinations (transactionSetConfig r)"
  let ?r' = "r\<lparr> transactionSetConfig := (transactionSetConfig r)\<lparr> destinations := ?ds[i := dc] \<rparr> \<rparr>"
  have "deliveryResults c ?r' isa gs ! j
          = settle (deliverOne c ?r' isa (buildEnvelope c ?r' isa gs) (?ds[i := dc] ! j))"
    using assms(1) by (subst deliveryResults_nth) simp_all
  also have "\<dots> = settle (deliverOne c r isa (buildEnvelope c r isa gs) (?ds ! j))"
    using assms(2)
    by (simp add: deliverOne_destinations_irrelevant buildEnvelope_destinations_irrelevant)
  also have "\<dots> = deliveryResults c r isa gs ! j"
    using assms(1) by (simp add: deliveryResults_nth)
  finally show ?thesis .
qed

text \<open>
  C1. \<open>validateTransactionSetControlNumbers\<close> succeeds exactly when the control number
  of the transaction set at (1-based) position N, read through \<open>Number\<close>, is N, for every
  position of the normalized payload. So control numbers 1..N in order succeed, and any
  other sequence (a permutation, a gap) throws. In the fan-out, a destination whose guide
  JSON fails the validation is rejected with that error, and the settlement of every other
  destination is that of its own attempt, the same whatever stands at the failing position.
\<close>

theorem control_number_sequence:
  "(validateTransactionSetControlNumbers toNum g = Inr () \<longleftrightarrow>
      (\<forall>i<length (normalizeGuideJson g).
         controlNumberValue toNum (normalizeGuideJson g ! i) = Inr (Finite (of_nat (Suc i)))))
   \<and> (map (controlNumberValue toNum) (normalizeGuideJson g)
         = map (\<lambda>n. Inr (Finite (of_nat n))) ns \<longrightarrow>
        (validateTransactionSetControlNumbers toNum g = Inr () \<longleftrightarrow> ns = [1..<Suc (length ns)]))
   \<and> (i < length (destinations (transactionSetConfig r)) \<and>
       guideJsonFor c r (destinations (transactionSetConfig r) ! i) = Inr gj \<and>
       validateTransactionSetControlNumbers (toNumber c) gj = Inl e \<longrightarrow>
         deliveryResults c r isa gs ! i = Rejected e \<and>
         (\<forall>j<length (destinations (transactionSetConfig r)). j \<noteq> i \<longrightarrow>
            deliveryResults c r isa gs ! j
              = settle (deliverOne c r isa (buildEnvelope c r isa gs)
                          (destinations (transactionSetConfig r) ! j)) \<and>
            (\<forall>dc. deliveryResults c
                     (r\<lparr> transactionSetConfig := (transactionSetConfig r)
                           \<lparr> destinations := (destinations (transactionSetConfig r))[i := dc] \<rparr> \<rparr>)
                     isa gs ! j
                   = deliveryResults c r isa gs ! j)))"
proof (intro conjI)
  let ?ts = "normalizeGuideJson g"
  show iff: "validateTransactionSetControlNumbers toNum g = Inr () \<longleftrightarrow>
      (\<forall>i<length ?ts. controlNumberValue toNum (?ts ! i) = Inr (Finite (of_nat (Suc i))))"
    by (simp add: validateTransactionSetControlNumbers_def validateFrom_iff)
  show "map (controlNumberValue toNum) ?ts = map (\<lambda>n. Inr (Finite (of_nat n))) ns \<longrightarrow>
        (validateTransactionSetControlNumbers toNum g = Inr () \<longleftrightarrow> ns = [1..<Suc (length ns)])"
  proof
    assume m: "map (controlNumberValue toNum) ?ts = map (\<lambda>n. Inr (Finite (of_nat n))) ns"
    then have len: "length ?ts = length ns"
      by (metis length_map)
    have nth: "controlNumberValue toNum (?ts ! i) = Inr (Finite (of_nat (ns ! i)))"
      if "i < length ns" for i
    proof -
      have "map (controlNumberValue toNum) ?ts ! i = map (\<lambda>n. Inr (Finite (of_nat n))) ns ! i"
        using m by simp
      with that len show ?thesis by simp
    qed
    have "validateTransactionSetControlNumbers toNum g = Inr () \<longleftrightarrow>
            (\<forall>i<length ns. ns ! i = Suc i)"
      unfolding iff len using nth by auto
    then show "validateTransactionSetControlNumbers toNum g = Inr () \<longleftrightarrow>
                 ns = [1..<Suc (length ns)]"
      by (simp only: seq_eq_iff)
  qed
  let ?ds = "destinations (transactionSetConfig r)"
  show "i < length ?ds \<and> guideJsonFor c r (?ds ! i) = Inr gj \<and>
       validateTransactionSetControlNumbers (toNumber c) gj = Inl e \<longrightarrow>
         deliveryResults c r isa gs ! i = Rejected e \<and>
         (\<forall>j<length ?ds. j \<noteq> i \<longrightarrow>
            deliveryResults c r isa gs ! j
              = settle (deliverOne c r isa (buildEnvelope c r isa gs) (?ds ! j)) \<and>
            (\<forall>dc. deliveryResults c
                     (r\<lparr> transactionSetConfig := (transactionSetConfig r)
                           \<lparr> destinations := ?ds[i := dc] \<rparr> \<rparr>)
                     isa gs ! j
                   = deliveryResults c r isa gs ! j))"
  proof (intro impI conjI allI)
    assume h: "i < length ?ds \<and> guideJsonFor c r (?ds ! i) = Inr gj \<and>
       validateTransactionSetControlNumbers (toNumber c) gj = Inl e"
    then have "deliverOne c r isa (buildEnvelope c r isa gs) (?ds ! i) = Inl e"
      by (simp add: deliverOne_validation_fails)
    with h show "deliveryResults c r isa gs ! i = Rejected e"
      by (simp add: deliveryResults_nth)
  next
    fix j assume "j < length ?ds"
    then show "deliveryResults c r isa gs ! j
              = settle (deliverOne c r isa (buildEnvelope c r isa gs) (?ds ! j))"
      by (rule deliveryResults_nth)
  next
    fix j dc assume "j < length ?ds" and "j \<noteq> i"
    then show "deliveryResults c
                 (r\<lparr> transactionSetConfig := (transactionSetConfig r)
                       \<lparr> destinations := ?ds[i := dc] \<rparr> \<rparr>) isa gs ! j
               = deliveryResults c r isa gs ! j"
      by (simp add: sibling_settlement_unchanged)
  qed
qed

theorem control_number_sequence_witness:
  "validateTransactionSetControlNumbers (\<lambda>v. Inr NaN)
       (JArray [transactionSetNumbered 1, transactionSetNumbered 2]) = Inr ()
   \<and> validateTransactionSetControlNumbers (\<lambda>v. Inr NaN)
       (JArray [transactionSetNumbered 2, transactionSetNumbered 1]) \<noteq> Inr ()
   \<and> deliveryResults demoCollaborators demoRouting 7 3 ! 1
       = Rejected (InvalidControlNumber 1 (Finite 2))
   \<and> deliveryResults demoCollaborators demoRouting 7 3 ! 0
       = settle (deliverOne demoCollaborators demoRouting 7
                   (buildEnvelope demoCollaborators demoRouting 7 3)
                   (destinations (transactionSetConfig demoRouting) ! 0))"
proof -
  let ?tn = "\<lambda>v::jsval. (Inr NaN :: jsnum result)"
  have cn: "controlNumberValue ?tn (transactionSetNumbered n) = Inr (Finite n)" for n
    by (simp add: transactionSetNumbered_def controlNumberValue_def headerField_def member_def
        optMember_def nullish_def bindR_def)
  have up: "[1..<Suc (length [1, 2 :: nat])] = [1, 2]"
    by (simp add: upt_rec)
  have m12: "map (controlNumberValue ?tn)
               (normalizeGuideJson (JArray [transactionSetNumbered 1, transactionSetNumbered 2]))
             = map (\<lambda>n. Inr (Finite (of_nat n))) [1, 2]"
    by (simp add: cn)
  have m21: "map (controlNumberValue ?tn)
               (normalizeGuideJson (JArray [transactionSetNumbered 2, transactionSetNumbered 1]))
             = map (\<lambda>n. Inr (Finite (of_nat n))) [2, 1]"
    by (simp add: cn)
  have ok: "validateTransactionSetControlNumbers ?tn
              (JArray [transactionSetNumbered 1, transactionSetNumbered 2]) = Inr ()"
    using control_number_sequence
            [where toNum = ?tn and ns = "[1, 2]"
               and g = "JArray [transactionSetNumbered 1, transactionSetNumbered 2]"]
          m12 up
    by metis
  have ko: "validateTransactionSetControlNumbers ?tn
              (JArray [transactionSetNumbered 2, transactionSetNumbered 1]) \<noteq> Inr ()"
    using control_number_sequence
            [where toNum = ?tn and ns = "[2, 1]"
               and g = "JArray [transactionSetNumbered 2, transactionSetNumbered 1]"]
          m21 up
    by (metis list.inject numeral_eq_one_iff semiring_norm(85) length_Cons list.size(3))
  have len: "(1::nat) < length (destinations (transactionSetConfig demoRouting))"
    and zero: "(0::nat) < length (destinations (transactionSetConfig demoRouting))"
    by (simp_all add: demoRouting_def demoConfig_def)
  have gj: "guideJsonFor demoCollaborators demoRouting
              (destinations (transactionSetConfig demoRouting) ! 1)
            = Inr (JArray [transactionSetNumbered 2])"
    by (simp add: guideJsonFor_def demoRouting_def demoConfig_def demoCollaborators_def)
  have bad: "validateTransactionSetControlNumbers (toNumber demoCollaborators)
               (JArray [transactionSetNumbered 2]) = Inl (InvalidControlNumber 1 (Finite 2))"
    by (rule demo_validate_2)
  note iso = control_number_sequence
            [where c = demoCollaborators and r = demoRouting and i = 1 and isa = 7 and gs = 3
               and gj = "JArray [transactionSetNumbered 2]"
               and e = "InvalidControlNumber 1 (Finite 2)", THEN conjunct2, THEN conjunct2,
             rule_format, OF conjI [OF len conjI [OF gj bad]]]
  from iso have rej: "deliveryResults demoCollaborators demoRouting 7 3 ! 1
       = Rejected (InvalidControlNumber 1 (Finite 2))"
    by (rule conjunct1)
  from iso [THEN conjunct2, rule_format, OF zero]
  have sib: "deliveryResults demoCollaborators demoRouting 7 3 ! 0
       = settle (deliverOne demoCollaborators demoRouting 7
                   (buildEnvelope demoCollaborators demoRouting 7 3)
                   (destinations (transactionSetConfig demoRouting) ! 0))"
    by simp
  from ok ko rej sib show ?thesis by blast
qed

section \<open>Fan-out and aggregation\<close>

lemma foldl_pushSettled:
  "foldl pushSettled g rs =
     \<lparr> fulfilled = fulfilled g @ [v. Fulfilled v \<leftarrow> rs],
       rejected = rejected g @ [e. Rejected e \<leftarrow> rs] \<rparr>"
proof (induction rs arbitrary: g)
  case Nil
  then show ?case by simp
next
  case (Cons s rs)
  then show ?case by (cases s) simp_all
qed

lemma groupByStatus_partition:
  "groupByStatus rs =
     \<lparr> fulfilled = [v. Fulfilled v \<leftarrow> rs], rejected = [e. Rejected e \<leftarrow> rs] \<rparr>"
  by (simp add: groupByStatus_def foldl_pushSettled)

lemma partition_lengths:
  "length [v. Fulfilled v \<leftarrow> rs] + length [e. Rejected e \<leftarrow> rs] = length rs"
proof (induction rs)
  case Nil
  then show ?case by simp
next
  case (Cons s rs)
  then show ?case by (cases s) simp_all
qed

lemma handler_after_issue:
  assumes "resolveRouting c event = Inr r"
    and "generateControlNumber c (controlNumberRequest ''ISA'' r) = Inr isa"
    and "generateControlNumber c (controlNumberRequest ''GS'' r) = Inr gs"
  shows "handler c event =
           (aggregate c (generateExecutionId c event) (deliveryResults c r isa gs),
            [(controlNumberRequest ''ISA'' r, isa), (controlNumberRequest ''GS'' r, gs)])"
  using assms by (simp add: handler_def)

lemma resolveRouting_invokeMapping_irrelevant:
  "resolveRouting (c\<lparr> invokeMapping := f \<rparr>) event = resolveRouting c event"
  by (simp add: resolveRouting_def)

lemma resolveRouting_markExecutionAsSuccessful_irrelevant:
  "resolveRouting (c\<lparr> markExecutionAsSuccessful := f \<rparr>) event = resolveRouting c event"
  by (simp add: resolveRouting_def)

lemma withObjectPath_markExecutionAsSuccessful_irrelevant:
  "withObjectPath (c\<lparr> markExecutionAsSuccessful := f \<rparr>) isa tsType d
     = withObjectPath c isa tsType d"
  by (cases d) simp_all

lemma deliverOne_markExecutionAsSuccessful_irrelevant:
  "deliverOne (c\<lparr> markExecutionAsSuccessful := f \<rparr>) r isa envelope
     = deliverOne c r isa envelope"
  by (rule ext) (simp add: deliverOne_def guideJsonFor_def
      withObjectPath_markExecutionAsSuccessful_irrelevant split: option.split)

lemma deliveryResults_markExecutionAsSuccessful_irrelevant:
  "deliveryResults (c\<lparr> markExecutionAsSuccessful := f \<rparr>) r isa gs = deliveryResults c r isa gs"
  by (simp add: deliveryResults_def deliverOne_markExecutionAsSuccessful_irrelevant
      buildEnvelope_def)

lemma demo_deliveryResults_unmapped:
  "deliveryResults (demoCollaborators\<lparr> invokeMapping := (\<lambda>m p. Inr p) \<rparr>) demoRouting 7 3
     = [Fulfilled ''out/7-850.edi'', Fulfilled ''https://hook'', Fulfilled ''copy/7-850.edi'']"
  by (simp add: deliveryResults_def allSettled_def deliverOne_def guideJsonFor_def bindR_def
      demoRouting_def demoConfig_def demoEvent_def demo_validate_1 demoCollaborators_def)

text \<open>
  The claim C5 as stated fails where it says that an empty rejected partition gives
  status 200: \<open>markExecutionAsSuccessful\<close> is awaited inside the \<open>try\<close>, between the check of
  the rejected count and the \<open>return\<close>. Here all three destinations are fulfilled, the
  ledger call throws, and the handler returns the failure of the \<open>catch\<close> block, without
  the delivery results and without details.
\<close>

theorem all_fulfilled_reported_as_failure:
  "deliveryResults
       (demoCollaborators
          \<lparr> invokeMapping := (\<lambda>m p. Inr p),
            markExecutionAsSuccessful := (\<lambda>i. Inl (Thrown (ErrorWith ''ledger unavailable''))) \<rparr>)
       demoRouting 7 3
     = [Fulfilled ''out/7-850.edi'', Fulfilled ''https://hook'', Fulfilled ''copy/7-850.edi'']
   \<and> handler
       (demoCollaborators
          \<lparr> invokeMapping := (\<lambda>m p. Inr p),
            markExecutionAsSuccessful := (\<lambda>i. Inl (Thrown (ErrorWith ''ledger unavailable''))) \<rparr>)
       demoEvent
     = (Failure ''exec-1'' (Thrown (ErrorWith ''ledger unavailable'')) None,
        [(controlNumberRequest ''ISA'' demoRouting, 7),
         (controlNumberRequest ''GS'' demoRouting, 3)])"
proof -
  let ?c = "demoCollaborators
          \<lparr> invokeMapping := (\<lambda>m p. Inr p),
            markExecutionAsSuccessful := (\<lambda>i. Inl (Thrown (ErrorWith ''ledger unavailable''))) \<rparr>"
  have r: "resolveRouting ?c demoEvent = Inr demoRouting"
    by (simp only: resolveRouting_markExecutionAsSuccessful_irrelevant
        resolveRouting_invokeMapping_irrelevant demo_resolveRouting)
  have isa: "generateControlNumber ?c (controlNumberRequest ''ISA'' demoRouting) = Inr 7"
    and gs: "generateControlNumber ?c (controlNumberRequest ''GS'' demoRouting) = Inr 3"
    by (simp_all add: demoCollaborators_def controlNumberRequest_def)
  have d: "deliveryResults ?c demoRouting 7 3
     = [Fulfilled ''out/7-850.edi'', Fulfilled ''https://hook'', Fulfilled ''copy/7-850.edi'']"
    by (simp only: deliveryResults_markExecutionAsSuccessful_irrelevant
        demo_deliveryResults_unmapped)
  have agg: "aggregate ?c (generateExecutionId ?c demoEvent) (deliveryResults ?c demoRouting 7 3)
     = Failure ''exec-1'' (Thrown (ErrorWith ''ledger unavailable'')) None"
    unfolding d
    by (simp add: aggregate_def groupByStatus_def failedExecution_def demoCollaborators_def)
  show ?thesis
    unfolding handler_after_issue [OF r isa gs] agg by (simp add: d)
qed

text \<open>
  C5, amended. Once the routing is resolved and both control numbers are issued, the
  fan-out gives one settlement for each destination, in order: the settlement of
  destination j is that of its own attempt, and is the same whatever stands at another
  position i, so a mapping, validation, translation or delivery failure of one destination
  leaves the others as they are. The aggregation partitions these n settlements into the
  fulfilled values and the rejection reasons. If a rejection exists, the handler returns
  the structured failure with both lists as details. If none exists, the handler calls
  \<open>markExecutionAsSuccessful\<close>: when the call returns, the handler returns status 200 with
  the fulfilled delivery results, and when it throws, the handler returns the failure
  made from what was thrown, without details.
\<close>

theorem destinations_settle_independently:
  assumes "resolveRouting c event = Inr r"
    and "generateControlNumber c (controlNumberRequest ''ISA'' r) = Inr isa"
    and "generateControlNumber c (controlNumberRequest ''GS'' r) = Inr gs"
  shows "length (deliveryResults c r isa gs) = length (destinations (transactionSetConfig r))
    \<and> (\<forall>j<length (destinations (transactionSetConfig r)).
          deliveryResults c r isa gs ! j
            = settle (deliverOne c r isa (buildEnvelope c r isa gs)
                        (destinations (transactionSetConfig r) ! j)) \<and>
          (\<forall>i dc. i \<noteq> j \<longrightarrow>
             deliveryResults c
               (r\<lparr> transactionSetConfig := (transactionSetConfig r)
                     \<lparr> destinations := (destinations (transactionSetConfig r))[i := dc] \<rparr> \<rparr>)
               isa gs ! j
             = deliveryResults c r isa gs ! j))
    \<and> fulfilled (groupByStatus (deliveryResults c r isa gs))
          = [v. Fulfilled v \<leftarrow> deliveryResults c r isa gs]
    \<and> rejected (groupByStatus (deliveryResults c r isa gs))
          = [e. Rejected e \<leftarrow> deliveryResults c r isa gs]
    \<and> length (fulfilled (groupByStatus (deliveryResults c r isa gs)))
        + length (rejected (groupByStatus (deliveryResults c r isa gs)))
          = length (destinations (transactionSetConfig r))
    \<and> (rejected (groupByStatus (deliveryResults c r isa gs)) \<noteq> [] \<longrightarrow>
          fst (handler c event)
            = Failure (generateExecutionId c event)
                (SomeDeliveriesFailed
                   (length (rejected (groupByStatus (deliveryResults c r isa gs))))
                   (length (fulfilled (groupByStatus (deliveryResults c r isa gs)))))
                (Some (groupByStatus (deliveryResults c r isa gs))))
    \<and> (rejected (groupByStatus (deliveryResults c r isa gs)) = [] \<longrightarrow>
          fst (handler c event)
            = (case markExecutionAsSuccessful c (generateExecutionId c event) of
                 Inr u \<Rightarrow> Ok200 (fulfilled (groupByStatus (deliveryResults c r isa gs)))
               | Inl e \<Rightarrow> Failure (generateExecutionId c event) (normalizeCaught e) None))"
proof -
  let ?ds = "destinations (transactionSetConfig r)"
  let ?rs = "deliveryResults c r isa gs"
  let ?g = "groupByStatus ?rs"
  have len: "length ?rs = length ?ds"
    by (rule length_deliveryResults)
  have each: "\<forall>j<length ?ds.
          ?rs ! j = settle (deliverOne c r isa (buildEnvelope c r isa gs) (?ds ! j)) \<and>
          (\<forall>i dc. i \<noteq> j \<longrightarrow>
             deliveryResults c
               (r\<lparr> transactionSetConfig := (transactionSetConfig r)\<lparr> destinations := ?ds[i := dc] \<rparr> \<rparr>)
               isa gs ! j
             = ?rs ! j)"
  proof (intro allI impI conjI)
    fix j assume "j < length ?ds"
    then show "?rs ! j = settle (deliverOne c r isa (buildEnvelope c r isa gs) (?ds ! j))"
      by (rule deliveryResults_nth)
  next
    fix j i dc assume "j < length ?ds" and "i \<noteq> j"
    then show "deliveryResults c
               (r\<lparr> transactionSetConfig := (transactionSetConfig r)\<lparr> destinations := ?ds[i := dc] \<rparr> \<rparr>)
               isa gs ! j
             = ?rs ! j"
      by (rule sibling_settlement_unchanged)
  qed
  have ful: "fulfilled ?g = [v. Fulfilled v \<leftarrow> ?rs]"
    and rej: "rejected ?g = [e. Rejected e \<leftarrow> ?rs]"
    by (simp_all add: groupByStatus_partition)
  have total: "length (fulfilled ?g) + length (rejected ?g) = length ?ds"
    unfolding ful rej partition_lengths by (rule len)
  have h: "fst (handler c event) = aggregate c (generateExecutionId c event) ?rs"
    using handler_after_issue [OF assms] by simp
  have failed: "rejected ?g \<noteq> [] \<longrightarrow>
          fst (handler c event)
            = Failure (generateExecutionId c event)
                (SomeDeliveriesFailed (length (rejected ?g)) (length (fulfilled ?g))) (Some ?g)"
    unfolding h by (simp add: aggregate_def Let_def failedExecution_def)
  have ok: "rejected ?g = [] \<longrightarrow>
          fst (handler c event)
            = (case markExecutionAsSuccessful c (generateExecutionId c event) of
                 Inr u \<Rightarrow> Ok200 (fulfilled ?g)
               | Inl e \<Rightarrow> Failure (generateExecutionId c event) (normalizeCaught e) None)"
    unfolding h by (simp add: aggregate_def Let_def failedExecution_def split: sum.split)
  from len each ful rej total failed ok show ?thesis by blast
qed

theorem destinations_settle_independently_witness:
  "fst (handler demoCollaborators demoEvent)
     = Failure ''exec-1'' (SomeDeliveriesFailed 1 2)
         (Some \<lparr> fulfilled = [''out/7-850.edi'', ''copy/7-850.edi''],
                 rejected = [InvalidControlNumber 1 (Finite 2)] \<rparr>)
   \<and> length (deliveryResults demoCollaborators demoRouting 7 3) = 3
   \<and> fst (handler (demoCollaborators\<lparr> invokeMapping := (\<lambda>m p. Inr p) \<rparr>) demoEvent)
     = Ok200 [''out/7-850.edi'', ''https://hook'', ''copy/7-850.edi'']
   \<and> fst (handler
            (demoCollaborators
               \<lparr> invokeMapping := (\<lambda>m p. Inr p),
                 markExecutionAsSuccessful := (\<lambda>i. Inl (Thrown (NonError None))) \<rparr>)
            demoEvent)
     = Failure ''exec-1'' (UnknownError (NonError None)) None"
proof -
  let ?c = "demoCollaborators\<lparr> invokeMapping := (\<lambda>m p. Inr p) \<rparr>"
  let ?c2 = "demoCollaborators
               \<lparr> invokeMapping := (\<lambda>m p. Inr p),
                 markExecutionAsSuccessful := (\<lambda>i. Inl (Thrown (NonError None))) \<rparr>"
  have isa: "generateControlNumber demoCollaborators (controlNumberRequest ''ISA'' demoRouting) = Inr 7"
    and gs: "generateControlNumber demoCollaborators (controlNumberRequest ''GS'' demoRouting) = Inr 3"
    by (simp_all add: demoCollaborators_def controlNumberRequest_def)
  have isa': "generateControlNumber ?c (controlNumberRequest ''ISA'' demoRouting) = Inr 7"
    and gs': "generateControlNumber ?c (controlNumberRequest ''GS'' demoRouting) = Inr 3"
    by (simp_all add: demoCollaborators_def controlNumberRequest_def)
  have isa2: "generateControlNumber ?c2 (controlNumberRequest ''ISA'' demoRouting) = Inr 7"
    and gs2: "generateControlNumber ?c2 (controlNumberRequest ''GS'' demoRouting) = Inr 3"
    by (simp_all add: demoCollaborators_def controlNumberRequest_def)
  have r': "resolveRouting ?c demoEvent = Inr demoRouting"
    by (simp only: resolveRouting_invokeMapping_irrelevant demo_resolveRouting)
  have r2: "resolveRouting ?c2 demoEvent = Inr demoRouting"
    by (simp only: resolveRouting_markExecutionAsSuccessful_irrelevant
        resolveRouting_invokeMapping_irrelevant demo_resolveRouting)
  have id: "generateExecutionId demoCollaborators demoEvent = ''exec-1''"
    and id': "generateExecutionId ?c demoEvent = ''exec-1''"
    and mark': "markExecutionAsSuccessful ?c ''exec-1'' = Inr ()"
    and id2: "generateExecutionId ?c2 demoEvent = ''exec-1''"
    and mark2: "markExecutionAsSuccessful ?c2 ''exec-1'' = Inl (Thrown (NonError None))"
    by (simp_all add: demoCollaborators_def)
  have g: "groupByStatus (deliveryResults demoCollaborators demoRouting 7 3)
             = \<lparr> fulfilled = [''out/7-850.edi'', ''copy/7-850.edi''],
                 rejected = [InvalidControlNumber 1 (Finite 2)] \<rparr>"
    by (simp add: demo_deliveryResults groupByStatus_def)
  have g': "groupByStatus (deliveryResults ?c demoRouting 7 3)
             = \<lparr> fulfilled = [''out/7-850.edi'', ''https://hook'', ''copy/7-850.edi''],
                 rejected = [] \<rparr>"
    by (simp add: demo_deliveryResults_unmapped groupByStatus_def)
  have g2: "groupByStatus (deliveryResults ?c2 demoRouting 7 3)
             = \<lparr> fulfilled = [''out/7-850.edi'', ''https://hook'', ''copy/7-850.edi''],
                 rejected = [] \<rparr>"
    by (simp only: deliveryResults_markExecutionAsSuccessful_irrelevant g')
  note t = destinations_settle_independently [OF demo_resolveRouting isa gs]
  note t' = destinations_settle_independently [OF r' isa' gs']
  note t2 = destinations_settle_independently [OF r2 isa2 gs2]
  have a: "fst (handler demoCollaborators demoEvent)
     = Failure ''exec-1'' (SomeDeliveriesFailed 1 2)
         (Some \<lparr> fulfilled = [''out/7-850.edi'', ''copy/7-850.edi''],
                 rejected = [InvalidControlNumber 1 (Finite 2)] \<rparr>)"
    using t unfolding g id by simp
  have b: "length (deliveryResults demoCollaborators demoRouting 7 3) = 3"
    using t by (simp add: demoRouting_def demoConfig_def)
  have c: "fst (handler ?c demoEvent)
     = Ok200 [''out/7-850.edi'', ''https://hook'', ''copy/7-850.edi'']"
    using t' unfolding g' id' mark' by simp
  have d: "fst (handler ?c2 demoEvent) = Failure ''exec-1'' (UnknownError (NonError None)) None"
    using t2 unfolding g2 id2 mark2 by simp
  from a b c d show ?thesis by blast
qed

section \<open>Resolution before issuance\<close>

lemma resolveRouting_steps:
  assumes "resolveRouting c event = Inr r"
  shows "recordNewExecution c (generateExecutionId c event) event = Inr ()
    \<and> OutboundEventSchema_parse c event = Inr (outboundEvent r)
    \<and> loadPartnerProfile c (md_sendingPartnerId (metadata (outboundEvent r)))
        = Inr (senderProfile r)
    \<and> loadPartnerProfile c (md_receivingPartnerId (metadata (outboundEvent r)))
        = Inr (receiverProfile r)
    \<and> (\<exists>partnership configs.
          loadPartnership (stash c) (md_sendingPartnerId (metadata (outboundEvent r)))
            (md_receivingPartnerId (metadata (outboundEvent r))) = Inr partnership
        \<and> getTransactionSetConfigsForPartnership c partnership
            (md_sendingPartnerId (metadata (outboundEvent r)))
            (md_receivingPartnerId (metadata (outboundEvent r))) = Inr configs
        \<and> resolveGuide c (map guideId configs) (transactionSetType r) = Inr (guideSummary r)
        \<and> resolveTransactionSetConfig c configs (gs_guideId (guideSummary r))
            = Inr (transactionSetConfig r))
    \<and> determineTransactionSetType event = Inr (transactionSetType r)
    \<and> lookupFunctionalIdentifierCode c (transactionSetType r)
        = Inr (rt_functionalIdentifierCode r)"
  using assms
  by (auto simp: resolveRouting_def bindR_def split: sum.splits)

text \<open>
  The claim C7 as stated fails where it says that exactly two control numbers are issued
  once the resolution steps have succeeded: the two requests to the issuer are awaited
  one after the other inside the \<open>try\<close>. Here the routing is resolved, the issuer answers
  the request for ISA and throws on the one for GS: one control number has been issued,
  and the handler returns the fatal failure.
\<close>

theorem one_control_number_when_gs_request_fails:
  "resolveRouting
       (demoCollaborators
          \<lparr> generateControlNumber :=
              (\<lambda>req. if segment req = ''ISA'' then Inr 7
                      else Inl (Thrown (ErrorWith ''issuer unavailable''))) \<rparr>)
       demoEvent
     = Inr demoRouting
   \<and> handler
       (demoCollaborators
          \<lparr> generateControlNumber :=
              (\<lambda>req. if segment req = ''ISA'' then Inr 7
                      else Inl (Thrown (ErrorWith ''issuer unavailable''))) \<rparr>)
       demoEvent
     = (Failure ''exec-1'' (Thrown (ErrorWith ''issuer unavailable'')) None,
        [(\<lparr> segment = ''ISA'', cn_usageIndicatorCode = ''T'', cn_sendingPartnerId = ''s'',
            cn_receivingPartnerId = ''r'' \<rparr>, 7)])"
proof -
  let ?c = "demoCollaborators
          \<lparr> generateControlNumber :=
              (\<lambda>req. if segment req = ''ISA'' then Inr 7
                      else Inl (Thrown (ErrorWith ''issuer unavailable''))) \<rparr>"
  have "resolveRouting ?c demoEvent = resolveRouting demoCollaborators demoEvent"
    by (simp add: resolveRouting_def)
  then have r: "resolveRouting ?c demoEvent = Inr demoRouting"
    by (simp only: demo_resolveRouting)
  have h: "handler ?c demoEvent
     = (Failure ''exec-1'' (Thrown (ErrorWith ''issuer unavailable'')) None,
        [(\<lparr> segment = ''ISA'', cn_usageIndicatorCode = ''T'', cn_sendingPartnerId = ''s'',
            cn_receivingPartnerId = ''r'' \<rparr>, 7)])"
    unfolding handler_def Let_def r
    by (simp add: controlNumberRequest_def failedExecution_def demoCollaborators_def
        demoRouting_def demoConfig_def demoEvent_def)
  from r h show ?thesis by (rule conjI)
qed

text \<open>
  C7, amended. If the resolution fails (the ledger entry, event-shape validation, a
  profile lookup, the partnership, the transaction-set type, the configurations, the
  guide, the selected configuration or the functional identifier code), the handler
  returns the fatal failure and no control number is issued; a resolved routing means
  every one of these steps succeeded. Once they have, the issuer is asked for the ISA
  control number and then for the GS one. If the request for ISA throws, no control
  number is issued; if the request for GS throws, exactly one is issued, the one for ISA;
  in both cases the handler returns the fatal failure. If the issuer answers both
  requests, exactly two control numbers are issued, the first for segment ISA and the
  second for GS, and every destination's attempt is run with the one envelope that
  carries these two numbers. The last two parts spell the first one out for the lookup of
  the sender's and of the receiver's profile.
\<close>

theorem control_numbers_follow_resolution:
  "(resolveRouting c event = Inl e \<longrightarrow>
      handler c event
        = (Failure (generateExecutionId c event) (normalizeCaught e) None, []))
   \<and> (resolveRouting c event = Inr r \<longrightarrow>
        recordNewExecution c (generateExecutionId c event) event = Inr ()
      \<and> OutboundEventSchema_parse c event = Inr (outboundEvent r)
      \<and> loadPartnerProfile c (md_sendingPartnerId (metadata (outboundEvent r)))
          = Inr (senderProfile r)
      \<and> loadPartnerProfile c (md_receivingPartnerId (metadata (outboundEvent r)))
          = Inr (receiverProfile r)
      \<and> (\<exists>partnership configs.
            loadPartnership (stash c) (md_sendingPartnerId (metadata (outboundEvent r)))
              (md_receivingPartnerId (metadata (outboundEvent r))) = Inr partnership
          \<and> getTransactionSetConfigsForPartnership c partnership
              (md_sendingPartnerId (metadata (outboundEvent r)))
              (md_receivingPartnerId (metadata (outboundEvent r))) = Inr configs
          \<and> resolveGuide c (map guideId configs) (transactionSetType r) = Inr (guideSummary r)
          \<and> resolveTransactionSetConfig c configs (gs_guideId (guideSummary r))
              = Inr (transactionSetConfig r))
      \<and> determineTransactionSetType event = Inr (transactionSetType r)
      \<and> lookupFunctionalIdentifierCode c (transactionSetType r)
          = Inr (rt_functionalIdentifierCode r))
   \<and> (resolveRouting c event = Inr r \<and>
       generateControlNumber c (controlNumberRequest ''ISA'' r) = Inl e \<longrightarrow>
        handler c event
          = (Failure (generateExecutionId c event) (normalizeCaught e) None, []))
   \<and> (resolveRouting c event = Inr r \<and>
       generateControlNumber c (controlNumberRequest ''ISA'' r) = Inr isa \<and>
       generateControlNumber c (controlNumberRequest ''GS'' r) = Inl e \<longrightarrow>
        handler c event
          = (Failure (generateExecutionId c event) (normalizeCaught e) None,
             [(controlNumberRequest ''ISA'' r, isa)]))
   \<and> (resolveRouting c event = Inr r \<and>
       generateControlNumber c (controlNumberRequest ''ISA'' r) = Inr isa \<and>
       generateControlNumber c (controlNumberRequest ''GS'' r) = Inr gs \<longrightarrow>
        snd (handler c event)
          = [(controlNumberRequest ''ISA'' r, isa), (controlNumberRequest ''GS'' r, gs)]
      \<and> segment (controlNumberRequest ''ISA'' r) = ''ISA''
      \<and> segment (controlNumberRequest ''GS'' r) = ''GS''
      \<and> fst (handler c event)
          = aggregate c (generateExecutionId c event)
              (allSettled (map (deliverOne c r isa (buildEnvelope c r isa gs))
                               (destinations (transactionSetConfig r))))
      \<and> ih_controlNumber (interchangeHeader (buildEnvelope c r isa gs)) = isa
      \<and> gh_controlNumber (groupHeader (buildEnvelope c r isa gs)) = gs)
   \<and> (recordNewExecution c (generateExecutionId c event) event = Inr () \<and>
       OutboundEventSchema_parse c event = Inr parsed \<and>
       loadPartnerProfile c (md_sendingPartnerId (metadata parsed)) = Inl e \<longrightarrow>
        handler c event
          = (Failure (generateExecutionId c event) (normalizeCaught e) None, []))
   \<and> (recordNewExecution c (generateExecutionId c event) event = Inr () \<and>
       OutboundEventSchema_parse c event = Inr parsed \<and>
       loadPartnerProfile c (md_sendingPartnerId (metadata parsed)) = Inr profile \<and>
       loadPartnerProfile c (md_receivingPartnerId (metadata parsed)) = Inl e \<longrightarrow>
        handler c event
          = (Failure (generateExecutionId c event) (normalizeCaught e) None, []))"
proof (intro conjI)
  show "resolveRouting c event = Inl e \<longrightarrow>
      handler c event = (Failure (generateExecutionId c event) (normalizeCaught e) None, [])"
    by (simp add: handler_def failedExecution_def)
next
  show "resolveRouting c event = Inr r \<and>
       generateControlNumber c (controlNumberRequest ''ISA'' r) = Inl e \<longrightarrow>
        handler c event
          = (Failure (generateExecutionId c event) (normalizeCaught e) None, [])"
    by (simp add: handler_def failedExecution_def)
next
  show "resolveRouting c event = Inr r \<and>
       generateControlNumber c (controlNumberRequest ''ISA'' r) = Inr isa \<and>
       generateControlNumber c (controlNumberRequest ''GS'' r) = Inl e \<longrightarrow>
        handler c event
          = (Failure (generateExecutionId c event) (normalizeCaught e) None,
             [(controlNumberRequest ''ISA'' r, isa)])"
    by (simp add: handler_def failedExecution_def)
next
  show "resolveRouting c event = Inr r \<and>
       generateControlNumber c (controlNumberRequest ''ISA'' r) = Inr isa \<and>
       generateControlNumber c (controlNumberRequest ''GS'' r) = Inr gs \<longrightarrow>
        snd (handler c event)
          = [(controlNumberRequest ''ISA'' r, isa), (controlNumberRequest ''GS'' r, gs)]
      \<and> segment (controlNumberRequest ''ISA'' r) = ''ISA''
      \<and> segment (controlNumberRequest ''GS'' r) = ''GS''
      \<and> fst (handler c event)
          = aggregate c (generateExecutionId c event)
              (allSettled (map (deliverOne c r isa (buildEnvelope c r isa gs))
                               (destinations (transactionSetConfig r))))
      \<and> ih_controlNumber (interchangeHeader (buildEnvelope c r isa gs)) = isa
      \<and> gh_controlNumber (groupHeader (buildEnvelope c r isa gs)) = gs"
    by (simp add: handler_after_issue deliveryResults_def controlNumberRequest_def
        buildEnvelope_def)
next
  show "resolveRouting c event = Inr r \<longrightarrow>
        recordNewExecution c (generateExecutionId c event) event = Inr ()
      \<and> OutboundEventSchema_parse c event = Inr (outboundEvent r)
      \<and> loadPartnerProfile c (md_sendingPartnerId (metadata (outboundEvent r)))
          = Inr (senderProfile r)
      \<and> loadPartnerProfile c (md_receivingPartnerId (metadata (outboundEvent r)))
          = Inr (receiverProfile r)
      \<and> (\<exists>partnership configs.
            loadPartnership (stash c) (md_sendingPartnerId (metadata (outboundEvent r)))
              (md_receivingPartnerId (metadata (outboundEvent r))) = Inr partnership
          \<and> getTransactionSetConfigsForPartnership c partnership
              (md_sendingPartnerId (metadata (outboundEvent r)))
              (md_receivingPartnerId (metadata (outboundEvent r))) = Inr configs
          \<and> resolveGuide c (map guideId configs) (transactionSetType r) = Inr (guideSummary r)
          \<and> resolveTransactionSetConfig c configs (gs_guideId (guideSummary r))
              = Inr (transactionSetConfig r))
      \<and> determineTransactionSetType event = Inr (transactionSetType r)
      \<and> lookupFunctionalIdentifierCode c (transactionSetType r)
          = Inr (rt_functionalIdentifierCode r)"
    using resolveRouting_steps by blast
next
  show "recordNewExecution c (generateExecutionId c event) event = Inr () \<and>
       OutboundEventSchema_parse c event = Inr parsed \<and>
       loadPartnerProfile c (md_sendingPartnerId (metadata parsed)) = Inl e \<longrightarrow>
        handler c event
          = (Failure (generateExecutionId c event) (normalizeCaught e) None, [])"
    by (simp add: handler_def failedExecution_def resolveRouting_def bindR_def)
next
  show "recordNewExecution c (generateExecutionId c event) event = Inr () \<and>
       OutboundEventSchema_parse c event = Inr parsed \<and>
       loadPartnerProfile c (md_sendingPartnerId (metadata parsed)) = Inr profile \<and>
       loadPartnerProfile c (md_receivingPartnerId (metadata parsed)) = Inl e \<longrightarrow>
        handler c event
          = (Failure (generateExecutionId c event) (normalizeCaught e) None, [])"
    by (simp add: handler_def failedExecution_def resolveRouting_def bindR_def)
qed

theorem control_numbers_follow_resolution_witness:
  "handler (demoCollaborators
              \<lparr> loadPartnerProfile := (\<lambda>p. Inl (Thrown (NonError (Some ''unavailable'')))) \<rparr>)
           demoEvent
     = (Failure ''exec-1'' (UnknownError (NonError (Some ''unavailable''))) None, [])
   \<and> handler (demoCollaborators
              \<lparr> loadPartnerProfile :=
                  (\<lambda>p. if p = ''s'' then Inr (demoProfile p)
                       else Inl (Thrown (ErrorWith ''no such profile''))) \<rparr>)
           demoEvent
     = (Failure ''exec-1'' (Thrown (ErrorWith ''no such profile'')) None, [])
   \<and> snd (handler demoCollaborators demoEvent)
     = [(\<lparr> segment = ''ISA'', cn_usageIndicatorCode = ''T'', cn_sendingPartnerId = ''s'',
            cn_receivingPartnerId = ''r'' \<rparr>, 7),
        (\<lparr> segment = ''GS'', cn_usageIndicatorCode = ''T'', cn_sendingPartnerId = ''s'',
            cn_receivingPartnerId = ''r'' \<rparr>, 3)]
   \<and> OutboundEventSchema_parse demoCollaborators demoEvent = Inr (outboundEvent demoRouting)
   \<and> ih_controlNumber (interchangeHeader (buildEnvelope demoCollaborators demoRouting 7 3)) = 7
   \<and> gh_controlNumber (groupHeader (buildEnvelope demoCollaborators demoRouting 7 3)) = 3
   \<and> handler (demoCollaborators
                \<lparr> generateControlNumber := (\<lambda>req. Inl (Thrown (ErrorWith ''no issuer''))) \<rparr>)
             demoEvent
     = (Failure ''exec-1'' (Thrown (ErrorWith ''no issuer'')) None, [])
   \<and> handler (demoCollaborators
                \<lparr> generateControlNumber :=
                    (\<lambda>req. if segment req = ''ISA'' then Inr 9 else Inl (Thrown Nullish)) \<rparr>)
             demoEvent
     = (Failure ''exec-1'' (UnknownError Nullish) None,
        [(\<lparr> segment = ''ISA'', cn_usageIndicatorCode = ''T'', cn_sendingPartnerId = ''s'',
            cn_receivingPartnerId = ''r'' \<rparr>, 9)])"
proof -
  let ?c = "demoCollaborators
              \<lparr> loadPartnerProfile := (\<lambda>p. Inl (Thrown (NonError (Some ''unavailable'')))) \<rparr>"
  have bad: "resolveRouting ?c demoEvent = Inl (Thrown (NonError (Some ''unavailable'')))"
    by (simp add: resolveRouting_def bindR_def demoCollaborators_def)
  have id: "generateExecutionId ?c demoEvent = ''exec-1''"
    by (simp add: demoCollaborators_def)
  have isa: "generateControlNumber demoCollaborators (controlNumberRequest ''ISA'' demoRouting) = Inr 7"
    and gs: "generateControlNumber demoCollaborators (controlNumberRequest ''GS'' demoRouting) = Inr 3"
    by (simp_all add: demoCollaborators_def controlNumberRequest_def)
  have reqs: "controlNumberRequest ''ISA'' demoRouting
                = \<lparr> segment = ''ISA'', cn_usageIndicatorCode = ''T'', cn_sendingPartnerId = ''s'',
                    cn_receivingPartnerId = ''r'' \<rparr>"
             "controlNumberRequest ''GS'' demoRouting
                = \<lparr> segment = ''GS'', cn_usageIndicatorCode = ''T'', cn_sendingPartnerId = ''s'',
                    cn_receivingPartnerId = ''r'' \<rparr>"
    by (simp_all add: controlNumberRequest_def demoRouting_def demoConfig_def demoEvent_def)
  note fatal = control_numbers_follow_resolution
                 [where c = ?c and event = demoEvent, THEN conjunct1, rule_format, OF bad]
  note steps = control_numbers_follow_resolution
                 [where c = demoCollaborators and event = demoEvent and r = demoRouting,
                  THEN conjunct2, THEN conjunct1, rule_format, OF demo_resolveRouting]
  note issued = control_numbers_follow_resolution
                 [where c = demoCollaborators and event = demoEvent and r = demoRouting
                    and isa = 7 and gs = 3,
                  THEN conjunct2, THEN conjunct2, THEN conjunct2, THEN conjunct2,
                  THEN conjunct1, rule_format,
                  OF conjI [OF demo_resolveRouting conjI [OF isa gs]]]
  have a: "handler ?c demoEvent
     = (Failure ''exec-1'' (UnknownError (NonError (Some ''unavailable''))) None, [])"
    using fatal unfolding id by simp
  have b: "snd (handler demoCollaborators demoEvent)
     = [(\<lparr> segment = ''ISA'', cn_usageIndicatorCode = ''T'', cn_sendingPartnerId = ''s'',
            cn_receivingPartnerId = ''r'' \<rparr>, 7),
        (\<lparr> segment = ''GS'', cn_usageIndicatorCode = ''T'', cn_sendingPartnerId = ''s'',
            cn_receivingPartnerId = ''r'' \<rparr>, 3)]"
    using issued unfolding reqs by simp
  have c: "OutboundEventSchema_parse demoCollaborators demoEvent = Inr (outboundEvent demoRouting)"
    using steps by simp
  have d: "ih_controlNumber (interchangeHeader (buildEnvelope demoCollaborators demoRouting 7 3)) = 7"
    and e: "gh_controlNumber (groupHeader (buildEnvelope demoCollaborators demoRouting 7 3)) = 3"
    using issued by simp_all
  let ?c2 = "demoCollaborators
              \<lparr> loadPartnerProfile :=
                  (\<lambda>p. if p = ''s'' then Inr (demoProfile p)
                       else Inl (Thrown (ErrorWith ''no such profile''))) \<rparr>"
  have rec2: "recordNewExecution ?c2 (generateExecutionId ?c2 demoEvent) demoEvent = Inr ()"
    and parse2: "OutboundEventSchema_parse ?c2 demoEvent = Inr demoEvent"
    and sender2: "loadPartnerProfile ?c2 (md_sendingPartnerId (metadata demoEvent))
                    = Inr (demoProfile ''s'')"
    and receiver2: "loadPartnerProfile ?c2 (md_receivingPartnerId (metadata demoEvent))
                    = Inl (Thrown (ErrorWith ''no such profile''))"
    and id2: "generateExecutionId ?c2 demoEvent = ''exec-1''"
    by (simp_all add: demoCollaborators_def demoEvent_def)
  from control_numbers_follow_resolution
         [where c = ?c2 and event = demoEvent and parsed = demoEvent
            and profile = "demoProfile ''s''" and e = "Thrown (ErrorWith ''no such profile'')",
          THEN conjunct2, THEN conjunct2, THEN conjunct2, THEN conjunct2, THEN conjunct2,
          THEN conjunct2, rule_format,
          OF conjI [OF rec2 conjI [OF parse2 conjI [OF sender2 receiver2]]]]
  have f: "handler ?c2 demoEvent
     = (Failure ''exec-1'' (Thrown (ErrorWith ''no such profile'')) None, [])"
    unfolding id2 by simp
  let ?c3 = "demoCollaborators
                \<lparr> generateControlNumber := (\<lambda>req. Inl (Thrown (ErrorWith ''no issuer''))) \<rparr>"
  have r3: "resolveRouting ?c3 demoEvent = Inr demoRouting"
    using demo_resolveRouting by (simp add: resolveRouting_def)
  have isa3: "generateControlNumber ?c3 (controlNumberRequest ''ISA'' demoRouting)
                = Inl (Thrown (ErrorWith ''no issuer''))"
    and id3: "generateExecutionId ?c3 demoEvent = ''exec-1''"
    by (simp_all add: demoCollaborators_def)
  from control_numbers_follow_resolution
         [where c = ?c3 and event = demoEvent and r = demoRouting
            and e = "Thrown (ErrorWith ''no issuer'')",
          THEN conjunct2, THEN conjunct2, THEN conjunct1, rule_format,
          OF conjI [OF r3 isa3]]
  have g: "handler ?c3 demoEvent
     = (Failure ''exec-1'' (Thrown (ErrorWith ''no issuer'')) None, [])"
    unfolding id3 by simp
  let ?c4 = "demoCollaborators
                \<lparr> generateControlNumber :=
                    (\<lambda>req. if segment req = ''ISA'' then Inr 9 else Inl (Thrown Nullish)) \<rparr>"
  have r4: "resolveRouting ?c4 demoEvent = Inr demoRouting"
    using demo_resolveRouting by (simp add: resolveRouting_def)
  have isa4: "generateControlNumber ?c4 (controlNumberRequest ''ISA'' demoRouting) = Inr 9"
    and gs4: "generateControlNumber ?c4 (controlNumberRequest ''GS'' demoRouting)
                = Inl (Thrown Nullish)"
    and id4: "generateExecutionId ?c4 demoEvent = ''exec-1''"
    by (simp_all add: demoCollaborators_def controlNumberRequest_def)
  from control_numbers_follow_resolution
         [where c = ?c4 and event = demoEvent and r = demoRouting and isa = 9
            and e = "Thrown Nullish",
          THEN conjunct2, THEN conjunct2, THEN conjunct2, THEN conjunct1, rule_format,
          OF conjI [OF r4 conjI [OF isa4 gs4]]]
  have h: "handler ?c4 demoEvent
     = (Failure ''exec-1'' (UnknownError Nullish) None,
        [(\<lparr> segment = ''ISA'', cn_usageIndicatorCode = ''T'', cn_sendingPartnerId = ''s'',
            cn_receivingPartnerId = ''r'' \<rparr>, 9)])"
    unfolding id4 reqs by simp
  from a f b c d e g h show ?thesis by blast
qed

section \<open>Empty payloads\<close>

text \<open>
  C10. On an empty array, \<open>validateTransactionSetControlNumbers\<close> succeeds: there is
  nothing to check. A destination attempt whose guide JSON is the empty array (as it is
  when the payload is the empty array and the destination has no mapping) therefore goes
  on to the translation and the delivery. The transaction-set type must come from
  \<open>metadata.transactionSet\<close>: without it, an empty array has no identifier code and
  \<open>determineTransactionSetType\<close> throws.
\<close>

theorem empty_payload_reaches_translation:
  "validateTransactionSetControlNumbers toNum (JArray []) = Inr ()
   \<and> (transactionSet (metadata event) = Some ts \<longrightarrow>
        determineTransactionSetType event = Inr (JString ts))
   \<and> (transactionSet (metadata event) = None \<and> payload event = JArray [] \<longrightarrow>
        determineTransactionSetType event = Inl UndeterminedTransactionSetType)
   \<and> (guideJsonFor c r dc = Inr (JArray []) \<longrightarrow>
        deliverOne c r isa envelope dc
          = bindR (translateJsonToEdi c (JArray []) (gs_guideId (guideSummary r)) envelope)
              (deliverToDestination c
                 (withObjectPath c isa (transactionSetType r) (destination dc))))
   \<and> (mappingId dc = None \<and> payload (outboundEvent r) = JArray [] \<longrightarrow>
        guideJsonFor c r dc = Inr (JArray []))"
  by (simp add: validateTransactionSetControlNumbers_def determineTransactionSetType_def
      extractTransactionSetTypeFromGuideJson_def deliverOne_def guideJsonFor_def bindR_def)

theorem empty_payload_reaches_translation_witness:
  "determineTransactionSetType
     \<lparr> metadata = \<lparr> md_sendingPartnerId = ''s'', md_receivingPartnerId = ''r'',
                    transactionSet = Some ''850'' \<rparr>,
       payload = JArray [] \<rparr> = Inr (JString ''850'')
   \<and> determineTransactionSetType
     \<lparr> metadata = \<lparr> md_sendingPartnerId = ''s'', md_receivingPartnerId = ''r'',
                    transactionSet = None \<rparr>,
       payload = JArray [] \<rparr> = Inl UndeterminedTransactionSetType
   \<and> deliverOne demoCollaborators
       (demoRouting\<lparr> outboundEvent := demoEvent\<lparr> payload := JArray [] \<rparr> \<rparr>) 7
       (buildEnvelope demoCollaborators demoRouting 7 3)
       \<lparr> destination = Bucket ''b'' ''out'', mappingId = None \<rparr>
     = Inr ''out/7-850.edi''"
proof -
  let ?r = "demoRouting\<lparr> outboundEvent := demoEvent\<lparr> payload := JArray [] \<rparr> \<rparr>"
  let ?dc = "\<lparr> destination = Bucket ''b'' ''out'', mappingId = None \<rparr>"
  note t = empty_payload_reaches_translation
  have a: "determineTransactionSetType
     \<lparr> metadata = \<lparr> md_sendingPartnerId = ''s'', md_receivingPartnerId = ''r'',
                    transactionSet = Some ''850'' \<rparr>,
       payload = JArray [] \<rparr> = Inr (JString ''850'')"
    by (rule t [THEN conjunct2, THEN conjunct1, rule_format]) simp
  have b: "determineTransactionSetType
     \<lparr> metadata = \<lparr> md_sendingPartnerId = ''s'', md_receivingPartnerId = ''r'',
                    transactionSet = None \<rparr>,
       payload = JArray [] \<rparr> = Inl UndeterminedTransactionSetType"
    by (rule t [THEN conjunct2, THEN conjunct2, THEN conjunct1, rule_format]) simp
  have g: "guideJsonFor demoCollaborators ?r ?dc = Inr (JArray [])"
    by (rule t [THEN conjunct2, THEN conjunct2, THEN conjunct2, THEN conjunct2, rule_format]) simp
  have "deliverOne demoCollaborators ?r 7 (buildEnvelope demoCollaborators demoRouting 7 3) ?dc
          = bindR (translateJsonToEdi demoCollaborators (JArray []) (gs_guideId (guideSummary ?r))
                     (buildEnvelope demoCollaborators demoRouting 7 3))
              (deliverToDestination demoCollaborators
                 (withObjectPath demoCollaborators 7 (transactionSetType ?r) (destination ?dc)))"
    by (rule t [THEN conjunct2, THEN conjunct2, THEN conjunct2, THEN conjunct1, rule_format, OF g])
  also have "\<dots> = Inr ''out/7-850.edi''"
    by (simp add: bindR_def demoCollaborators_def demoRouting_def)
  finally show ?thesis using a b by blast
qed

section \<open>Partnership lookup in both orders\<close>

lemma loadPartnership_cases:
  "loadPartnership st s r =
     (case tryKey st (partnershipKey s r) of
        Some p \<Rightarrow> Inr p
      | None \<Rightarrow>
          (case tryKey st (partnershipKey r s) of
             Some p \<Rightarrow> Inr p
           | None \<Rightarrow> Inl (NoPartnershipFound s r)))"
  by (simp add: loadPartnership_def split: option.splits)

text \<open>
  The claim C9 as stated fails where both keys hold a record: each order of the arguments
  then returns the record under its own first key.
\<close>

theorem partnership_lookup_not_symmetric:
  "loadPartnership twoKeyStash ''a'' ''b'' = Inr demoPartnership
   \<and> loadPartnership twoKeyStash ''b'' ''a'' = Inr \<lparr> transactionSets = [] \<rparr>
   \<and> loadPartnership twoKeyStash ''a'' ''b'' \<noteq> loadPartnership twoKeyStash ''b'' ''a''"
  by (simp add: loadPartnership_cases tryKey_def twoKeyStash_def partnershipKey_def
      demoPartnership_def)

text \<open>
  C9, amended. The lookup tries the key \<open>partnership|sender|receiver\<close> first and then
  \<open>partnership|receiver|sender\<close>. When at most one of the two keys holds a record that
  parses, or both hold the same record, both orders of the arguments return the same
  record, the one under whichever key holds it; when neither does, both throw (each
  naming the partners in its own order).
\<close>

theorem partnership_lookup_symmetric_one_key:
  assumes "tryKey st (partnershipKey s r) = None
         \<or> tryKey st (partnershipKey r s) = None
         \<or> tryKey st (partnershipKey s r) = tryKey st (partnershipKey r s)"
  shows "(loadPartnership st s r = Inr p \<longleftrightarrow> loadPartnership st r s = Inr p)
    \<and> (loadPartnership st s r = Inr p \<longleftrightarrow>
          tryKey st (partnershipKey s r) = Some p \<or> tryKey st (partnershipKey r s) = Some p)
    \<and> (tryKey st (partnershipKey s r) = None \<and> tryKey st (partnershipKey r s) = None \<longrightarrow>
          loadPartnership st s r = Inl (NoPartnershipFound s r) \<and>
          loadPartnership st r s = Inl (NoPartnershipFound r s))"
  using assms by (auto simp: loadPartnership_cases split: option.splits)

theorem partnership_lookup_symmetric_one_key_witness:
  "loadPartnership demoStash ''s'' ''r'' = Inr demoPartnership
   \<and> loadPartnership demoStash ''r'' ''s'' = Inr demoPartnership
   \<and> loadPartnership demoStash ''x'' ''y'' = Inl (NoPartnershipFound ''x'' ''y'')
   \<and> loadPartnership demoStash ''y'' ''x'' = Inl (NoPartnershipFound ''y'' ''x'')"
proof -
  have k1: "tryKey demoStash (partnershipKey ''s'' ''r'') = Some demoPartnership"
    and k2: "tryKey demoStash (partnershipKey ''r'' ''s'') = None"
    and k3: "tryKey demoStash (partnershipKey ''x'' ''y'') = None"
    and k4: "tryKey demoStash (partnershipKey ''y'' ''x'') = None"
    by (simp_all add: tryKey_def demoStash_def partnershipKey_def)
  note t = partnership_lookup_symmetric_one_key
             [where st = demoStash and s = "''s''" and r = "''r''" and p = demoPartnership,
              OF disjI2 [OF disjI1 [OF k2]]]
  note u = partnership_lookup_symmetric_one_key
             [where st = demoStash and s = "''x''" and r = "''y''", OF disjI1 [OF k3],
              THEN conjunct2, THEN conjunct2, rule_format, OF conjI [OF k3 k4]]
  from t k1 have a: "loadPartnership demoStash ''s'' ''r'' = Inr demoPartnership"
    by blast
  with t have b: "loadPartnership demoStash ''r'' ''s'' = Inr demoPartnership"
    by blast
  from a b u show ?thesis by blast
qed

section \<open>The loop over the candidates\<close>






lemma specifiedLoop_no_single_match:
  assumes "sftp_list env (remoteFilePath env dir a) = Inr listResult" and "length listResult \<noteq> 1"
  shows "specifiedLoop env dir (a # post) fs es
     = (Inr \<lparr> filesToProcess = fs, rd_skippedItems = None,
              rd_processingErrors = Some (es @ [expectedOneMatchError env dir a]) \<rparr>,
        [ListCall (remoteFilePath env dir a)])"
proof (cases listResult)
  case Nil
  with assms show ?thesis by simp
next
  case (Cons x xs)
  with assms obtain y ys where "xs = y # ys"
    by (cases xs) auto
  with Cons assms show ?thesis by simp
qed

lemma specifiedLoop_only_lists:
  "EndCall \<notin> set (snd (specifiedLoop env dir files fs es))"
proof (induction files arbitrary: fs es)
  case Nil
  then show ?case by simp
next
  case (Cons n files)
  show ?case
  proof (cases "sftp_list env (remoteFilePath env dir n)")
    case (Inl e)
    then show ?thesis by simp
  next
    case (Inr listResult)
    show ?thesis
    proof (cases "\<exists>x. listResult = [x]")
      case True
      then obtain x where "listResult = [x]" by blast
      with Inr Cons.IH [of "fs @ [x]" es] Cons.IH [of fs "es @ [notAFileError env dir n]"]
      show ?thesis by (simp add: split_beta)
    next
      case False
      with Inr specifiedLoop_no_single_match [of env dir n listResult files fs es]
      show ?thesis by (cases listResult) (auto split: list.splits)
    qed
  qed
qed

lemma selection_only_lists: "EndCall \<notin> set (snd (selectFileDetails env cfg))"
  by (simp add: selectFileDetails_def getSpecifiedFileDetails_def getAllFileDetailsForPath_def
      specifiedLoop_only_lists split: option.splits sum.splits)

lemma pollSftp_run:
  assumes "sftp_connect env (config (connectionDetails cfg)) = Inr ()"
    and "selectFileDetails env cfg = (Inr fd, calls)"
  shows "pollSftp env cfg
     = (case processFiles env cfg (filesToProcess fd) (initialResults fd) of
          (Inl e, calls') \<Rightarrow> (Inl e, Connect # calls @ calls')
        | (Inr res, calls') \<Rightarrow>
            (case sftp_end env of
               Inl e \<Rightarrow> (Inl e, Connect # calls @ calls' @ [EndCall])
             | Inr u \<Rightarrow> (Inr res, Connect # calls @ calls' @ [EndCall])))"
  using assms by (simp add: pollSftp_def)





section \<open>Buckets of a poll\<close>

lemma recordOutcome_paths:
  assumes "recordOutcome env cfg x outcome r = Inr r1"
  shows "mset (processedFiles r1) + mset (map si_path (skippedItems r1))
     + mset (map pe_path (processingErrors r1))
   = mset (processedFiles r) + mset (map si_path (skippedItems r))
     + mset (map pe_path (processingErrors r))
     + {# remoteFilePath env (remotePath cfg) (fi_name x) #}"
  using assms by (auto simp: recordOutcome_def split: sum.splits)

lemma processFiles_paths:
  assumes "fst (processFiles env cfg files res) = Inr res'"
  shows "mset (processedFiles res') + mset (map si_path (skippedItems res'))
     + mset (map pe_path (processingErrors res'))
   = mset (processedFiles res) + mset (map si_path (skippedItems res))
     + mset (map pe_path (processingErrors res))
     + mset (map (\<lambda>x. remoteFilePath env (remotePath cfg) (fi_name x))
          (takeWhile (\<lambda>x. \<not> isStale env cfg x) files
             @ take 1 (dropWhile (\<lambda>x. \<not> isStale env cfg x) files)))"
  using assms
proof (induction files arbitrary: res)
  case Nil
  then show ?case by simp
next
  case (Cons x files)
  let ?B = "\<lambda>r. mset (processedFiles r) + mset (map si_path (skippedItems r))
                  + mset (map pe_path (processingErrors r))"
  let ?reached = "\<lambda>fs. takeWhile (\<lambda>x. \<not> isStale env cfg x) fs
                          @ take 1 (dropWhile (\<lambda>x. \<not> isStale env cfg x) fs)"
  let ?path = "\<lambda>x. remoteFilePath env (remotePath cfg) (fi_name x)"
  show ?case
  proof (cases "isStale env cfg x")
    case True
    with Cons.prems show ?thesis by (auto simp: staleItem_def)
  next
    case False
    show ?thesis
    proof (cases "recordOutcome env cfg x (fst (transferFile env cfg x)) res")
      case (Inl t)
      with False Cons.prems show ?thesis by (simp add: split_beta)
    next
      case (Inr r1)
      with False Cons.prems have step: "fst (processFiles env cfg files r1) = Inr res'"
        by (simp add: split_beta Let_def)
      have reached: "?reached (x # files) = x # ?reached files"
        using False by simp
      have "?B res' = ?B r1 + mset (map ?path (?reached files))"
        by (rule Cons.IH [OF step])
      also have "\<dots> = ?B res + {# ?path x #} + mset (map ?path (?reached files))"
        by (simp only: recordOutcome_paths [OF Inr])
      also have "\<dots> = ?B res + mset (map ?path (?reached (x # files)))"
        by (simp only: reached) simp
      finally show ?thesis .
    qed
  qed
qed

lemma foldl_classifyEntry:
  "foldl (classifyEntry env dir) d entries =
     d\<lparr> filesToProcess := filesToProcess d @ filter (\<lambda>x. fi_type x = ''-'') entries,
        rd_skippedItems :=
          map_option (\<lambda>items. items @ map (notAFileItem env dir)
                                          (filter (\<lambda>x. fi_type x \<noteq> ''-'') entries))
            (rd_skippedItems d) \<rparr>"
proof (induction entries arbitrary: d)
  case Nil
  then show ?case by (simp add: option.map_ident)
next
  case (Cons x entries)
  then show ?case
    by (simp add: classifyEntry_def option.map_comp comp_def)
qed

lemma getAllFileDetailsForPath_listing:
  "sftp_list env dir = Inr entries \<Longrightarrow>
   getAllFileDetailsForPath env dir =
     (Inr \<lparr> filesToProcess = filter (\<lambda>x. fi_type x = ''-'') entries,
            rd_skippedItems = Some (map (notAFileItem env dir)
                                      (filter (\<lambda>x. fi_type x \<noteq> ''-'') entries)),
            rd_processingErrors = None \<rparr>,
      [ListCall dir])"
  by (simp add: getAllFileDetailsForPath_def foldl_classifyEntry)

lemma specifiedLoop_returns:
  assumes "fst (specifiedLoop env dir names fs es) = Inr fd"
  shows "fd = \<lparr> filesToProcess = fs
                @ concat (map (\<lambda>n. case sftp_list env (remoteFilePath env dir n) of
                                      Inr [x] \<Rightarrow> if fi_type x = ''-'' then [x] else []
                                    | _ \<Rightarrow> [])
                    (takeWhile (\<lambda>n. \<exists>x. sftp_list env (remoteFilePath env dir n) = Inr [x]) names
                     @ take 1 (dropWhile
                         (\<lambda>n. \<exists>x. sftp_list env (remoteFilePath env dir n) = Inr [x]) names))),
              rd_skippedItems = None,
              rd_processingErrors = Some (es
                @ concat (map (\<lambda>n. case sftp_list env (remoteFilePath env dir n) of
                                      Inr [x] \<Rightarrow> if fi_type x = ''-'' then []
                                                  else [notAFileError env dir n]
                                    | _ \<Rightarrow> [expectedOneMatchError env dir n])
                    (takeWhile (\<lambda>n. \<exists>x. sftp_list env (remoteFilePath env dir n) = Inr [x]) names
                     @ take 1 (dropWhile
                         (\<lambda>n. \<exists>x. sftp_list env (remoteFilePath env dir n) = Inr [x])
                         names)))) \<rparr>"
  using assms
proof (induction names arbitrary: fs es)
  case Nil
  then show ?case by simp
next
  case (Cons n names)
  show ?case
  proof (cases "sftp_list env (remoteFilePath env dir n)")
    case (Inl e)
    with Cons.prems show ?thesis by simp
  next
    case (Inr found)
    show ?thesis
    proof (cases "\<exists>x. found = [x]")
      case True
      then obtain x where found: "found = [x]" by blast
      show ?thesis
      proof (cases "fi_type x = ''-''")
        case True
        with Inr found Cons.prems
        have "fst (specifiedLoop env dir names (fs @ [x]) es) = Inr fd"
          by (simp add: split_beta)
        from Cons.IH [OF this] Inr found True show ?thesis by simp
      next
        case False
        with Inr found Cons.prems
        have "fst (specifiedLoop env dir names fs (es @ [notAFileError env dir n])) = Inr fd"
          by (simp add: split_beta)
        from Cons.IH [OF this] Inr found False show ?thesis by simp
      qed
    next
      case False
      then have len: "length found \<noteq> 1"
        by (cases found) auto
      from False have none: "\<not> (\<exists>x. sftp_list env (remoteFilePath env dir n) = Inr [x])"
        using Inr by simp
      from False have shape: "found = [] \<or> (\<exists>x y ys. found = x # y # ys)"
        by (cases found; cases "tl found") auto
      from specifiedLoop_no_single_match [OF Inr len] Cons.prems
      have "fd = \<lparr> filesToProcess = fs, rd_skippedItems = None,
                   rd_processingErrors = Some (es @ [expectedOneMatchError env dir n]) \<rparr>"
        by simp
      with none Inr shape show ?thesis by auto
    qed
  qed
qed

lemma pollSftp_Inr:
  assumes "pollSftp env cfg = (Inr res, calls)"
  shows "\<exists>fd calls1. selectFileDetails env cfg = (Inr fd, calls1)
           \<and> fst (processFiles env cfg (filesToProcess fd) (initialResults fd)) = Inr res"
proof (cases "selectFileDetails env cfg")
  case (Pair sel calls1)
  show ?thesis
  proof (cases sel)
    case (Inl e)
    with Pair assms show ?thesis
      by (simp add: pollSftp_def split: sum.splits)
  next
    case (Inr fd)
    with Pair assms
    have "fst (processFiles env cfg (filesToProcess fd) (initialResults fd)) = Inr res"
      by (auto simp: pollSftp_def split: sum.splits prod.splits)
    with Pair Inr show ?thesis by blast
  qed
qed

lemma demo_select:
  "selectFileDetails demoSftp demoPoll
     = (Inr \<lparr> filesToProcess = [oldFile, newFile],
              rd_skippedItems = Some [\<lparr> si_path = ''/in/sub'', si_reason = NotAFile \<rparr>],
              rd_processingErrors = None \<rparr>,
        [ListCall ''/in''])"
  by (simp add: selectFileDetails_def demoPoll_def getAllFileDetailsForPath_def demoSftp_def
      classifyEntry_def oldFile_def newFile_def subDir_def notAFileItem_def remoteFilePath_def)

lemma demo_poll:
  "pollSftp demoSftp demoPoll
     = (Inr \<lparr> processedFiles = [],
              skippedItems = [\<lparr> si_path = ''/in/sub'', si_reason = NotAFile \<rparr>,
                              \<lparr> si_path = ''/in/old.edi'', si_reason = NotNewer 5 10 \<rparr>],
              processingErrors = [] \<rparr>,
        [Connect, ListCall ''/in'', EndCall])"
proof -
  have c: "sftp_connect demoSftp (config (connectionDetails demoPoll)) = Inr ()"
    by (simp add: demoSftp_def)
  show ?thesis
    unfolding pollSftp_run [OF c demo_select]
    by (simp add: initialResults_def isStale_def lastPollTimestamp_def remoteFileTimestamp_def
        staleItem_def remoteFilePath_def demoPoll_def oldFile_def demoSftp_def)
qed

lemma demo_named_poll:
  "pollSftp demoSftp
       (demoPoll\<lparr> remoteFiles := Some [''new.edi'', ''sub'', ''missing'', ''old.edi''] \<rparr>)
     = (Inr \<lparr> processedFiles = [''/in/new.edi''],
              skippedItems = [],
              processingErrors =
                [\<lparr> pe_path = ''/in/sub'',
                    errorMessage = ''requested remote file sub, but it is not a file'' \<rparr>,
                 \<lparr> pe_path = ''/in/missing'',
                    errorMessage =
                      ''expected exactly one match for list of single file /in/missing'' \<rparr>] \<rparr>,
        [Connect, ListCall ''/in/new.edi'', ListCall ''/in/sub'', ListCall ''/in/missing'',
         GetCall ''/in/new.edi'', PutCall ''inbox'' ''inbound/new.edi'', EndCall])"
proof -
  let ?cfg = "demoPoll\<lparr> remoteFiles := Some [''new.edi'', ''sub'', ''missing'', ''old.edi''] \<rparr>"
  have c: "sftp_connect demoSftp (config (connectionDetails ?cfg)) = Inr ()"
    by (simp add: demoSftp_def)
  have sel: "selectFileDetails demoSftp ?cfg
     = (Inr \<lparr> filesToProcess = [newFile],
              rd_skippedItems = None,
              rd_processingErrors =
                Some [\<lparr> pe_path = ''/in/sub'',
                        errorMessage = ''requested remote file sub, but it is not a file'' \<rparr>,
                      \<lparr> pe_path = ''/in/missing'',
                        errorMessage =
                          ''expected exactly one match for list of single file /in/missing'' \<rparr>] \<rparr>,
        [ListCall ''/in/new.edi'', ListCall ''/in/sub'', ListCall ''/in/missing''])"
    by (simp add: selectFileDetails_def getSpecifiedFileDetails_def demoPoll_def
        remoteFilePath_def demoSftp_def subDir_def newFile_def notAFileError_def
        expectedOneMatchError_def)
  show ?thesis
    unfolding pollSftp_run [OF c sel]
    by (simp add: initialResults_def isStale_def lastPollTimestamp_def remoteFileTimestamp_def
        transferFile_def recordOutcome_def remoteFilePath_def demoPoll_def newFile_def
        demoSftp_def)
qed

text \<open>
  The claim C6 as stated fails for a candidate that stands after a stale one: in this
  poll \<open>new.edi\<close> is a plain file of the listing and a candidate, and it is in none of
  the three buckets.
\<close>

theorem candidate_after_stale_in_no_bucket:
  "fst (selectFileDetails demoSftp demoPoll)
     = Inr \<lparr> filesToProcess = [oldFile, newFile],
             rd_skippedItems = Some [\<lparr> si_path = ''/in/sub'', si_reason = NotAFile \<rparr>],
             rd_processingErrors = None \<rparr>
   \<and> fst (pollSftp demoSftp demoPoll)
     = Inr \<lparr> processedFiles = [],
             skippedItems = [\<lparr> si_path = ''/in/sub'', si_reason = NotAFile \<rparr>,
                             \<lparr> si_path = ''/in/old.edi'', si_reason = NotNewer 5 10 \<rparr>],
             processingErrors = [] \<rparr>
   \<and> remoteFilePath demoSftp (remotePath demoPoll) (fi_name newFile) = ''/in/new.edi''
   \<and> newFile \<in> set (filesToProcess (projr (fst (selectFileDetails demoSftp demoPoll))))
   \<and> ''/in/new.edi'' \<notin> set (processedFiles (projr (fst (pollSftp demoSftp demoPoll))))
   \<and> ''/in/new.edi'' \<notin> si_path ` set (skippedItems (projr (fst (pollSftp demoSftp demoPoll))))
   \<and> ''/in/new.edi''
       \<notin> pe_path ` set (processingErrors (projr (fst (pollSftp demoSftp demoPoll))))"
proof -
  have "remoteFilePath demoSftp (remotePath demoPoll) (fi_name newFile) = ''/in/new.edi''"
    by (simp add: remoteFilePath_def demoSftp_def demoPoll_def newFile_def)
  then show ?thesis
    unfolding demo_select demo_poll by simp
qed

text \<open>
  C6, amended. When a poll returns its results, every entry classified during selection
  and every candidate up to and including the first stale one is recorded exactly once
  over the three buckets: the paths in \<open>processedFiles\<close>, \<open>skippedItems\<close> and
  \<open>processingErrors\<close>, counted with multiplicity, are the paths of the skipped items and of
  the processing errors of the selection and of exactly these candidates; a candidate
  after the first stale one adds nothing to any bucket. The selection of a directory
  listing has the plain files as candidates and one skipped item for every other entry.
  The selection of a list of names goes through the names up to and including the first
  one whose listing has not exactly one entry: a name whose one entry is a plain file
  gives that entry as a candidate, and every other name of these gives one processing
  error.
\<close>

theorem reached_entries_in_one_bucket:
  assumes "pollSftp env cfg = (Inr res, calls)"
  shows "\<exists>fd calls1.
      selectFileDetails env cfg = (Inr fd, calls1)
    \<and> mset (processedFiles res) + mset (map si_path (skippedItems res))
        + mset (map pe_path (processingErrors res))
      = mset (map si_path (case rd_skippedItems fd of None \<Rightarrow> [] | Some items \<Rightarrow> items))
        + mset (map pe_path (case rd_processingErrors fd of None \<Rightarrow> [] | Some errs \<Rightarrow> errs))
        + mset (map (\<lambda>x. remoteFilePath env (remotePath cfg) (fi_name x))
             (takeWhile (\<lambda>x. \<not> isStale env cfg x) (filesToProcess fd)
                @ take 1 (dropWhile (\<lambda>x. \<not> isStale env cfg x) (filesToProcess fd))))
    \<and> (remoteFiles cfg = None \<or> remoteFiles cfg = Some [] \<longrightarrow>
         (\<exists>entries. sftp_list env (remotePath cfg) = Inr entries
            \<and> fd = \<lparr> filesToProcess = filter (\<lambda>x. fi_type x = ''-'') entries,
                     rd_skippedItems =
                       Some (map (\<lambda>x. \<lparr> si_path = remoteFilePath env (remotePath cfg) (fi_name x),
                                         si_reason = NotAFile \<rparr>)
                               (filter (\<lambda>x. fi_type x \<noteq> ''-'') entries)),
                     rd_processingErrors = None \<rparr>))
    \<and> (\<forall>names. remoteFiles cfg = Some names \<and> names \<noteq> [] \<longrightarrow>
         fd = \<lparr> filesToProcess =
                  concat (map (\<lambda>n. case sftp_list env (remoteFilePath env (remotePath cfg) n) of
                                      Inr [x] \<Rightarrow> if fi_type x = ''-'' then [x] else []
                                    | _ \<Rightarrow> [])
                    (takeWhile (\<lambda>n. \<exists>x. sftp_list env (remoteFilePath env (remotePath cfg) n)
                                          = Inr [x]) names
                     @ take 1 (dropWhile
                         (\<lambda>n. \<exists>x. sftp_list env (remoteFilePath env (remotePath cfg) n)
                                  = Inr [x]) names))),
                rd_skippedItems = None,
                rd_processingErrors = Some
                  (concat (map (\<lambda>n. case sftp_list env (remoteFilePath env (remotePath cfg) n) of
                                      Inr [x] \<Rightarrow>
                                        if fi_type x = ''-'' then []
                                        else [\<lparr> pe_path = remoteFilePath env (remotePath cfg) n,
                                                errorMessage = ''requested remote file '' @ n
                                                  @ '', but it is not a file'' \<rparr>]
                                    | _ \<Rightarrow>
                                        [\<lparr> pe_path = remoteFilePath env (remotePath cfg) n,
                                           errorMessage =
                                             ''expected exactly one match for list of single file ''
                                               @ remoteFilePath env (remotePath cfg) n \<rparr>])
                    (takeWhile (\<lambda>n. \<exists>x. sftp_list env (remoteFilePath env (remotePath cfg) n)
                                          = Inr [x]) names
                     @ take 1 (dropWhile
                         (\<lambda>n. \<exists>x. sftp_list env (remoteFilePath env (remotePath cfg) n)
                                  = Inr [x]) names)))) \<rparr>)"
proof -
  from pollSftp_Inr [OF assms] obtain fd calls1 where
    sel: "selectFileDetails env cfg = (Inr fd, calls1)"
    and res: "fst (processFiles env cfg (filesToProcess fd) (initialResults fd)) = Inr res"
    by blast
  have paths: "mset (processedFiles res) + mset (map si_path (skippedItems res))
        + mset (map pe_path (processingErrors res))
      = mset (map si_path (case rd_skippedItems fd of None \<Rightarrow> [] | Some items \<Rightarrow> items))
        + mset (map pe_path (case rd_processingErrors fd of None \<Rightarrow> [] | Some errs \<Rightarrow> errs))
        + mset (map (\<lambda>x. remoteFilePath env (remotePath cfg) (fi_name x))
             (takeWhile (\<lambda>x. \<not> isStale env cfg x) (filesToProcess fd)
                @ take 1 (dropWhile (\<lambda>x. \<not> isStale env cfg x) (filesToProcess fd))))"
    unfolding processFiles_paths [OF res] by (simp add: initialResults_def)
  have dir: "remoteFiles cfg = None \<or> remoteFiles cfg = Some [] \<longrightarrow>
         (\<exists>entries. sftp_list env (remotePath cfg) = Inr entries
            \<and> fd = \<lparr> filesToProcess = filter (\<lambda>x. fi_type x = ''-'') entries,
                     rd_skippedItems =
                       Some (map (\<lambda>x. \<lparr> si_path = remoteFilePath env (remotePath cfg) (fi_name x),
                                         si_reason = NotAFile \<rparr>)
                               (filter (\<lambda>x. fi_type x \<noteq> ''-'') entries)),
                     rd_processingErrors = None \<rparr>)"
  proof
    assume "remoteFiles cfg = None \<or> remoteFiles cfg = Some []"
    then have all: "selectFileDetails env cfg = getAllFileDetailsForPath env (remotePath cfg)"
      by (auto simp: selectFileDetails_def)
    show "\<exists>entries. sftp_list env (remotePath cfg) = Inr entries
            \<and> fd = \<lparr> filesToProcess = filter (\<lambda>x. fi_type x = ''-'') entries,
                     rd_skippedItems =
                       Some (map (\<lambda>x. \<lparr> si_path = remoteFilePath env (remotePath cfg) (fi_name x),
                                         si_reason = NotAFile \<rparr>)
                               (filter (\<lambda>x. fi_type x \<noteq> ''-'') entries)),
                     rd_processingErrors = None \<rparr>"
    proof (cases "sftp_list env (remotePath cfg)")
      case (Inl e)
      with sel all show ?thesis
        by (simp add: getAllFileDetailsForPath_def)
    next
      case (Inr entries)
      from getAllFileDetailsForPath_listing [OF Inr] sel all
      have "fd = \<lparr> filesToProcess = filter (\<lambda>x. fi_type x = ''-'') entries,
                   rd_skippedItems = Some (map (notAFileItem env (remotePath cfg))
                                      (filter (\<lambda>x. fi_type x \<noteq> ''-'') entries)),
                   rd_processingErrors = None \<rparr>"
        by simp
      with Inr show ?thesis by (simp add: notAFileItem_def)
    qed
  qed
  have named: "\<forall>names. remoteFiles cfg = Some names \<and> names \<noteq> [] \<longrightarrow>
         fd = \<lparr> filesToProcess =
                  concat (map (\<lambda>n. case sftp_list env (remoteFilePath env (remotePath cfg) n) of
                                      Inr [x] \<Rightarrow> if fi_type x = ''-'' then [x] else []
                                    | _ \<Rightarrow> [])
                    (takeWhile (\<lambda>n. \<exists>x. sftp_list env (remoteFilePath env (remotePath cfg) n)
                                          = Inr [x]) names
                     @ take 1 (dropWhile
                         (\<lambda>n. \<exists>x. sftp_list env (remoteFilePath env (remotePath cfg) n)
                                  = Inr [x]) names))),
                rd_skippedItems = None,
                rd_processingErrors = Some
                  (concat (map (\<lambda>n. case sftp_list env (remoteFilePath env (remotePath cfg) n) of
                                      Inr [x] \<Rightarrow>
                                        if fi_type x = ''-'' then []
                                        else [\<lparr> pe_path = remoteFilePath env (remotePath cfg) n,
                                                errorMessage = ''requested remote file '' @ n
                                                  @ '', but it is not a file'' \<rparr>]
                                    | _ \<Rightarrow>
                                        [\<lparr> pe_path = remoteFilePath env (remotePath cfg) n,
                                           errorMessage =
                                             ''expected exactly one match for list of single file ''
                                               @ remoteFilePath env (remotePath cfg) n \<rparr>])
                    (takeWhile (\<lambda>n. \<exists>x. sftp_list env (remoteFilePath env (remotePath cfg) n)
                                          = Inr [x]) names
                     @ take 1 (dropWhile
                         (\<lambda>n. \<exists>x. sftp_list env (remoteFilePath env (remotePath cfg) n)
                                  = Inr [x]) names)))) \<rparr>"
  proof (intro allI impI)
    fix names
    assume "remoteFiles cfg = Some names \<and> names \<noteq> []"
    with sel have "fst (specifiedLoop env (remotePath cfg) names [] []) = Inr fd"
      by (simp add: selectFileDetails_def getSpecifiedFileDetails_def)
    from specifiedLoop_returns [OF this, unfolded notAFileError_def expectedOneMatchError_def]
    show "fd = \<lparr> filesToProcess =
                  concat (map (\<lambda>n. case sftp_list env (remoteFilePath env (remotePath cfg) n) of
                                      Inr [x] \<Rightarrow> if fi_type x = ''-'' then [x] else []
                                    | _ \<Rightarrow> [])
                    (takeWhile (\<lambda>n. \<exists>x. sftp_list env (remoteFilePath env (remotePath cfg) n)
                                          = Inr [x]) names
                     @ take 1 (dropWhile
                         (\<lambda>n. \<exists>x. sftp_list env (remoteFilePath env (remotePath cfg) n)
                                  = Inr [x]) names))),
                rd_skippedItems = None,
                rd_processingErrors = Some
                  (concat (map (\<lambda>n. case sftp_list env (remoteFilePath env (remotePath cfg) n) of
                                      Inr [x] \<Rightarrow>
                                        if fi_type x = ''-'' then []
                                        else [\<lparr> pe_path = remoteFilePath env (remotePath cfg) n,
                                                errorMessage = ''requested remote file '' @ n
                                                  @ '', but it is not a file'' \<rparr>]
                                    | _ \<Rightarrow>
                                        [\<lparr> pe_path = remoteFilePath env (remotePath cfg) n,
                                           errorMessage =
                                             ''expected exactly one match for list of single file ''
                                               @ remoteFilePath env (remotePath cfg) n \<rparr>])
                    (takeWhile (\<lambda>n. \<exists>x. sftp_list env (remoteFilePath env (remotePath cfg) n)
                                          = Inr [x]) names
                     @ take 1 (dropWhile
                         (\<lambda>n. \<exists>x. sftp_list env (remoteFilePath env (remotePath cfg) n)
                                  = Inr [x]) names)))) \<rparr>"
      by simp
  qed
  from sel paths dir named show ?thesis by blast
qed

theorem reached_entries_in_one_bucket_witness:
  "(\<exists>fd calls1.
      selectFileDetails demoSftp demoPoll = (Inr fd, calls1)
    \<and> mset (processedFiles \<lparr> processedFiles = [],
              skippedItems = [\<lparr> si_path = ''/in/sub'', si_reason = NotAFile \<rparr>,
                              \<lparr> si_path = ''/in/old.edi'', si_reason = NotNewer 5 10 \<rparr>],
              processingErrors = [] \<rparr>) + mset (map si_path (skippedItems \<lparr> processedFiles = [],
              skippedItems = [\<lparr> si_path = ''/in/sub'', si_reason = NotAFile \<rparr>,
                              \<lparr> si_path = ''/in/old.edi'', si_reason = NotNewer 5 10 \<rparr>],
              processingErrors = [] \<rparr>))
        + mset (map pe_path (processingErrors \<lparr> processedFiles = [],
              skippedItems = [\<lparr> si_path = ''/in/sub'', si_reason = NotAFile \<rparr>,
                              \<lparr> si_path = ''/in/old.edi'', si_reason = NotNewer 5 10 \<rparr>],
              processingErrors = [] \<rparr>))
      = mset (map si_path (case rd_skippedItems fd of None \<Rightarrow> [] | Some items \<Rightarrow> items))
        + mset (map pe_path (case rd_processingErrors fd of None \<Rightarrow> [] | Some errs \<Rightarrow> errs))
        + mset (map (\<lambda>x. remoteFilePath demoSftp (remotePath demoPoll) (fi_name x))
             (takeWhile (\<lambda>x. \<not> isStale demoSftp demoPoll x) (filesToProcess fd)
                @ take 1 (dropWhile (\<lambda>x. \<not> isStale demoSftp demoPoll x) (filesToProcess fd))))
    \<and> (remoteFiles demoPoll = None \<or> remoteFiles demoPoll = Some [] \<longrightarrow>
         (\<exists>entries. sftp_list demoSftp (remotePath demoPoll) = Inr entries
            \<and> fd = \<lparr> filesToProcess = filter (\<lambda>x. fi_type x = ''-'') entries,
                     rd_skippedItems =
                       Some (map (\<lambda>x. \<lparr> si_path = remoteFilePath demoSftp (remotePath demoPoll) (fi_name x),
                                         si_reason = NotAFile \<rparr>)
                               (filter (\<lambda>x. fi_type x \<noteq> ''-'') entries)),
                     rd_processingErrors = None \<rparr>))
    \<and> (\<forall>names. remoteFiles demoPoll = Some names \<and> names \<noteq> [] \<longrightarrow>
         fd = \<lparr> filesToProcess =
                  concat (map (\<lambda>n. case sftp_list demoSftp (remoteFilePath demoSftp (remotePath demoPoll) n) of
                                      Inr [x] \<Rightarrow> if fi_type x = ''-'' then [x] else []
                                    | _ \<Rightarrow> [])
                    (takeWhile (\<lambda>n. \<exists>x. sftp_list demoSftp (remoteFilePath demoSftp (remotePath demoPoll) n)
                                          = Inr [x]) names
                     @ take 1 (dropWhile
                         (\<lambda>n. \<exists>x. sftp_list demoSftp (remoteFilePath demoSftp (remotePath demoPoll) n)
                                  = Inr [x]) names))),
                rd_skippedItems = None,
                rd_processingErrors = Some
                  (concat (map (\<lambda>n. case sftp_list demoSftp (remoteFilePath demoSftp (remotePath demoPoll) n) of
                                      Inr [x] \<Rightarrow>
                                        if fi_type x = ''-'' then []
                                        else [\<lparr> pe_path = remoteFilePath demoSftp (remotePath demoPoll) n,
                                                errorMessage = ''requested remote file '' @ n
                                                  @ '', but it is not a file'' \<rparr>]
                                    | _ \<Rightarrow>
                                        [\<lparr> pe_path = remoteFilePath demoSftp (remotePath demoPoll) n,
                                           errorMessage =
                                             ''expected exactly one match for list of single file ''
                                               @ remoteFilePath demoSftp (remotePath demoPoll) n \<rparr>])
                    (takeWhile (\<lambda>n. \<exists>x. sftp_list demoSftp (remoteFilePath demoSftp (remotePath demoPoll) n)
                                          = Inr [x]) names
                     @ take 1 (dropWhile
                         (\<lambda>n. \<exists>x. sftp_list demoSftp (remoteFilePath demoSftp (remotePath demoPoll) n)
                                  = Inr [x]) names)))) \<rparr>))
   \<and> (\<exists>fd calls1.
      selectFileDetails demoSftp (demoPoll\<lparr> remoteFiles := Some [''new.edi'', ''sub'', ''missing'', ''old.edi''] \<rparr>) = (Inr fd, calls1)
    \<and> mset (processedFiles \<lparr> processedFiles = [''/in/new.edi''],
              skippedItems = [],
              processingErrors =
                [\<lparr> pe_path = ''/in/sub'',
                    errorMessage = ''requested remote file sub, but it is not a file'' \<rparr>,
                 \<lparr> pe_path = ''/in/missing'',
                    errorMessage =
                      ''expected exactly one match for list of single file /in/missing'' \<rparr>] \<rparr>) + mset (map si_path (skippedItems \<lparr> processedFiles = [''/in/new.edi''],
              skippedItems = [],
              processingErrors =
                [\<lparr> pe_path = ''/in/sub'',
                    errorMessage = ''requested remote file sub, but it is not a file'' \<rparr>,
                 \<lparr> pe_path = ''/in/missing'',
                    errorMessage =
                      ''expected exactly one match for list of single file /in/missing'' \<rparr>] \<rparr>))
        + mset (map pe_path (processingErrors \<lparr> processedFiles = [''/in/new.edi''],
              skippedItems = [],
              processingErrors =
                [\<lparr> pe_path = ''/in/sub'',
                    errorMessage = ''requested remote file sub, but it is not a file'' \<rparr>,
                 \<lparr> pe_path = ''/in/missing'',
                    errorMessage =
                      ''expected exactly one match for list of single file /in/missing'' \<rparr>] \<rparr>))
      = mset (map si_path (case rd_skippedItems fd of None \<Rightarrow> [] | Some items \<Rightarrow> items))
        + mset (map pe_path (case rd_processingErrors fd of None \<Rightarrow> [] | Some errs \<Rightarrow> errs))
        + mset (map (\<lambda>x. remoteFilePath demoSftp (remotePath (demoPoll\<lparr> remoteFiles := Some [''new.edi'', ''sub'', ''missing'', ''old.edi''] \<rparr>)) (fi_name x))
             (takeWhile (\<lambda>x. \<not> isStale demoSftp (demoPoll\<lparr> remoteFiles := Some [''new.edi'', ''sub'', ''missing'', ''old.edi''] \<rparr>) x) (filesToProcess fd)
                @ take 1 (dropWhile (\<lambda>x. \<not> isStale demoSftp (demoPoll\<lparr> remoteFiles := Some [''new.edi'', ''sub'', ''missing'', ''old.edi''] \<rparr>) x) (filesToProcess fd))))
    \<and> (remoteFiles (demoPoll\<lparr> remoteFiles := Some [''new.edi'', ''sub'', ''missing'', ''old.edi''] \<rparr>) = None \<or> remoteFiles (demoPoll\<lparr> remoteFiles := Some [''new.edi'', ''sub'', ''missing'', ''old.edi''] \<rparr>) = Some [] \<longrightarrow>
         (\<exists>entries. sftp_list demoSftp (remotePath (demoPoll\<lparr> remoteFiles := Some [''new.edi'', ''sub'', ''missing'', ''old.edi''] \<rparr>)) = Inr entries
            \<and> fd = \<lparr> filesToProcess = filter (\<lambda>x. fi_type x = ''-'') entries,
                     rd_skippedItems =
                       Some (map (\<lambda>x. \<lparr> si_path = remoteFilePath demoSftp (remotePath (demoPoll\<lparr> remoteFiles := Some [''new.edi'', ''sub'', ''missing'', ''old.edi''] \<rparr>)) (fi_name x),
                                         si_reason = NotAFile \<rparr>)
                               (filter (\<lambda>x. fi_type x \<noteq> ''-'') entries)),
                     rd_processingErrors = None \<rparr>))
    \<and> (\<forall>names. remoteFiles (demoPoll\<lparr> remoteFiles := Some [''new.edi'', ''sub'', ''missing'', ''old.edi''] \<rparr>) = Some names \<and> names \<noteq> [] \<longrightarrow>
         fd = \<lparr> filesToProcess =
                  concat (map (\<lambda>n. case sftp_list demoSftp (remoteFilePath demoSftp (remotePath (demoPoll\<lparr> remoteFiles := Some [''new.edi'', ''sub'', ''missing'', ''old.edi''] \<rparr>)) n) of
                                      Inr [x] \<Rightarrow> if fi_type x = ''-'' then [x] else []
                                    | _ \<Rightarrow> [])
                    (takeWhile (\<lambda>n. \<exists>x. sftp_list demoSftp (remoteFilePath demoSftp (remotePath (demoPoll\<lparr> remoteFiles := Some [''new.edi'', ''sub'', ''missing'', ''old.edi''] \<rparr>)) n)
                                          = Inr [x]) names
                     @ take 1 (dropWhile
                         (\<lambda>n. \<exists>x. sftp_list demoSftp (remoteFilePath demoSftp (remotePath (demoPoll\<lparr> remoteFiles := Some [''new.edi'', ''sub'', ''missing'', ''old.edi''] \<rparr>)) n)
                                  = Inr [x]) names))),
                rd_skippedItems = None,
                rd_processingErrors = Some
                  (concat (map (\<lambda>n. case sftp_list demoSftp (remoteFilePath demoSftp (remotePath (demoPoll\<lparr> remoteFiles := Some [''new.edi'', ''sub'', ''missing'', ''old.edi''] \<rparr>)) n) of
                                      Inr [x] \<Rightarrow>
                                        if fi_type x = ''-'' then []
                                        else [\<lparr> pe_path = remoteFilePath demoSftp (remotePath (demoPoll\<lparr> remoteFiles := Some [''new.edi'', ''sub'', ''missing'', ''old.edi''] \<rparr>)) n,
                                                errorMessage = ''requested remote file '' @ n
                                                  @ '', but it is not a file'' \<rparr>]
                                    | _ \<Rightarrow>
                                        [\<lparr> pe_path = remoteFilePath demoSftp (remotePath (demoPoll\<lparr> remoteFiles := Some [''new.edi'', ''sub'', ''missing'', ''old.edi''] \<rparr>)) n,
                                           errorMessage =
                                             ''expected exactly one match for list of single file ''
                                               @ remoteFilePath demoSftp (remotePath (demoPoll\<lparr> remoteFiles := Some [''new.edi'', ''sub'', ''missing'', ''old.edi''] \<rparr>)) n \<rparr>])
                    (takeWhile (\<lambda>n. \<exists>x. sftp_list demoSftp (remoteFilePath demoSftp (remotePath (demoPoll\<lparr> remoteFiles := Some [''new.edi'', ''sub'', ''missing'', ''old.edi''] \<rparr>)) n)
                                          = Inr [x]) names
                     @ take 1 (dropWhile
                         (\<lambda>n. \<exists>x. sftp_list demoSftp (remoteFilePath demoSftp (remotePath (demoPoll\<lparr> remoteFiles := Some [''new.edi'', ''sub'', ''missing'', ''old.edi''] \<rparr>)) n)
                                  = Inr [x]) names)))) \<rparr>))"
  by (rule conjI [OF reached_entries_in_one_bucket [OF demo_poll]
                     reached_entries_in_one_bucket [OF demo_named_poll]])

section \<open>Resolution of an explicit list\<close>

lemma specifiedLoop_single_matches:
  assumes "map (\<lambda>n. sftp_list env (remoteFilePath env dir n)) pre = map (\<lambda>x. Inr [x]) found"
  shows "specifiedLoop env dir (pre @ rest) fs es
     = (fst (specifiedLoop env dir rest
               (fs @ filter (\<lambda>x. fi_type x = ''-'') found)
               (es @ map (\<lambda>(n, x). notAFileError env dir n)
                       (filter (\<lambda>(n, x). fi_type x \<noteq> ''-'') (zip pre found)))),
        map (\<lambda>n. ListCall (remoteFilePath env dir n)) pre
          @ snd (specifiedLoop env dir rest
               (fs @ filter (\<lambda>x. fi_type x = ''-'') found)
               (es @ map (\<lambda>(n, x). notAFileError env dir n)
                       (filter (\<lambda>(n, x). fi_type x \<noteq> ''-'') (zip pre found)))))"
  using assms
proof (induction pre arbitrary: found fs es)
  case Nil
  then show ?case by simp
next
  case (Cons n pre)
  then obtain x found' where found: "found = x # found'"
    by (cases found) auto
  with Cons.prems have here: "sftp_list env (remoteFilePath env dir n) = Inr [x]"
    and rest: "map (\<lambda>n. sftp_list env (remoteFilePath env dir n)) pre = map (\<lambda>x. Inr [x]) found'"
    by simp_all
  show ?case
  proof (cases "fi_type x = ''-''")
    case True
    with here found Cons.IH [OF rest, of "fs @ [x]" es] show ?thesis
      by (simp add: split_beta)
  next
    case False
    with here found Cons.IH [OF rest, of fs "es @ [notAFileError env dir n]"] show ?thesis
      by (simp add: split_beta)
  qed
qed

lemma specifiedLoop_cut:
  assumes "sftp_list env (remoteFilePath env dir a) = Inr listResult" and "length listResult \<noteq> 1"
  shows "specifiedLoop env dir (before @ a # post) fs es
           = specifiedLoop env dir (before @ [a]) fs es"
proof (induction before arbitrary: fs es)
  case Nil
  show ?case
    by (simp only: append_Nil specifiedLoop_no_single_match [OF assms])
next
  case (Cons n before)
  show ?case
  proof (cases "sftp_list env (remoteFilePath env dir n)")
    case (Inl e)
    then show ?thesis by simp
  next
    case (Inr found)
    show ?thesis
    proof (cases "\<exists>x. found = [x]")
      case True
      then obtain x where "found = [x]" by blast
      with Inr Cons.IH [of "fs @ [x]" es] Cons.IH [of fs "es @ [notAFileError env dir n]"]
      show ?thesis by (simp add: split_beta)
    next
      case False
      then have "length found \<noteq> 1"
        by (cases found) auto
      from specifiedLoop_no_single_match [OF Inr this]
      show ?thesis by simp
    qed
  qed
qed

text \<open>
  The claim C3 as stated fails for an entry whose single match is not a plain file: the
  error is recorded and the next named entry is listed and resolved all the same.
\<close>

theorem resolution_continues_after_non_file:
  "getSpecifiedFileDetails demoSftp ''/in'' [''sub'', ''new.edi'']
     = (Inr \<lparr> filesToProcess = [newFile],
              rd_skippedItems = None,
              rd_processingErrors =
                Some [\<lparr> pe_path = ''/in/sub'',
                        errorMessage = ''requested remote file sub, but it is not a file'' \<rparr>] \<rparr>,
        [ListCall ''/in/sub'', ListCall ''/in/new.edi''])"
  by (simp add: getSpecifiedFileDetails_def remoteFilePath_def demoSftp_def subDir_def
      newFile_def notAFileError_def)

text \<open>
  C3, amended. A named entry whose listing has no or several matches is recorded as a
  processing error and ends the resolution: no later named entry is listed, and the
  selection is that of the list cut after this entry, whatever stands before it. A named
  entry whose single match is not a plain file is recorded as a processing error too, and
  the resolution goes on with the next entry. Neither is fatal: the selection returns
  its candidates and errors.
\<close>

theorem explicit_list_resolution:
  assumes "map (\<lambda>n. sftp_list env (remoteFilePath env dir n)) pre = map (\<lambda>x. Inr [x]) found"
  shows "getSpecifiedFileDetails env dir pre
      = (Inr \<lparr> filesToProcess = filter (\<lambda>x. fi_type x = ''-'') found,
               rd_skippedItems = None,
               rd_processingErrors =
                 Some (map (\<lambda>(n, x). notAFileError env dir n)
                         (filter (\<lambda>(n, x). fi_type x \<noteq> ''-'') (zip pre found))) \<rparr>,
         map (\<lambda>n. ListCall (remoteFilePath env dir n)) pre)
    \<and> (sftp_list env (remoteFilePath env dir a) = Inr listResult \<and> length listResult \<noteq> 1 \<longrightarrow>
         getSpecifiedFileDetails env dir (pre @ a # post)
           = (Inr \<lparr> filesToProcess = filter (\<lambda>x. fi_type x = ''-'') found,
                    rd_skippedItems = None,
                    rd_processingErrors =
                      Some (map (\<lambda>(n, x). notAFileError env dir n)
                              (filter (\<lambda>(n, x). fi_type x \<noteq> ''-'') (zip pre found))
                            @ [expectedOneMatchError env dir a]) \<rparr>,
              map (\<lambda>n. ListCall (remoteFilePath env dir n)) pre
                @ [ListCall (remoteFilePath env dir a)])
       \<and> getSpecifiedFileDetails env dir (before @ a # post)
           = getSpecifiedFileDetails env dir (before @ [a]))"
proof
  show "getSpecifiedFileDetails env dir pre
      = (Inr \<lparr> filesToProcess = filter (\<lambda>x. fi_type x = ''-'') found,
               rd_skippedItems = None,
               rd_processingErrors =
                 Some (map (\<lambda>(n, x). notAFileError env dir n)
                         (filter (\<lambda>(n, x). fi_type x \<noteq> ''-'') (zip pre found))) \<rparr>,
         map (\<lambda>n. ListCall (remoteFilePath env dir n)) pre)"
    using specifiedLoop_single_matches [OF assms, of "[]" "[]" "[]"]
    by (simp add: getSpecifiedFileDetails_def)
next
  show "sftp_list env (remoteFilePath env dir a) = Inr listResult \<and> length listResult \<noteq> 1 \<longrightarrow>
         getSpecifiedFileDetails env dir (pre @ a # post)
           = (Inr \<lparr> filesToProcess = filter (\<lambda>x. fi_type x = ''-'') found,
                    rd_skippedItems = None,
                    rd_processingErrors =
                      Some (map (\<lambda>(n, x). notAFileError env dir n)
                              (filter (\<lambda>(n, x). fi_type x \<noteq> ''-'') (zip pre found))
                            @ [expectedOneMatchError env dir a]) \<rparr>,
              map (\<lambda>n. ListCall (remoteFilePath env dir n)) pre
                @ [ListCall (remoteFilePath env dir a)])
       \<and> getSpecifiedFileDetails env dir (before @ a # post)
           = getSpecifiedFileDetails env dir (before @ [a])"
  proof
    assume h: "sftp_list env (remoteFilePath env dir a) = Inr listResult \<and> length listResult \<noteq> 1"
    then have stop: "specifiedLoop env dir (a # post) fs es
       = (Inr \<lparr> filesToProcess = fs, rd_skippedItems = None,
                rd_processingErrors = Some (es @ [expectedOneMatchError env dir a]) \<rparr>,
          [ListCall (remoteFilePath env dir a)])" for fs es
      by (blast intro: specifiedLoop_no_single_match)
    have closed: "getSpecifiedFileDetails env dir (pre @ a # post)
           = (Inr \<lparr> filesToProcess = filter (\<lambda>x. fi_type x = ''-'') found,
                    rd_skippedItems = None,
                    rd_processingErrors =
                      Some (map (\<lambda>(n, x). notAFileError env dir n)
                              (filter (\<lambda>(n, x). fi_type x \<noteq> ''-'') (zip pre found))
                            @ [expectedOneMatchError env dir a]) \<rparr>,
              map (\<lambda>n. ListCall (remoteFilePath env dir n)) pre
                @ [ListCall (remoteFilePath env dir a)])"
      unfolding getSpecifiedFileDetails_def specifiedLoop_single_matches [OF assms] stop
      by simp
    from h have cut: "getSpecifiedFileDetails env dir (before @ a # post)
           = getSpecifiedFileDetails env dir (before @ [a])"
      unfolding getSpecifiedFileDetails_def by (blast intro: specifiedLoop_cut)
    from closed cut
    show "getSpecifiedFileDetails env dir (pre @ a # post)
           = (Inr \<lparr> filesToProcess = filter (\<lambda>x. fi_type x = ''-'') found,
                    rd_skippedItems = None,
                    rd_processingErrors =
                      Some (map (\<lambda>(n, x). notAFileError env dir n)
                              (filter (\<lambda>(n, x). fi_type x \<noteq> ''-'') (zip pre found))
                            @ [expectedOneMatchError env dir a]) \<rparr>,
              map (\<lambda>n. ListCall (remoteFilePath env dir n)) pre
                @ [ListCall (remoteFilePath env dir a)])
       \<and> getSpecifiedFileDetails env dir (before @ a # post)
           = getSpecifiedFileDetails env dir (before @ [a])"
      by (rule conjI)
  qed
qed

theorem explicit_list_resolution_witness:
  "getSpecifiedFileDetails demoSftp ''/in'' [''new.edi'', ''sub'', ''missing'', ''old.edi'']
     = (Inr \<lparr> filesToProcess = [newFile],
              rd_skippedItems = None,
              rd_processingErrors =
                Some [\<lparr> pe_path = ''/in/sub'',
                        errorMessage = ''requested remote file sub, but it is not a file'' \<rparr>,
                      \<lparr> pe_path = ''/in/missing'',
                        errorMessage =
                          ''expected exactly one match for list of single file /in/missing'' \<rparr>] \<rparr>,
        [ListCall ''/in/new.edi'', ListCall ''/in/sub'', ListCall ''/in/missing''])"
proof -
  have pre: "map (\<lambda>n. sftp_list demoSftp (remoteFilePath demoSftp ''/in'' n)) [''new.edi'', ''sub'']
               = map (\<lambda>x. Inr [x]) [newFile, subDir]"
    by (simp add: remoteFilePath_def demoSftp_def)
  have a: "sftp_list demoSftp (remoteFilePath demoSftp ''/in'' ''missing'') = Inr []
             \<and> length ([] :: FileInfo list) \<noteq> 1"
    by (simp add: remoteFilePath_def demoSftp_def)
  from explicit_list_resolution
         [OF pre, THEN conjunct2, THEN mp, OF a, THEN conjunct1, of "[''old.edi'']"]
  show ?thesis
    by (simp add: remoteFilePath_def demoSftp_def subDir_def newFile_def notAFileError_def
        expectedOneMatchError_def)
qed

section \<open>Connection lifecycle\<close>

lemma throwing_selection_skips_end:
  assumes "sftp_connect env (config (connectionDetails cfg)) = Inr ()"
    and "fst (selectFileDetails env cfg) = Inl e"
  shows "fst (pollSftp env cfg) = Inl e \<and> EndCall \<notin> set (snd (pollSftp env cfg))"
proof -
  obtain calls where sel: "selectFileDetails env cfg = (Inl e, calls)"
    using assms(2) by (cases "selectFileDetails env cfg") simp
  with selection_only_lists [of env cfg] have "EndCall \<notin> set calls" by simp
  with assms(1) sel show ?thesis by (simp add: pollSftp_def)
qed

lemma returning_poll_ends_connection:
  assumes "pollSftp env cfg = (Inr res, calls)"
  shows "last calls = EndCall"
  using assms
  by (auto simp: pollSftp_def split_beta split: sum.splits prod.splits)

text \<open>
  C4. The connection is to be released on every exit path of the poll. The code releases
  it on the path that returns (\<open>end\<close> is the last request of every returning poll), and
  not on the path of a listing that throws: here the poll has connected and listed,
  the error of the listing goes to the caller, and \<open>end\<close> is not among the requests.
\<close>

theorem listing_error_skips_end:
  "pollSftp demoSftp (demoPoll\<lparr> remotePath := ''/gone'' \<rparr>)
     = (Inl (ErrorWith ''No such file''), [Connect, ListCall ''/gone''])
   \<and> sftp_connect demoSftp (config (connectionDetails (demoPoll\<lparr> remotePath := ''/gone'' \<rparr>)))
       = Inr ()
   \<and> EndCall \<notin> set (snd (pollSftp demoSftp (demoPoll\<lparr> remotePath := ''/gone'' \<rparr>)))
   \<and> EndCall \<in> set (snd (pollSftp demoSftp demoPoll))"
proof -
  have thrown: "pollSftp demoSftp (demoPoll\<lparr> remotePath := ''/gone'' \<rparr>)
     = (Inl (ErrorWith ''No such file''), [Connect, ListCall ''/gone''])"
    by (simp add: pollSftp_def selectFileDetails_def getAllFileDetailsForPath_def demoPoll_def
        demoSftp_def)
  have connect: "sftp_connect demoSftp c = Inr ()" for c
    by (simp add: demoSftp_def)
  show ?thesis
    unfolding thrown demo_poll by (simp add: connect)
qed

section \<open>The watermark in the store\<close>

lemma pollerHandler_changed:
  assumes "snd (pollerHandler env st ftpConfigId) \<noteq> st"
  shows "\<exists>m cfg poll results.
      ph_recordNewExecution env (ph_generateExecutionId env) = Inr ()
    \<and> getValueThrows env = None
    \<and> FtpPollerConfigMap_parse env (st ftpConfigStashKey) = Inr m
    \<and> m ftpConfigId = Some cfg
    \<and> pollerHandlerMap env (protocol (connectionDetails cfg)) = Some poll
    \<and> poll cfg = Inr results
    \<and> processingErrors results = []
    \<and> (\<forall>e. setValueThrows env \<noteq> Some (e, False))
    \<and> snd (pollerHandler env st ftpConfigId)
        = st(ftpConfigStashKey \<mapsto>
             ConfigMapValue (m(ftpConfigId \<mapsto> cfg\<lparr> lastPollTime := Some (newDate env) \<rparr>)))"
  using assms
  by (auto simp: pollerHandler_def Let_def split: sum.splits option.splits if_splits prod.splits)

lemma pollerHandler_clean:
  assumes "ph_recordNewExecution env (ph_generateExecutionId env) = Inr ()"
    and "getValueThrows env = None"
    and "FtpPollerConfigMap_parse env (st ftpConfigStashKey) = Inr m"
    and "m ftpConfigId = Some cfg"
    and "pollerHandlerMap env (protocol (connectionDetails cfg)) = Some poll"
    and "poll cfg = Inr results"
    and "processingErrors results = []"
    and "setValueThrows env = None"
  shows "pollerHandler env st ftpConfigId
     = ((case ph_markExecutionAsSuccessful env (ph_generateExecutionId env) of
           Inr u \<Rightarrow> Inr (PollResults results)
         | Inl e \<Rightarrow> Inr (PollFailure (ph_generateExecutionId env) (normalizeCaught e) None)),
        st(ftpConfigStashKey \<mapsto>
           ConfigMapValue (m(ftpConfigId \<mapsto> cfg\<lparr> lastPollTime := Some (newDate env) \<rparr>))))"
  using assms by (simp add: pollerHandler_def Let_def split: sum.split)

lemma pollerHandler_other_keys:
  "key \<noteq> ftpConfigStashKey \<Longrightarrow> snd (pollerHandler env st ftpConfigId) key = st key"
  by (cases "snd (pollerHandler env st ftpConfigId) = st")
     (auto dest!: pollerHandler_changed)

lemma pollerHandler_stored_entries:
  assumes "st ftpConfigStashKey = Some (ConfigMapValue stored)"
    and "FtpPollerConfigMap_parse env (Some (ConfigMapValue stored)) = Inr stored"
  shows "\<exists>stored'.
      snd (pollerHandler env st ftpConfigId) ftpConfigStashKey = Some (ConfigMapValue stored')
    \<and> (\<forall>k. k \<noteq> ftpConfigId \<longrightarrow> stored' k = stored k)
    \<and> (stored' ftpConfigId = stored ftpConfigId
        \<or> (\<exists>cfg. stored ftpConfigId = Some cfg
              \<and> stored' ftpConfigId = Some (cfg\<lparr> lastPollTime := Some (newDate env) \<rparr>)))"
proof (cases "snd (pollerHandler env st ftpConfigId) = st")
  case True
  with assms(1) show ?thesis by auto
next
  case False
  from pollerHandler_changed [OF False] assms obtain cfg where
    "stored ftpConfigId = Some cfg"
    and "snd (pollerHandler env st ftpConfigId)
        = st(ftpConfigStashKey \<mapsto>
             ConfigMapValue (stored(ftpConfigId \<mapsto> cfg\<lparr> lastPollTime := Some (newDate env) \<rparr>)))"
    by auto
  then show ?thesis by auto
qed

lemma demo_poll_with_empty_list:
  "pollSftp demoSftp (demoPoll\<lparr> remoteFiles := Some [] \<rparr>)
     = (Inr \<lparr> processedFiles = [],
              skippedItems = [\<lparr> si_path = ''/in/sub'', si_reason = NotAFile \<rparr>,
                              \<lparr> si_path = ''/in/old.edi'', si_reason = NotNewer 5 10 \<rparr>],
              processingErrors = [] \<rparr>,
        [Connect, ListCall ''/in'', EndCall])"
proof -
  let ?cfg = "demoPoll\<lparr> remoteFiles := Some [] \<rparr>"
  have c: "sftp_connect demoSftp (config (connectionDetails ?cfg)) = Inr ()"
    by (simp add: demoSftp_def)
  have sel: "selectFileDetails demoSftp ?cfg
     = (Inr \<lparr> filesToProcess = [oldFile, newFile],
              rd_skippedItems = Some [\<lparr> si_path = ''/in/sub'', si_reason = NotAFile \<rparr>],
              rd_processingErrors = None \<rparr>,
        [ListCall ''/in''])"
    by (simp add: selectFileDetails_def demoPoll_def getAllFileDetailsForPath_def demoSftp_def
        classifyEntry_def oldFile_def newFile_def subDir_def notAFileItem_def remoteFilePath_def)
  show ?thesis
    unfolding pollSftp_run [OF c sel]
    by (simp add: initialResults_def isStale_def lastPollTimestamp_def remoteFileTimestamp_def
        staleItem_def remoteFilePath_def demoPoll_def oldFile_def demoSftp_def)
qed

text \<open>
  The claim C8 as stated fails where it says that on a successful update all other
  entries of the stored map are unchanged: the handler writes back the map that
  \<open>FtpPollerConfigMap.parse\<close> returned, not the stored one. Here the parser gives the
  default \<open>[]\<close> to a configuration stored without \<open>remoteFiles\<close>, as a schema with a default
  value does: after the clean poll of \<open>a\<close>, the stored entry \<open>b\<close> has \<open>remoteFiles\<close> set.
\<close>

theorem other_entry_rewritten_as_parsed:
  "demoStore ftpConfigStashKey = Some (ConfigMapValue demoConfigs)
   \<and> demoConfigs ''b'' = Some (demoPoll\<lparr> remotePath := ''/gone'' \<rparr>)
   \<and> remoteFiles (demoPoll\<lparr> remotePath := ''/gone'' \<rparr>) = None
   \<and> fst (pollerHandler
            (demoPollerEnv
               \<lparr> FtpPollerConfigMap_parse :=
                   (\<lambda>v. case v of
                          Some (ConfigMapValue m) \<Rightarrow>
                            Inr (\<lambda>k. map_option
                                       (\<lambda>c. c\<lparr> remoteFiles :=
                                                 Some (case remoteFiles c of
                                                         None \<Rightarrow> [] | Some files \<Rightarrow> files) \<rparr>)
                                       (m k))
                        | _ \<Rightarrow> Inl (Thrown (ErrorWith ''invalid configuration''))) \<rparr>)
            demoStore ''a'')
     = Inr (PollResults
              \<lparr> processedFiles = [],
                skippedItems = [\<lparr> si_path = ''/in/sub'', si_reason = NotAFile \<rparr>,
                                \<lparr> si_path = ''/in/old.edi'', si_reason = NotNewer 5 10 \<rparr>],
                processingErrors = [] \<rparr>)
   \<and> (case snd (pollerHandler
                  (demoPollerEnv
                     \<lparr> FtpPollerConfigMap_parse :=
                         (\<lambda>v. case v of
                                Some (ConfigMapValue m) \<Rightarrow>
                                  Inr (\<lambda>k. map_option
                                             (\<lambda>c. c\<lparr> remoteFiles :=
                                                       Some (case remoteFiles c of
                                                               None \<Rightarrow> []
                                                             | Some files \<Rightarrow> files) \<rparr>)
                                             (m k))
                              | _ \<Rightarrow> Inl (Thrown (ErrorWith ''invalid configuration''))) \<rparr>)
                  demoStore ''a'') ftpConfigStashKey of
         Some (ConfigMapValue stored) \<Rightarrow> stored ''b''
       | _ \<Rightarrow> None)
     = Some (demoPoll\<lparr> remotePath := ''/gone'', remoteFiles := Some [] \<rparr>)"
proof -
  let ?env = "demoPollerEnv
               \<lparr> FtpPollerConfigMap_parse :=
                   (\<lambda>v. case v of
                          Some (ConfigMapValue m) \<Rightarrow>
                            Inr (\<lambda>k. map_option
                                       (\<lambda>c. c\<lparr> remoteFiles :=
                                                 Some (case remoteFiles c of
                                                         None \<Rightarrow> [] | Some files \<Rightarrow> files) \<rparr>)
                                       (m k))
                        | _ \<Rightarrow> Inl (Thrown (ErrorWith ''invalid configuration''))) \<rparr>"
  have poll: "fst (pollSftp (sftp ?env) (demoPoll\<lparr> remoteFiles := Some [] \<rparr>))
     = Inr \<lparr> processedFiles = [],
             skippedItems = [\<lparr> si_path = ''/in/sub'', si_reason = NotAFile \<rparr>,
                             \<lparr> si_path = ''/in/old.edi'', si_reason = NotNewer 5 10 \<rparr>],
             processingErrors = [] \<rparr>"
    by (simp add: demoPollerEnv_def demo_poll_with_empty_list)
  have run: "pollerHandler ?env demoStore ''a''
     = (Inr (PollResults
              \<lparr> processedFiles = [],
                skippedItems = [\<lparr> si_path = ''/in/sub'', si_reason = NotAFile \<rparr>,
                                \<lparr> si_path = ''/in/old.edi'', si_reason = NotNewer 5 10 \<rparr>],
                processingErrors = [] \<rparr>),
        demoStore(ftpConfigStashKey \<mapsto>
          ConfigMapValue
            ((\<lambda>k. map_option
                    (\<lambda>c. c\<lparr> remoteFiles :=
                              Some (case remoteFiles c of None \<Rightarrow> [] | Some files \<Rightarrow> files) \<rparr>)
                    (demoConfigs k))
             (''a'' \<mapsto> demoPoll\<lparr> remoteFiles := Some [], lastPollTime := Some 200 \<rparr>))))"
  proof -
    have parse: "FtpPollerConfigMap_parse ?env (demoStore ftpConfigStashKey)
        = Inr (\<lambda>k. map_option
                    (\<lambda>c. c\<lparr> remoteFiles :=
                              Some (case remoteFiles c of None \<Rightarrow> [] | Some files \<Rightarrow> files) \<rparr>)
                    (demoConfigs k))"
      by (simp add: demoStore_def)
    have entry: "map_option
                    (\<lambda>c. c\<lparr> remoteFiles :=
                              Some (case remoteFiles c of None \<Rightarrow> [] | Some files \<Rightarrow> files) \<rparr>)
                    (demoConfigs ''a'')
                  = Some (demoPoll\<lparr> remoteFiles := Some [] \<rparr>)"
      by (simp add: demoConfigs_def demoPoll_def)
    have handlerMap: "pollerHandlerMap ?env
                          (protocol (connectionDetails (demoPoll\<lparr> remoteFiles := Some [] \<rparr>)))
                        = Some (\<lambda>cfg. fst (pollSftp (sftp ?env) cfg))"
      by (simp add: pollerHandlerMap_def demoPoll_def)
    have rec: "ph_recordNewExecution ?env (ph_generateExecutionId ?env) = Inr ()"
      and get: "getValueThrows ?env = None"
      and set: "setValueThrows ?env = None"
      and now: "newDate ?env = 200"
      and mark: "ph_markExecutionAsSuccessful ?env (ph_generateExecutionId ?env) = Inr ()"
      by (simp_all add: demoPollerEnv_def)
    have clean: "processingErrors
                   \<lparr> processedFiles = [],
                     skippedItems = [\<lparr> si_path = ''/in/sub'', si_reason = NotAFile \<rparr>,
                                     \<lparr> si_path = ''/in/old.edi'', si_reason = NotNewer 5 10 \<rparr>],
                     processingErrors = [] \<rparr> = []"
      by simp
    show ?thesis
      unfolding pollerHandler_clean
                  [where env = ?env and st = demoStore and ftpConfigId = "''a''"
                     and m = "\<lambda>k. map_option
                                  (\<lambda>c. c\<lparr> remoteFiles :=
                                            Some (case remoteFiles c of
                                                    None \<Rightarrow> [] | Some files \<Rightarrow> files) \<rparr>)
                                  (demoConfigs k)"
                     and cfg = "demoPoll\<lparr> remoteFiles := Some [] \<rparr>"
                     and poll = "\<lambda>cfg. fst (pollSftp (sftp ?env) cfg)",
                   OF rec get parse entry handlerMap poll clean set] mark now
      by simp
  qed
  have a: "demoStore ftpConfigStashKey = Some (ConfigMapValue demoConfigs)"
    and b: "demoConfigs ''b'' = Some (demoPoll\<lparr> remotePath := ''/gone'' \<rparr>)"
    and c: "remoteFiles (demoPoll\<lparr> remotePath := ''/gone'' \<rparr>) = None"
    by (simp_all add: demoStore_def demoConfigs_def demoPoll_def)
  show ?thesis
    unfolding run by (simp add: a b c)
qed

text \<open>
  C8, amended. The poller handler changes the store only when the ledger entry is
  recorded, the stored value is read and parsed, the configuration is found, its protocol
  is known, the poll returns results with an empty \<open>processingErrors\<close> list (skipped items do
  not matter) and \<open>SetValueCommand\<close> has stored its value; the value then stored under the
  one key of the poller configurations is the parsed map with the entry of the polled
  configuration replaced by that configuration with \<open>lastPollTime\<close> set to the current
  date. Every other key of the store is as before. When the stored value is a map that
  the parser returns as it is, every entry of the stored map other than the polled one is
  as before, and the polled one is as before or has the new \<open>lastPollTime\<close>. After a poll
  without processing errors and a \<open>SetValueCommand\<close> that returns, the handler returns the
  results, or the failure of \<open>markExecutionAsSuccessful\<close>. When the poll reports a
  processing error, or throws, the handler returns the failure and the store is
  unchanged.
\<close>

theorem watermark_written_only_after_clean_poll:
  "(snd (pollerHandler env st ftpConfigId) \<noteq> st \<longrightarrow>
      (\<exists>m cfg poll results.
          ph_recordNewExecution env (ph_generateExecutionId env) = Inr ()
        \<and> getValueThrows env = None
        \<and> FtpPollerConfigMap_parse env (st ftpConfigStashKey) = Inr m
        \<and> m ftpConfigId = Some cfg
        \<and> pollerHandlerMap env (protocol (connectionDetails cfg)) = Some poll
        \<and> poll cfg = Inr results
        \<and> processingErrors results = []
        \<and> (\<forall>e. setValueThrows env \<noteq> Some (e, False))
        \<and> snd (pollerHandler env st ftpConfigId)
            = st(ftpConfigStashKey \<mapsto>
                 ConfigMapValue
                   (m(ftpConfigId \<mapsto> cfg\<lparr> lastPollTime := Some (newDate env) \<rparr>)))))
   \<and> (\<forall>key. key \<noteq> ftpConfigStashKey \<longrightarrow>
          snd (pollerHandler env st ftpConfigId) key = st key)
   \<and> (st ftpConfigStashKey = Some (ConfigMapValue stored)
      \<and> FtpPollerConfigMap_parse env (Some (ConfigMapValue stored)) = Inr stored \<longrightarrow>
        (\<exists>stored'.
            snd (pollerHandler env st ftpConfigId) ftpConfigStashKey
              = Some (ConfigMapValue stored')
          \<and> (\<forall>k. k \<noteq> ftpConfigId \<longrightarrow> stored' k = stored k)
          \<and> (stored' ftpConfigId = stored ftpConfigId
              \<or> (\<exists>cfg. stored ftpConfigId = Some cfg
                    \<and> stored' ftpConfigId
                        = Some (cfg\<lparr> lastPollTime := Some (newDate env) \<rparr>)))))
   \<and> (ph_recordNewExecution env (ph_generateExecutionId env) = Inr ()
      \<and> getValueThrows env = None
      \<and> FtpPollerConfigMap_parse env (st ftpConfigStashKey) = Inr m
      \<and> m ftpConfigId = Some cfg
      \<and> pollerHandlerMap env (protocol (connectionDetails cfg)) = Some poll \<longrightarrow>
        (poll cfg = Inr results \<and> processingErrors results = []
           \<and> setValueThrows env = None \<longrightarrow>
           pollerHandler env st ftpConfigId
             = ((case ph_markExecutionAsSuccessful env (ph_generateExecutionId env) of
                   Inr u \<Rightarrow> Inr (PollResults results)
                 | Inl e \<Rightarrow>
                     Inr (PollFailure (ph_generateExecutionId env) (normalizeCaught e) None)),
                st(ftpConfigStashKey \<mapsto>
                   ConfigMapValue
                     (m(ftpConfigId \<mapsto> cfg\<lparr> lastPollTime := Some (newDate env) \<rparr>)))))
      \<and> (poll cfg = Inr results \<and> processingErrors results \<noteq> [] \<longrightarrow>
           pollerHandler env st ftpConfigId
             = (Inr (PollFailure (ph_generateExecutionId env) ProcessingErrorsEncountered
                       (Some (processingErrors results))), st))
      \<and> (poll cfg = Inl t \<longrightarrow>
           pollerHandler env st ftpConfigId
             = (Inr (PollFailure (ph_generateExecutionId env) (normalizeCaught (Thrown t)) None),
                st)))
   \<and> pollerHandlerMap env ''sftp'' = Some (\<lambda>cfg. fst (pollSftp (sftp env) cfg))"
proof (intro conjI impI allI)
  assume "snd (pollerHandler env st ftpConfigId) \<noteq> st"
  then show "\<exists>m cfg poll results.
          ph_recordNewExecution env (ph_generateExecutionId env) = Inr ()
        \<and> getValueThrows env = None
        \<and> FtpPollerConfigMap_parse env (st ftpConfigStashKey) = Inr m
        \<and> m ftpConfigId = Some cfg
        \<and> pollerHandlerMap env (protocol (connectionDetails cfg)) = Some poll
        \<and> poll cfg = Inr results
        \<and> processingErrors results = []
        \<and> (\<forall>e. setValueThrows env \<noteq> Some (e, False))
        \<and> snd (pollerHandler env st ftpConfigId)
            = st(ftpConfigStashKey \<mapsto>
                 ConfigMapValue
                   (m(ftpConfigId \<mapsto> cfg\<lparr> lastPollTime := Some (newDate env) \<rparr>)))"
    by (rule pollerHandler_changed)
next
  fix key :: string
  assume "key \<noteq> ftpConfigStashKey"
  then show "snd (pollerHandler env st ftpConfigId) key = st key"
    by (rule pollerHandler_other_keys)
next
  assume "st ftpConfigStashKey = Some (ConfigMapValue stored)
      \<and> FtpPollerConfigMap_parse env (Some (ConfigMapValue stored)) = Inr stored"
  then show "\<exists>stored'.
            snd (pollerHandler env st ftpConfigId) ftpConfigStashKey
              = Some (ConfigMapValue stored')
          \<and> (\<forall>k. k \<noteq> ftpConfigId \<longrightarrow> stored' k = stored k)
          \<and> (stored' ftpConfigId = stored ftpConfigId
              \<or> (\<exists>cfg. stored ftpConfigId = Some cfg
                    \<and> stored' ftpConfigId
                        = Some (cfg\<lparr> lastPollTime := Some (newDate env) \<rparr>)))"
    using pollerHandler_stored_entries [of st stored env ftpConfigId] by blast
next
  assume h: "ph_recordNewExecution env (ph_generateExecutionId env) = Inr ()
      \<and> getValueThrows env = None
      \<and> FtpPollerConfigMap_parse env (st ftpConfigStashKey) = Inr m
      \<and> m ftpConfigId = Some cfg
      \<and> pollerHandlerMap env (protocol (connectionDetails cfg)) = Some poll"
    and ok: "poll cfg = Inr results \<and> processingErrors results = []
           \<and> setValueThrows env = None"
  then show "pollerHandler env st ftpConfigId
             = ((case ph_markExecutionAsSuccessful env (ph_generateExecutionId env) of
                   Inr u \<Rightarrow> Inr (PollResults results)
                 | Inl e \<Rightarrow>
                     Inr (PollFailure (ph_generateExecutionId env) (normalizeCaught e) None)),
                st(ftpConfigStashKey \<mapsto>
                   ConfigMapValue
                     (m(ftpConfigId \<mapsto> cfg\<lparr> lastPollTime := Some (newDate env) \<rparr>))))"
    by (simp add: pollerHandler_def Let_def split: sum.split)
next
  assume h: "ph_recordNewExecution env (ph_generateExecutionId env) = Inr ()
      \<and> getValueThrows env = None
      \<and> FtpPollerConfigMap_parse env (st ftpConfigStashKey) = Inr m
      \<and> m ftpConfigId = Some cfg
      \<and> pollerHandlerMap env (protocol (connectionDetails cfg)) = Some poll"
    and bad: "poll cfg = Inr results \<and> processingErrors results \<noteq> []"
  then show "pollerHandler env st ftpConfigId
             = (Inr (PollFailure (ph_generateExecutionId env) ProcessingErrorsEncountered
                       (Some (processingErrors results))), st)"
    by (simp add: pollerHandler_def Let_def)
next
  assume h: "ph_recordNewExecution env (ph_generateExecutionId env) = Inr ()
      \<and> getValueThrows env = None
      \<and> FtpPollerConfigMap_parse env (st ftpConfigStashKey) = Inr m
      \<and> m ftpConfigId = Some cfg
      \<and> pollerHandlerMap env (protocol (connectionDetails cfg)) = Some poll"
    and bad: "poll cfg = Inl t"
  then show "pollerHandler env st ftpConfigId
             = (Inr (PollFailure (ph_generateExecutionId env) (normalizeCaught (Thrown t)) None),
                st)"
    by (simp add: pollerHandler_def Let_def)
next
  show "pollerHandlerMap env ''sftp'' = Some (\<lambda>cfg. fst (pollSftp (sftp env) cfg))"
    by (simp add: pollerHandlerMap_def)
qed

theorem watermark_written_only_after_clean_poll_witness:
  "pollerHandler demoPollerEnv demoStore ''a''
     = (Inr (PollResults
               \<lparr> processedFiles = [],
                 skippedItems = [\<lparr> si_path = ''/in/sub'', si_reason = NotAFile \<rparr>,
                                 \<lparr> si_path = ''/in/old.edi'', si_reason = NotNewer 5 10 \<rparr>],
                 processingErrors = [] \<rparr>),
        demoStore(ftpConfigStashKey \<mapsto>
          ConfigMapValue (demoConfigs(''a'' \<mapsto> demoPoll\<lparr> lastPollTime := Some 200 \<rparr>))))
   \<and> pollerHandler demoPollerEnv demoStore ''b''
     = (Inr (PollFailure ''poll-1'' (Thrown (ErrorWith ''No such file'')) None), demoStore)
   \<and> pollerHandler demoPollerEnv demoStore ''c''
     = (Inr (PollFailure ''poll-1'' ProcessingErrorsEncountered
               (Some [\<lparr> pe_path = ''/in/old.edi'', errorMessage = ''get failed'' \<rparr>])),
        demoStore)
   \<and> (\<exists>m cfg poll results.
          ph_recordNewExecution demoPollerEnv (ph_generateExecutionId demoPollerEnv) = Inr ()
        \<and> getValueThrows demoPollerEnv = None
        \<and> FtpPollerConfigMap_parse demoPollerEnv (demoStore ftpConfigStashKey) = Inr m
        \<and> m ''a'' = Some cfg
        \<and> pollerHandlerMap demoPollerEnv (protocol (connectionDetails cfg)) = Some poll
        \<and> poll cfg = Inr results
        \<and> processingErrors results = []
        \<and> (\<forall>e. setValueThrows demoPollerEnv \<noteq> Some (e, False))
        \<and> snd (pollerHandler demoPollerEnv demoStore ''a'')
            = demoStore(ftpConfigStashKey \<mapsto>
                 ConfigMapValue
                   (m(''a'' \<mapsto> cfg\<lparr> lastPollTime := Some (newDate demoPollerEnv) \<rparr>))))
   \<and> (\<exists>stored'.
          snd (pollerHandler demoPollerEnv demoStore ''a'') ftpConfigStashKey
            = Some (ConfigMapValue stored')
        \<and> (\<forall>k. k \<noteq> ''a'' \<longrightarrow> stored' k = demoConfigs k)
        \<and> (stored' ''a'' = demoConfigs ''a''
            \<or> (\<exists>cfg. demoConfigs ''a'' = Some cfg
                  \<and> stored' ''a''
                      = Some (cfg\<lparr> lastPollTime := Some (newDate demoPollerEnv) \<rparr>))))
   \<and> snd (pollerHandler demoPollerEnv demoStore ''a'') ''partnership|s|r''
     = demoStore ''partnership|s|r''"
proof -
  let ?poll = "\<lambda>cfg. fst (pollSftp (sftp demoPollerEnv) cfg)"
  let ?b = "demoPoll\<lparr> remotePath := ''/gone'' \<rparr>"
  let ?c = "demoPoll\<lparr> remoteFiles := Some [''old.edi''], lastPollTime := None \<rparr>"
  let ?err = "\<lparr> pe_path = ''/in/old.edi'', errorMessage = ''get failed'' \<rparr>"
  let ?results = "\<lparr> processedFiles = [],
                    skippedItems = [\<lparr> si_path = ''/in/sub'', si_reason = NotAFile \<rparr>,
                                    \<lparr> si_path = ''/in/old.edi'', si_reason = NotNewer 5 10 \<rparr>],
                    processingErrors = [] \<rparr>"
  have rec: "ph_recordNewExecution demoPollerEnv (ph_generateExecutionId demoPollerEnv) = Inr ()"
    and get: "getValueThrows demoPollerEnv = None"
    and set: "setValueThrows demoPollerEnv = None"
    and mark: "ph_markExecutionAsSuccessful demoPollerEnv (ph_generateExecutionId demoPollerEnv)
                 = Inr ()"
    and stored: "demoStore ftpConfigStashKey = Some (ConfigMapValue demoConfigs)"
    and parse: "FtpPollerConfigMap_parse demoPollerEnv (demoStore ftpConfigStashKey) = Inr demoConfigs"
    and parse': "FtpPollerConfigMap_parse demoPollerEnv (Some (ConfigMapValue demoConfigs))
                   = Inr demoConfigs"
    and a: "demoConfigs ''a'' = Some demoPoll"
    and b: "demoConfigs ''b'' = Some ?b"
    and c: "demoConfigs ''c'' = Some ?c"
    and map_a: "pollerHandlerMap demoPollerEnv (protocol (connectionDetails demoPoll)) = Some ?poll"
    and map_b: "pollerHandlerMap demoPollerEnv (protocol (connectionDetails ?b)) = Some ?poll"
    and map_c: "pollerHandlerMap demoPollerEnv (protocol (connectionDetails ?c)) = Some ?poll"
    and now: "newDate demoPollerEnv = 200"
    and id: "ph_generateExecutionId demoPollerEnv = ''poll-1''"
    and env: "sftp demoPollerEnv = demoSftp"
    and other: "''partnership|s|r'' \<noteq> ftpConfigStashKey"
    by (simp_all add: demoPollerEnv_def demoStore_def demoConfigs_def pollerHandlerMap_def
        demoPoll_def ftpConfigStashKey_def)
  have clean: "?poll demoPoll = Inr ?results \<and> processingErrors ?results = []
                 \<and> setValueThrows demoPollerEnv = None"
    by (simp add: env demo_poll set)
  have thrown: "?poll ?b = Inl (ErrorWith ''No such file'')"
    by (simp add: env pollSftp_def selectFileDetails_def getAllFileDetailsForPath_def
        demoPoll_def demoSftp_def)
  have errors: "?poll ?c = Inr \<lparr> processedFiles = [], skippedItems = [],
                                 processingErrors = [?err] \<rparr>
               \<and> processingErrors \<lparr> processedFiles = [], skippedItems = [],
                                     processingErrors = [?err] \<rparr> \<noteq> []"
    by (simp add: env pollSftp_def selectFileDetails_def getSpecifiedFileDetails_def
        demoPoll_def demoSftp_def remoteFilePath_def oldFile_def initialResults_def
        isStale_def lastPollTimestamp_def remoteFileTimestamp_def transferFile_def
        recordOutcome_def)
  note t = watermark_written_only_after_clean_poll
             [where env = demoPollerEnv and st = demoStore and m = demoConfigs]
  from t [where ftpConfigId = "''a''" and cfg = demoPoll and poll = ?poll,
          THEN conjunct2, THEN conjunct2, THEN conjunct2, THEN conjunct1, THEN mp,
          OF conjI [OF rec conjI [OF get conjI [OF parse conjI [OF a map_a]]]],
          THEN conjunct1, THEN mp, OF clean]
  have w: "pollerHandler demoPollerEnv demoStore ''a''
     = (Inr (PollResults ?results),
        demoStore(ftpConfigStashKey \<mapsto>
          ConfigMapValue (demoConfigs(''a'' \<mapsto> demoPoll\<lparr> lastPollTime := Some 200 \<rparr>))))"
    by (simp add: now mark)
  from t [where ftpConfigId = "''b''" and cfg = ?b and poll = ?poll
            and t = "ErrorWith ''No such file''",
          THEN conjunct2, THEN conjunct2, THEN conjunct2, THEN conjunct1, THEN mp,
          OF conjI [OF rec conjI [OF get conjI [OF parse conjI [OF b map_b]]]],
          THEN conjunct2, THEN conjunct2, THEN mp, OF thrown]
  have f: "pollerHandler demoPollerEnv demoStore ''b''
     = (Inr (PollFailure ''poll-1'' (Thrown (ErrorWith ''No such file'')) None), demoStore)"
    by (simp add: id)
  from t [where ftpConfigId = "''c''" and cfg = ?c and poll = ?poll,
          THEN conjunct2, THEN conjunct2, THEN conjunct2, THEN conjunct1, THEN mp,
          OF conjI [OF rec conjI [OF get conjI [OF parse conjI [OF c map_c]]]],
          THEN conjunct2, THEN conjunct1, THEN mp, OF errors]
  have g: "pollerHandler demoPollerEnv demoStore ''c''
     = (Inr (PollFailure ''poll-1'' ProcessingErrorsEncountered (Some [?err])), demoStore)"
    by (simp add: id)
  have "(demoStore(ftpConfigStashKey \<mapsto>
         ConfigMapValue (demoConfigs(''a'' \<mapsto> demoPoll\<lparr> lastPollTime := Some 200 \<rparr>))))
          ftpConfigStashKey \<noteq> demoStore ftpConfigStashKey"
  proof
    assume "(demoStore(ftpConfigStashKey \<mapsto>
         ConfigMapValue (demoConfigs(''a'' \<mapsto> demoPoll\<lparr> lastPollTime := Some 200 \<rparr>))))
          ftpConfigStashKey = demoStore ftpConfigStashKey"
    then have "(demoConfigs(''a'' \<mapsto> demoPoll\<lparr> lastPollTime := Some 200 \<rparr>)) ''a''
                 = demoConfigs ''a''"
      by (simp add: demoStore_def)
    then show False
      by (simp add: demoConfigs_def demoPoll_def)
  qed
  then have "snd (pollerHandler demoPollerEnv demoStore ''a'') \<noteq> demoStore"
    unfolding w by (metis snd_conv)
  from t [where ftpConfigId = "''a''", THEN conjunct1, THEN mp, OF this]
  have h: "\<exists>m cfg poll results.
          ph_recordNewExecution demoPollerEnv (ph_generateExecutionId demoPollerEnv) = Inr ()
        \<and> getValueThrows demoPollerEnv = None
        \<and> FtpPollerConfigMap_parse demoPollerEnv (demoStore ftpConfigStashKey) = Inr m
        \<and> m ''a'' = Some cfg
        \<and> pollerHandlerMap demoPollerEnv (protocol (connectionDetails cfg)) = Some poll
        \<and> poll cfg = Inr results
        \<and> processingErrors results = []
        \<and> (\<forall>e. setValueThrows demoPollerEnv \<noteq> Some (e, False))
        \<and> snd (pollerHandler demoPollerEnv demoStore ''a'')
            = demoStore(ftpConfigStashKey \<mapsto>
                 ConfigMapValue
                   (m(''a'' \<mapsto> cfg\<lparr> lastPollTime := Some (newDate demoPollerEnv) \<rparr>)))" .
  from t [where ftpConfigId = "''a''" and stored = demoConfigs,
          THEN conjunct2, THEN conjunct2, THEN conjunct1, THEN mp, OF conjI [OF stored parse']]
  have i: "\<exists>stored'.
          snd (pollerHandler demoPollerEnv demoStore ''a'') ftpConfigStashKey
            = Some (ConfigMapValue stored')
        \<and> (\<forall>k. k \<noteq> ''a'' \<longrightarrow> stored' k = demoConfigs k)
        \<and> (stored' ''a'' = demoConfigs ''a''
            \<or> (\<exists>cfg. demoConfigs ''a'' = Some cfg
                  \<and> stored' ''a''
                      = Some (cfg\<lparr> lastPollTime := Some (newDate demoPollerEnv) \<rparr>)))" .
  from t [where ftpConfigId = "''a''", THEN conjunct2, THEN conjunct1, THEN spec, THEN mp,
          OF other]
  have j: "snd (pollerHandler demoPollerEnv demoStore ''a'') ''partnership|s|r''
     = demoStore ''partnership|s|r''" .
  from w f g h i j show ?thesis by blast
qed

end
